theory Spec2Isabelle
  imports Complex_Main
begin

section \<open>Data model of the interior-point optimizer\<close>

text \<open>
  The embedding follows \<^verbatim>\<open>src/ParOptInteriorPoint.cpp\<close>. A value of type
  \<^verbatim>\<open>ParOptScalar\<close> or \<^verbatim>\<open>double\<close> is a real number. Arithmetic is exact except where
  the source adds or subtracts one of the two precisions, \<^verbatim>\<open>design_precision\<close> and
  \<^verbatim>\<open>function_precision\<close>: these quantities are of the size of the rounding error of a
  \<^verbatim>\<open>double\<close>, the outcome of the operation depends on its rounding, and the model
  rounds it as IEEE 754 binary64 arithmetic does (\<open>dadd\<close> and \<open>dsub\<close> below). A
  \<^verbatim>\<open>ParOptVec\<close> and a raw array are lists of reals. The optimizer is modelled as
  the run of a single process: the communicator has size one,
  \<^verbatim>\<open>rank = opt_root = 0\<close>, and every reduction or broadcast returns its input. The two
  checkpoint functions, whose behaviour differs between the root process and the
  others, are modelled for one process of a communicator of any size. Printing to
  \<^verbatim>\<open>outfp\<close> and \<^verbatim>\<open>stderr\<close> has no effect on the state and is left out.
\<close>

type_synonym vec = "real list"

datatype barrier_strategy_t =
  PAROPT_MONOTONE | PAROPT_MEHROTRA | PAROPT_COMPLEMENTARITY_FRACTION

datatype norm_type_t = PAROPT_INFTY_NORM | PAROPT_L1_NORM | PAROPT_L2_NORM

datatype starting_point_strategy_t =
  PAROPT_NO_START_STRATEGY | PAROPT_LEAST_SQUARES_MULTIPLIERS | PAROPT_AFFINE_STEP

text \<open>
  The members of the class \<^verbatim>\<open>ParOptInteriorPoint\<close> that the modelled functions read
  or write. The array members carry the suffix \<^verbatim>\<open>vals\<close> that the source gives to the
  pointers it obtains with \<^verbatim>\<open>getArray\<close> (\<^verbatim>\<open>xvals\<close> for \<^verbatim>\<open>x\<close>, \<^verbatim>\<open>zlvals\<close> for \<^verbatim>\<open>zl\<close>,
  and so on); \<^verbatim>\<open>cvals\<close> is the array of \<^verbatim>\<open>Cvec\<close> as in the source, and the dense
  constraint values \<^verbatim>\<open>c\<close> are \<^verbatim>\<open>convals\<close>. The quasi-Newton object \<^verbatim>\<open>qn\<close> is a value
  of an abstract type, \<open>None\<close> for the null pointer; \<^verbatim>\<open>hdiag\<close> likewise.
\<close>

record 'q solver =
  nvars :: nat
  ncon :: nat
  nwcon :: nat
  nwblock :: nat
  opt_root :: nat
  use_lower :: bool
  use_upper :: bool
  dense_inequality :: bool
  sparse_inequality :: bool
  max_bound_val :: real
  rel_bound_barrier :: real
  design_precision :: real
  function_precision :: real
  abs_res_tol :: real
  rel_func_tol :: real
  abs_step_tol :: real
  monotone_barrier_fraction :: real
  monotone_barrier_power :: real
  min_rho_penalty_search :: real
  armijo_constant :: real
  min_fraction_to_boundary :: real
  qn_sigma :: real
  nk_switch_tol :: real
  eisenstat_walker_alpha :: real
  eisenstat_walker_gamma :: real
  max_gmres_rtol :: real
  gmres_atol :: real
  start_affine_multiplier_min :: real
  penalty_gamma :: vec
  barrier_strategy :: barrier_strategy_t
  norm_type :: norm_type_t
  starting_point_strategy :: starting_point_strategy_t
  max_major_iters :: nat
  max_line_iters :: nat
  hessian_reset_freq :: nat
  major_iter_step_check :: int
  use_line_search :: bool
  use_backtracking_alpha :: bool
  use_hvec_product :: bool
  use_diag_hessian :: bool
  use_qn_gmres_precon :: bool
  use_quasi_newton_update :: bool
  sequential_linear_method :: bool
  barrier_param :: real
  rho_penalty_search :: real
  qn :: "'q option"
  hdiag :: "vec option"
  xvals :: vec
  lbvals :: vec
  ubvals :: vec
  zlvals :: vec
  zuvals :: vec
  zwvals :: vec
  swvals :: vec
  zvals :: vec
  svals :: vec
  tvals :: vec
  ztvals :: vec
  pxvals :: vec
  pzlvals :: vec
  pzuvals :: vec
  pzwvals :: vec
  pswvals :: vec
  pzvals :: vec
  psvals :: vec
  ptvals :: vec
  pztvals :: vec
  rxvals :: vec
  rzlvals :: vec
  rzuvals :: vec
  rcwvals :: vec
  rswvals :: vec
  rcvals :: vec
  rsvals :: vec
  rtvals :: vec
  rztvals :: vec
  cvals :: vec
  Cw :: vec
  Ew :: "vec list"
  Dmat :: vec
  dpiv :: "int list"
  fobj :: real
  convals :: vec
  gvals :: vec
  Ac :: "vec list"
  y_qn :: vec
  s_qn :: vec
  niter :: nat
  neval :: nat
  ngeval :: nat
  nhvec :: nat

text \<open>
  The sizes that the constructor gives to the arrays of the primal and dual
  variables: \<^verbatim>\<open>createDesignVec\<close> for \<^verbatim>\<open>x, lb, ub, zl, zu\<close>, \<^verbatim>\<open>createConstraintVec\<close>
  for \<^verbatim>\<open>zw, sw\<close>, and \<^verbatim>\<open>new ParOptScalar[ncon]\<close> for \<^verbatim>\<open>z, s, t, zt\<close>.
\<close>

definition point_sized :: "'q solver \<Rightarrow> bool" where
  "point_sized st \<longleftrightarrow>
     length (xvals st) = nvars st \<and> length (lbvals st) = nvars st \<and>
     length (ubvals st) = nvars st \<and> length (zlvals st) = nvars st \<and>
     length (zuvals st) = nvars st \<and> length (zwvals st) = nwcon st \<and>
     length (swvals st) = nwcon st \<and> length (zvals st) = ncon st \<and>
     length (svals st) = ncon st \<and> length (tvals st) = ncon st \<and>
     length (ztvals st) = ncon st"

text \<open>The sizes of the step and residual arrays, as the constructor allocates them.\<close>

definition steps_sized :: "'q solver \<Rightarrow> bool" where
  "steps_sized st \<longleftrightarrow>
     length (pxvals st) = nvars st \<and> length (pzlvals st) = nvars st \<and>
     length (pzuvals st) = nvars st \<and> length (pzwvals st) = nwcon st \<and>
     length (pswvals st) = nwcon st \<and> length (pzvals st) = ncon st \<and>
     length (psvals st) = ncon st \<and> length (ptvals st) = ncon st \<and>
     length (pztvals st) = ncon st \<and>
     length (rxvals st) = nvars st \<and> length (rswvals st) = nwcon st \<and>
     length (rsvals st) = ncon st \<and> length (rtvals st) = ncon st"

text \<open>
  The invariants of the data model in the specification: the sizes; positive slacks
  and multipliers on inequality rows; \<open>x\<close> inside its bounds by
  \<^verbatim>\<open>design_precision\<close>; zero multipliers for bounds that are treated as absent.
\<close>

definition data_invariants :: "'q solver \<Rightarrow> bool" where
  "data_invariants st \<longleftrightarrow>
     point_sized st \<and>
     (dense_inequality st \<longrightarrow>
        list_all (\<lambda>v. 0 < v) (svals st) \<and> list_all (\<lambda>v. 0 < v) (tvals st) \<and>
        list_all (\<lambda>v. 0 < v) (zvals st) \<and> list_all (\<lambda>v. 0 < v) (ztvals st)) \<and>
     (sparse_inequality st \<longrightarrow>
        list_all (\<lambda>v. 0 < v) (swvals st) \<and> list_all (\<lambda>v. 0 < v) (zwvals st)) \<and>
     list_all (\<lambda>i. lbvals st ! i + design_precision st \<le> xvals st ! i \<and>
                   xvals st ! i \<le> ubvals st ! i - design_precision st) [0..<nvars st] \<and>
     list_all (\<lambda>i. (lbvals st ! i \<le> - max_bound_val st \<longrightarrow> zlvals st ! i = 0) \<and>
                   (ubvals st ! i \<ge> max_bound_val st \<longrightarrow> zuvals st ! i = 0)) [0..<nvars st]"

section \<open>Checkpoint files\<close>

text \<open>
  A checkpoint file is the three leading \<^verbatim>\<open>int\<close>s followed by scalars. The scalars
  are addressed by their index after the header: the source's byte offset
  \<^verbatim>\<open>3*sizeof(int) + n*sizeof(ParOptScalar)\<close> is the index \<open>n\<close>. A handle that
  \<^verbatim>\<open>MPI_File_open\<close> leaves null is \<open>None\<close>.
\<close>

record solution_file =
  var_sizes :: "int list"
  scalars :: vec


text \<open>
  Reading \<open>n\<close> scalars at index \<open>off\<close> into the buffer \<open>buf\<close>; an element
  beyond the end of the file is not read and the buffer keeps its content there.
\<close>

definition file_read_at :: "vec \<Rightarrow> nat \<Rightarrow> nat \<Rightarrow> vec \<Rightarrow> vec" where
  "file_read_at f off n buf =
     map (\<lambda>i. if off + i < length f then f ! (off + i) else buf ! i) [0..<n] @ drop n buf"


text \<open>
  What one process of the communicator knows of the others: its \<^verbatim>\<open>rank\<close>, the \<^verbatim>\<open>size\<close>
  of the communicator, the arrays \<^verbatim>\<open>var_range\<close> and \<^verbatim>\<open>wcon_range\<close> (the same on every
  process; the entry at \<^verbatim>\<open>rank\<close> is the offset of the process's own part of a
  distributed vector, the entry at \<^verbatim>\<open>size\<close> the total length), and what the two calls
  \<^verbatim>\<open>MPI_Bcast(z, ...)\<close> and \<^verbatim>\<open>MPI_Bcast(s, ...)\<close> of \<^verbatim>\<open>readSolutionFile\<close> deliver from the
  root process. On the root process itself a broadcast changes nothing.
\<close>

record mpi_view =
  rank :: nat
  comm_size :: nat
  var_range :: "nat list"
  wcon_range :: "nat list"
  z_from_root :: vec
  s_from_root :: vec


text \<open>
  \<^verbatim>\<open>readSolutionFile\<close> on the process with the view \<open>v\<close>. The root process compares
  the header with \<^verbatim>\<open>var_range[size]\<close>, \<^verbatim>\<open>wcon_range[size]\<close> and \<^verbatim>\<open>ncon\<close>, values that
  every process holds alike, and broadcasts the outcome \<^verbatim>\<open>size_fail\<close>. Only the root
  process reads the barrier parameter, \<open>z\<close> and \<open>s\<close> from the file; \<open>z\<close> and \<open>s\<close> are
  then broadcast, the barrier parameter is not.
\<close>

definition readSolutionFile ::
  "mpi_view \<Rightarrow> 'q solver \<Rightarrow> solution_file option \<Rightarrow> int \<times> 'q solver" where
  "readSolutionFile v st fp =
     (case fp of
        None \<Rightarrow> (1, st)
      | Some f \<Rightarrow>
          (let size_fail = (var_sizes f ! 0 \<noteq> int (var_range v ! comm_size v) \<or>
                            var_sizes f ! 1 \<noteq> int (wcon_range v ! comm_size v) \<or>
                            var_sizes f ! 2 \<noteq> int (ncon st))
           in if size_fail then (1, st)
              else
                (let d = scalars f;
                     st1 = (if rank v = opt_root st
                            then st\<lparr> barrier_param := hd (file_read_at d 0 1 [barrier_param st]) \<rparr>
                            else st);
                     st2 = (if rank v = opt_root st
                            then st1\<lparr> zvals := file_read_at d 1 (ncon st) (zvals st1) \<rparr>
                            else st1\<lparr> zvals := take (ncon st) (z_from_root v) @
                                                  drop (ncon st) (zvals st1) \<rparr>);
                     st3 = (if rank v = opt_root st
                            then st2\<lparr> svals := file_read_at d (1 + ncon st) (ncon st) (svals st2) \<rparr>
                            else st2\<lparr> svals := take (ncon st) (s_from_root v) @
                                                  drop (ncon st) (svals st2) \<rparr>);
                     offset = 2 * ncon st + 1;
                     xsize = length (xvals st3);
                     st4 = st3\<lparr> xvals := file_read_at d (offset + var_range v ! rank v) xsize
                                                (xvals st3) \<rparr>;
                     offset1 = offset + var_range v ! comm_size v;
                     st5 = st4\<lparr> zlvals := file_read_at d (offset1 + var_range v ! rank v) xsize
                                                 (zlvals st4) \<rparr>;
                     offset2 = offset1 + var_range v ! comm_size v;
                     st6 = st5\<lparr> zuvals := file_read_at d (offset2 + var_range v ! rank v) xsize
                                                 (zuvals st5) \<rparr>;
                     offset3 = offset2 + var_range v ! comm_size v;
                     st8 = (if wcon_range v ! comm_size v > 0
                            then (let nwsize = length (zwvals st6);
                                      st7 = st6\<lparr> zwvals := file_read_at d
                                                     (offset3 + wcon_range v ! rank v) nwsize
                                                     (zwvals st6) \<rparr>;
                                      offset4 = offset3 + wcon_range v ! comm_size v
                                  in st7\<lparr> swvals := file_read_at d
                                                   (offset4 + wcon_range v ! rank v) nwsize
                                                   (swvals st7) \<rparr>)
                            else st6)
                 in (0, st8))))"


section \<open>External collaborators\<close>

text \<open>
  Modelled from the spec: the operations of the distributed vector class
  \<^verbatim>\<open>ParOptVec\<close> (dot products, axpy, norms, scaling), whose source is not in this
  repository file. \<^verbatim>\<open>y->axpy(alpha, x)\<close> adds \<open>alpha * x\<close> to \<open>y\<close>.
\<close>

definition vec_maxabs :: "vec \<Rightarrow> real" where
  "vec_maxabs v = foldl (\<lambda>m a. max m \<bar>a\<bar>) 0 v"

definition vec_l1norm :: "vec \<Rightarrow> real" where
  "vec_l1norm v = sum_list (map abs v)"

definition vec_norm :: "vec \<Rightarrow> real" where
  "vec_norm v = sqrt (sum_list (map (\<lambda>a. a * a) v))"

definition vec_dot :: "vec \<Rightarrow> vec \<Rightarrow> real" where
  "vec_dot u v = sum_list (map (\<lambda>i. u ! i * v ! i) [0..<length u])"

definition vec_axpy :: "real \<Rightarrow> vec \<Rightarrow> vec \<Rightarrow> vec" where
  "vec_axpy alpha xv yv = map (\<lambda>i. yv ! i + alpha * xv ! i) [0..<length yv]"

definition vec_scale :: "real \<Rightarrow> vec \<Rightarrow> vec" where
  "vec_scale alpha v = map (\<lambda>a. a * alpha) v"

text \<open>Modelled from the spec: the bit flags of the line-search outcome; an \<^verbatim>\<open>int\<close>
  holding flags is the set of the flags that are on.\<close>

datatype line_search_flag =
  PAROPT_LINE_SEARCH_SUCCESS | PAROPT_LINE_SEARCH_FAILURE | PAROPT_LINE_SEARCH_MIN_STEP |
  PAROPT_LINE_SEARCH_MAX_ITERS | PAROPT_LINE_SEARCH_NO_IMPROVEMENT

text \<open>
  Everything the modelled functions call and this development does not embed is a
  field of the environment: the methods of the \<^verbatim>\<open>ParOptProblem\<close> adapter, of the
  compact quasi-Newton object and of LAPACK, and the member functions of the class
  whose bodies are not needed for the properties below. An output argument of a C++
  call is a result here; where the callee may leave an output untouched, the old
  value is an argument. The theorems hold for every environment.
\<close>

record 'q env =
  evalObjCon :: "vec \<Rightarrow> real \<Rightarrow> vec \<Rightarrow> int \<times> real \<times> vec"
  evalObjConGradient :: "vec \<Rightarrow> vec \<Rightarrow> vec list \<Rightarrow> int \<times> vec \<times> vec list"
  evalHessianDiag :: "vec \<Rightarrow> vec \<Rightarrow> vec \<Rightarrow> vec option \<Rightarrow> int \<times> vec option"
  evalSparseCon :: "vec \<Rightarrow> vec \<Rightarrow> vec"
  addSparseJacobian :: "real \<Rightarrow> vec \<Rightarrow> vec \<Rightarrow> vec \<Rightarrow> vec"
  addSparseJacobianTranspose :: "real \<Rightarrow> vec \<Rightarrow> vec \<Rightarrow> vec \<Rightarrow> vec"
  addSparseInnerProduct :: "real \<Rightarrow> vec \<Rightarrow> vec \<Rightarrow> vec \<Rightarrow> vec"
  computeQuasiNewtonUpdateCorrection :: "vec \<Rightarrow> vec \<Rightarrow> vec \<times> vec"
  getVarsAndBounds :: "vec \<Rightarrow> vec \<Rightarrow> vec \<Rightarrow> vec \<times> vec \<times> vec"
  update_qn :: "vec \<Rightarrow> vec \<Rightarrow> vec \<Rightarrow> 'q \<Rightarrow> int \<times> 'q"
  update_qn_sy :: "vec \<Rightarrow> vec \<Rightarrow> vec \<Rightarrow> vec \<Rightarrow> vec \<Rightarrow> 'q \<Rightarrow> int \<times> 'q"
  reset_qn :: "'q \<Rightarrow> 'q"
  getCompactMat_b0 :: "'q \<Rightarrow> real"
  LAPACKdpptrf :: "nat \<Rightarrow> vec \<Rightarrow> vec \<times> int"
  LAPACKdpptrs :: "nat \<Rightarrow> vec \<Rightarrow> vec \<Rightarrow> vec \<times> int"
  LAPACKdgetrf :: "nat \<Rightarrow> vec \<Rightarrow> vec \<times> int list \<times> int"
  LAPACKdgetrs :: "nat \<Rightarrow> vec \<Rightarrow> int list \<Rightarrow> vec \<Rightarrow> vec \<times> int"
  setUpKKTSystem :: "bool \<Rightarrow> 'q solver \<Rightarrow> 'q solver"
  computeKKTStep :: "bool \<Rightarrow> 'q solver \<Rightarrow> 'q solver"
  computeKKTGMRESStep :: "real \<Rightarrow> real \<Rightarrow> bool \<Rightarrow> 'q solver \<Rightarrow> int \<times> 'q solver"
  evalMeritInitDeriv :: "real \<Rightarrow> 'q solver \<Rightarrow> real \<times> real \<times> 'q solver"
  evalMeritFunc :: "'q solver \<Rightarrow> real \<Rightarrow> vec \<Rightarrow> vec \<Rightarrow> vec \<Rightarrow> vec \<Rightarrow> vec \<Rightarrow> real"
  checkKKTStep :: "nat \<Rightarrow> bool \<Rightarrow> 'q solver \<Rightarrow> 'q solver"
  checkMeritFuncGradient :: "'q solver \<Rightarrow> 'q solver"

section \<open>Complementarity\<close>

definition computeComp :: "'q solver \<Rightarrow> real" where
  "computeComp st =
     (let (product1, sum1) =
            (if use_lower st
             then foldl (\<lambda>(product, sum) i.
                     if lbvals st ! i > - max_bound_val st
                     then (product + zlvals st ! i * (xvals st ! i - lbvals st ! i), sum + 1)
                     else (product, sum)) (0, 0) [0..<nvars st]
             else (0, 0));
          (product2, sum2) =
            (if use_upper st
             then foldl (\<lambda>(product, sum) i.
                     if ubvals st ! i < max_bound_val st
                     then (product + zuvals st ! i * (ubvals st ! i - xvals st ! i), sum + 1)
                     else (product, sum)) (product1, sum1) [0..<nvars st]
             else (product1, sum1));
          product3 = product2 / rel_bound_barrier st;
          (product4, sum4) =
            (if dense_inequality st
             then foldl (\<lambda>(product, sum) i.
                     (product + (svals st ! i * zvals st ! i + tvals st ! i * ztvals st ! i),
                      sum + 2)) (product3, sum2) [0..<ncon st]
             else (product3, sum2))
      in if sum4 \<noteq> (0::real) then product4 / sum4 else 0)"

definition getComplementarity :: "'q solver \<Rightarrow> real" where
  "getComplementarity st = computeComp st"

definition computeCompStep :: "'q solver \<Rightarrow> real \<Rightarrow> real \<Rightarrow> real" where
  "computeCompStep st alpha_x alpha_z =
     (let (product1, sum1) =
            (if use_lower st
             then foldl (\<lambda>(product, sum) i.
                     if lbvals st ! i > - max_bound_val st
                     then (let xnew = xvals st ! i + alpha_x * pxvals st ! i
                           in (product + (zlvals st ! i + alpha_z * pzlvals st ! i) *
                                           (xnew - lbvals st ! i), sum + 1))
                     else (product, sum)) (0, 0) [0..<nvars st]
             else (0, 0));
          (product2, sum2) =
            (if use_upper st
             then foldl (\<lambda>(product, sum) i.
                     if ubvals st ! i < max_bound_val st
                     then (let xnew = xvals st ! i + alpha_x * pxvals st ! i
                           in (product + (zuvals st ! i + alpha_z * pzuvals st ! i) *
                                           (ubvals st ! i - xnew), sum + 1))
                     else (product, sum)) (product1, sum1) [0..<nvars st]
             else (product1, sum1));
          product3 = product2 / rel_bound_barrier st;
          (product4, sum4) =
            (if dense_inequality st
             then foldl (\<lambda>(product, sum) i.
                     (product + ((svals st ! i + alpha_x * psvals st ! i) *
                                 (zvals st ! i + alpha_z * pzvals st ! i) +
                                 (tvals st ! i + alpha_x * ptvals st ! i) *
                                 (ztvals st ! i + alpha_z * pztvals st ! i)),
                      sum + 2)) (product3, sum2) [0..<ncon st]
             else (product3, sum2))
      in if sum4 \<noteq> (0::real) then product4 / sum4 else 0)"

text \<open>
  The claim about \<^verbatim>\<open>getComplementarity\<close> in the words of the specification: the
  bound products over the live bounds divided by \<^verbatim>\<open>rel_bound_barrier\<close>, plus the dense
  products, over \<open>2 * ncon\<close> plus the number of live bounds plus the number of sparse
  inequality constraints.
\<close>

definition live_lower :: "'q solver \<Rightarrow> nat set" where
  "live_lower st = {i. i < nvars st \<and> use_lower st \<and> lbvals st ! i > - max_bound_val st}"

definition live_upper :: "'q solver \<Rightarrow> nat set" where
  "live_upper st = {i. i < nvars st \<and> use_upper st \<and> ubvals st ! i < max_bound_val st}"

definition complementarity_spec :: "'q solver \<Rightarrow> real" where
  "complementarity_spec st =
     (((\<Sum>i\<in>live_lower st. zlvals st ! i * (xvals st ! i - lbvals st ! i)) +
       (\<Sum>i\<in>live_upper st. zuvals st ! i * (ubvals st ! i - xvals st ! i))) / rel_bound_barrier st +
      (\<Sum>i<ncon st. svals st ! i * zvals st ! i + tvals st ! i * ztvals st ! i)) /
     real (2 * ncon st + card (live_lower st) + card (live_upper st) +
           (if sparse_inequality st then nwcon st else 0))"

section \<open>Step lengths and step scaling\<close>

text \<open>The update that \<^verbatim>\<open>computeMaxStep\<close> repeats for each kind of variable.\<close>

definition max_step_neg :: "real \<Rightarrow> real \<Rightarrow> real \<Rightarrow> real \<Rightarrow> real" where
  "max_step_neg tau numer p m =
     (if p < 0 then (let alpha = - tau * numer / p in if alpha < m then alpha else m) else m)"

definition max_step_pos :: "real \<Rightarrow> real \<Rightarrow> real \<Rightarrow> real \<Rightarrow> real" where
  "max_step_pos tau numer p m =
     (if p > 0 then (let alpha = tau * numer / p in if alpha < m then alpha else m) else m)"

definition computeMaxStep :: "'q solver \<Rightarrow> real \<Rightarrow> real \<times> real" where
  "computeMaxStep st tau =
     (let max_x0 = 1; max_z0 = 1;
          max_x1 = (if use_lower st
                    then foldl (\<lambda>m i. max_step_neg tau (xvals st ! i - lbvals st ! i) (pxvals st ! i) m)
                           max_x0 [0..<nvars st]
                    else max_x0);
          max_x2 = (if use_upper st
                    then foldl (\<lambda>m i. max_step_pos tau (ubvals st ! i - xvals st ! i) (pxvals st ! i) m)
                           max_x1 [0..<nvars st]
                    else max_x1);
          (max_x3, max_z3) =
            (if dense_inequality st
             then foldl (\<lambda>(mx, mz) i.
                     (max_step_neg tau (tvals st ! i) (ptvals st ! i)
                        (max_step_neg tau (svals st ! i) (psvals st ! i) mx),
                      max_step_neg tau (ztvals st ! i) (pztvals st ! i)
                        (max_step_neg tau (zvals st ! i) (pzvals st ! i) mz)))
                    (max_x2, max_z0) [0..<ncon st]
             else (max_x2, max_z0));
          (max_x4, max_z4) =
            (if nwcon st > 0 \<and> sparse_inequality st
             then (foldl (\<lambda>m i. max_step_neg tau (swvals st ! i) (pswvals st ! i) m)
                     max_x3 [0..<nwcon st],
                   foldl (\<lambda>m i. max_step_neg tau (zwvals st ! i) (pzwvals st ! i) m)
                     max_z3 [0..<nwcon st])
             else (max_x3, max_z3));
          max_z5 = (if use_lower st
                    then foldl (\<lambda>m i. max_step_neg tau (zlvals st ! i) (pzlvals st ! i) m)
                           max_z4 [0..<nvars st]
                    else max_z4);
          max_z6 = (if use_upper st
                    then foldl (\<lambda>m i. max_step_neg tau (zuvals st ! i) (pzuvals st ! i) m)
                           max_z5 [0..<nvars st]
                    else max_z5)
      in (max_x4, max_z6))"

definition scaleStep :: "real \<Rightarrow> nat \<Rightarrow> vec \<Rightarrow> vec" where
  "scaleStep alpha nvals pvals = map (\<lambda>i. pvals ! i * alpha) [0..<nvals] @ drop nvals pvals"

text \<open>
  \<^verbatim>\<open>scaleKKTStep\<close> in two parts: the first computes \<^verbatim>\<open>ceq_step\<close> and the step
  lengths \<^verbatim>\<open>alpha_x\<close> and \<^verbatim>\<open>alpha_z\<close>, the second scales the steps. Each of the
  conditional calls \<^verbatim>\<open>if (flag){ p->scale(alpha); }\<close> is the assignment of a
  conditional value to that step. The result of \<^verbatim>\<open>scaleKKTStep\<close> is \<^verbatim>\<open>ceq_step\<close>,
  \<^verbatim>\<open>*_alpha_x\<close>, \<^verbatim>\<open>*_alpha_z\<close> and the solver with the scaled steps.
\<close>

definition scaleKKTStep_lengths :: "'q solver \<Rightarrow> real \<Rightarrow> real \<Rightarrow> bool \<Rightarrow> bool \<times> real \<times> real" where
  "scaleKKTStep_lengths st tau comp_k inexact_newton_step =
     (let (alpha_x0, alpha_z0) = computeMaxStep st tau
      in if \<not> inexact_newton_step
         then (let max_bnd = 100;
                   (alpha_x1, alpha_z1) =
                     (if alpha_x0 > alpha_z0
                      then (if alpha_x0 > max_bnd * alpha_z0 then (max_bnd * alpha_z0, alpha_z0)
                            else if alpha_x0 < alpha_z0 / max_bnd then (alpha_z0 / max_bnd, alpha_z0)
                            else (alpha_x0, alpha_z0))
                      else (if alpha_z0 > max_bnd * alpha_x0 then (alpha_x0, max_bnd * alpha_x0)
                            else if alpha_z0 < alpha_x0 / max_bnd then (alpha_x0, alpha_x0 / max_bnd)
                            else (alpha_x0, alpha_z0)));
                   comp_new = computeCompStep st alpha_x1 alpha_z1
               in if comp_new > 10 * comp_k
                  then (if alpha_x1 > alpha_z1 then (True, alpha_z1, alpha_z1)
                        else (True, alpha_x1, alpha_x1))
                  else (False, alpha_x1, alpha_z1))
         else (if alpha_x0 > alpha_z0 then (False, alpha_z0, alpha_z0)
               else (False, alpha_x0, alpha_x0)))"

definition scaleKKTStep :: "'q solver \<Rightarrow> real \<Rightarrow> real \<Rightarrow> bool \<Rightarrow> bool \<times> real \<times> real \<times> 'q solver" where
  "scaleKKTStep st tau comp_k inexact_newton_step =
     (case scaleKKTStep_lengths st tau comp_k inexact_newton_step of
        (ceq_step, alpha_x, alpha_z) \<Rightarrow>
          (ceq_step, alpha_x, alpha_z,
           st\<lparr> pxvals := vec_scale alpha_x (pxvals st),
               pzwvals := (if nwcon st > 0 then vec_scale alpha_z (pzwvals st) else pzwvals st),
               pswvals := (if nwcon st > 0 \<and> sparse_inequality st
                           then vec_scale alpha_x (pswvals st) else pswvals st),
               pzlvals := (if use_lower st then vec_scale alpha_z (pzlvals st) else pzlvals st),
               pzuvals := (if use_upper st then vec_scale alpha_z (pzuvals st) else pzuvals st),
               pzvals := scaleStep alpha_z (ncon st) (pzvals st),
               psvals := (if dense_inequality st
                          then scaleStep alpha_x (ncon st) (psvals st) else psvals st),
               ptvals := (if dense_inequality st
                          then scaleStep alpha_x (ncon st) (ptvals st) else ptvals st),
               pztvals := (if dense_inequality st
                           then scaleStep alpha_z (ncon st) (pztvals st) else pztvals st) \<rparr>))"

text \<open>
  The claim about the step scaling in the words of the specification: \<open>alpha_x\<close>
  scales \<open>p_x, p_s, p_t, p_sw, p_zt\<close> and \<open>alpha_z\<close> scales \<open>p_z, p_zl, p_zu, p_zw\<close>.
\<close>

definition scaled_as_specified :: "'q solver \<Rightarrow> real \<Rightarrow> real \<Rightarrow> 'q solver \<Rightarrow> bool" where
  "scaled_as_specified st alpha_x alpha_z st' \<longleftrightarrow>
     pxvals st' = map (\<lambda>p. p * alpha_x) (pxvals st) \<and>
     psvals st' = map (\<lambda>p. p * alpha_x) (psvals st) \<and>
     ptvals st' = map (\<lambda>p. p * alpha_x) (ptvals st) \<and>
     pswvals st' = map (\<lambda>p. p * alpha_x) (pswvals st) \<and>
     pztvals st' = map (\<lambda>p. p * alpha_x) (pztvals st) \<and>
     pzvals st' = map (\<lambda>p. p * alpha_z) (pzvals st) \<and>
     pzlvals st' = map (\<lambda>p. p * alpha_z) (pzlvals st) \<and>
     pzuvals st' = map (\<lambda>p. p * alpha_z) (pzuvals st) \<and>
     pzwvals st' = map (\<lambda>p. p * alpha_z) (pzwvals st)"

section \<open>Double-precision rounding\<close>

text \<open>
  Rounding to the nearest \<^verbatim>\<open>double\<close>, ties to even: a double other than zero is an
  integer multiple of \<open>2\<^sup>e\<^sup>-\<^sup>5\<^sup>2\<close>, where \<open>2\<^sup>e\<close> is the power of two at or below its
  magnitude. The range of the exponent is not bounded: overflow and subnormal numbers
  are not modelled. \<open>dadd\<close> and \<open>dsub\<close> are the addition and the subtraction of two
  doubles.
\<close>

definition round_half_even :: "real \<Rightarrow> int" where
  "round_half_even r =
     (let f = \<lfloor>r\<rfloor>
      in if r - of_int f < 1 / 2 then f
         else if 1 / 2 < r - of_int f then f + 1
         else if even f then f else f + 1)"

definition round_double :: "real \<Rightarrow> real" where
  "round_double x =
     (if x = 0 then 0
      else (let ulp = 2 powi (\<lfloor>log 2 \<bar>x\<bar>\<rfloor> - 52)
            in ulp * of_int (round_half_even (x / ulp))))"

definition dadd :: "real \<Rightarrow> real \<Rightarrow> real" where
  "dadd x y = round_double (x + y)"

definition dsub :: "real \<Rightarrow> real \<Rightarrow> real" where
  "dsub x y = round_double (x - y)"

section \<open>Applying a step\<close>

text \<open>
  A null pointer argument is \<open>None\<close>. The array has at least \<open>nvals\<close> elements in
  the source; the elements from \<open>nvals\<close> on are not touched. The sums and differences
  with \<^verbatim>\<open>design_precision\<close> are rounded.
\<close>

definition computeStep ::
  "'q solver \<Rightarrow> nat \<Rightarrow> vec \<Rightarrow> real \<Rightarrow> vec \<Rightarrow> vec option \<Rightarrow> real option \<Rightarrow> vec option \<Rightarrow> real option \<Rightarrow> vec" where
  "computeStep st nvals xv alpha pv lbv lower_value ubv upper_value =
     (let x1 = map (\<lambda>i. xv ! i + alpha * pv ! i) [0..<nvals];
          x2 = (case lbv of
                  Some lb \<Rightarrow>
                    map (\<lambda>i. if x1 ! i \<le> dadd (lb ! i) (design_precision st)
                              then dadd (lb ! i) (design_precision st) else x1 ! i) [0..<nvals]
                | None \<Rightarrow>
                    (case lower_value of
                       Some lbval \<Rightarrow>
                         map (\<lambda>i. if x1 ! i \<le> dadd lbval (design_precision st)
                                   then dadd lbval (design_precision st) else x1 ! i) [0..<nvals]
                     | None \<Rightarrow> x1));
          x3 = (case ubv of
                  Some ub \<Rightarrow>
                    map (\<lambda>i. if dadd (x2 ! i) (design_precision st) \<ge> ub ! i
                              then dsub (ub ! i) (design_precision st) else x2 ! i) [0..<nvals]
                | None \<Rightarrow>
                    (case upper_value of
                       Some ubval \<Rightarrow>
                         map (\<lambda>i. if dadd (x2 ! i) (design_precision st) \<ge> ubval
                                   then dsub ubval (design_precision st) else x2 ! i) [0..<nvals]
                     | None \<Rightarrow> x2))
      in x3 @ drop nvals xv)"

definition computeStepVec ::
  "'q solver \<Rightarrow> vec \<Rightarrow> real \<Rightarrow> vec \<Rightarrow> vec option \<Rightarrow> real option \<Rightarrow> vec option \<Rightarrow> real option \<Rightarrow> vec" where
  "computeStepVec st xvec alpha pvec lower lower_value upper upper_value =
     computeStep st (length xvec) xvec alpha pvec lower lower_value upper upper_value"

text \<open>
  \<^verbatim>\<open>computeStepAndUpdate\<close> in parts, in the order of the source. The first part
  steps the multipliers and slacks, each against the lower value zero and under the
  flag that guards it in the source.
\<close>

definition computeStepAndUpdate_multipliers :: "'q solver \<Rightarrow> real \<Rightarrow> 'q solver" where
  "computeStepAndUpdate_multipliers st alpha =
     (let zero = 0
      in st\<lparr> zwvals := (if nwcon st > 0
                          then computeStepVec st (zwvals st) alpha (pzwvals st)
                                 None (Some zero) None None
                          else zwvals st),
              swvals := (if nwcon st > 0 \<and> sparse_inequality st
                          then computeStepVec st (swvals st) alpha (pswvals st)
                                 None (Some zero) None None
                          else swvals st),
              zlvals := (if use_lower st
                          then computeStepVec st (zlvals st) alpha (pzlvals st)
                                 None (Some zero) None None
                          else zlvals st),
              zuvals := (if use_upper st
                          then computeStepVec st (zuvals st) alpha (pzuvals st)
                                 None (Some zero) None None
                          else zuvals st),
              zvals := computeStep st (ncon st) (zvals st) alpha (pzvals st)
                         None (Some zero) None None,
              svals := (if dense_inequality st
                         then computeStep st (ncon st) (svals st) alpha (psvals st)
                                None (Some zero) None None
                         else svals st),
              tvals := (if dense_inequality st
                         then computeStep st (ncon st) (tvals st) alpha (ptvals st)
                                None (Some zero) None None
                         else tvals st),
              ztvals := (if dense_inequality st
                          then computeStep st (ncon st) (ztvals st) alpha (pztvals st)
                                 None (Some zero) None None
                          else ztvals st) \<rparr>)"

text \<open>
  The negative gradient of the Lagrangian from the old gradient and the new
  multipliers, the first half of \<^verbatim>\<open>y_qn\<close>.
\<close>

definition computeStepAndUpdate_y_qn :: "'q env \<Rightarrow> 'q solver \<Rightarrow> vec" where
  "computeStepAndUpdate_y_qn env st5 =
     (let y1 = vec_scale (- 1) (gvals st5);
          y2 = foldl (\<lambda>y i. vec_axpy (zvals st5 ! i) (Ac st5 ! i) y) y1 [0..<ncon st5]
      in if nwcon st5 > 0
         then addSparseJacobianTranspose env 1 (xvals st5) (zwvals st5) y2
         else y2)"

text \<open>Then \<^verbatim>\<open>y_qn\<close> is set, when a quasi-Newton update is due, and \<open>x\<close> is moved
  between \<^verbatim>\<open>lb\<close> and \<^verbatim>\<open>ub\<close>.\<close>

definition computeStepAndUpdate_step :: "'q env \<Rightarrow> 'q solver \<Rightarrow> real \<Rightarrow> bool \<Rightarrow> 'q solver" where
  "computeStepAndUpdate_step env st alpha perform_qn_update =
     (let st5 = computeStepAndUpdate_multipliers st alpha
      in st5\<lparr> y_qn := (if qn st5 \<noteq> None \<and> perform_qn_update \<and> use_quasi_newton_update st5
                        then computeStepAndUpdate_y_qn env st5 else y_qn st5),
              xvals := computeStepVec st5 (xvals st5) alpha (pxvals st5)
                         (Some (lbvals st5)) None (Some (ubvals st5)) None \<rparr>)"

text \<open>
  The last part evaluates the problem at the new point and updates the
  quasi-Newton approximation. The result is the returned \<^verbatim>\<open>int\<close> (the type of the
  quasi-Newton update, or the failure code of \<^verbatim>\<open>evalObjCon\<close>) and the solver. A
  failure of \<^verbatim>\<open>evalObjConGradient\<close> is printed and not returned.
\<close>

definition computeStepAndUpdate_eval ::
  "'q env \<Rightarrow> 'q solver \<Rightarrow> real \<Rightarrow> bool \<Rightarrow> bool \<Rightarrow> int \<times> 'q solver" where
  "computeStepAndUpdate_eval env st7 alpha eval_obj_con perform_qn_update =
     (let (fail_obj, st8) =
            (if eval_obj_con
             then (case evalObjCon env (xvals st7) (fobj st7) (convals st7) of
                     (fl, f, c) \<Rightarrow> (fl, st7\<lparr> fobj := f, convals := c, neval := neval st7 + 1 \<rparr>))
             else (0, st7))
      in if fail_obj \<noteq> 0 then (fail_obj, st8)
         else
           (case evalObjConGradient env (xvals st8) (gvals st8) (Ac st8) of
              (fail_gobj, g, A) \<Rightarrow>
                (let st9 = st8\<lparr> gvals := g, Ac := A, ngeval := ngeval st8 + 1 \<rparr>
                 in case qn st9 of
                      Some q \<Rightarrow>
                        (if perform_qn_update
                         then (if use_quasi_newton_update st9
                               then (let s1 = vec_scale alpha (pxvals st9);
                                         y1 = vec_axpy 1 (gvals st9) (y_qn st9);
                                         y2 = foldl (\<lambda>y i. vec_axpy (- (zvals st9 ! i)) (Ac st9 ! i) y)
                                                y1 [0..<ncon st9];
                                         y3 = (if nwcon st9 > 0
                                               then addSparseJacobianTranspose env (- 1) (xvals st9)
                                                      (zwvals st9) y2
                                               else y2);
                                         (s2, y4) = computeQuasiNewtonUpdateCorrection env s1 y3;
                                         (update_type, q') =
                                            update_qn_sy env (xvals st9) (zvals st9) (zwvals st9) s2 y4 q
                                     in (update_type, st9\<lparr> s_qn := s2, y_qn := y4, qn := Some q' \<rparr>))
                               else (let (update_type, q') =
                                            update_qn env (xvals st9) (zvals st9) (zwvals st9) q
                                     in (update_type, st9\<lparr> qn := Some q' \<rparr>)))
                         else (0, st9))
                    | None \<Rightarrow> (0, st9))))"

definition computeStepAndUpdate ::
  "'q env \<Rightarrow> 'q solver \<Rightarrow> real \<Rightarrow> bool \<Rightarrow> bool \<Rightarrow> int \<times> 'q solver" where
  "computeStepAndUpdate env st alpha eval_obj_con perform_qn_update =
     computeStepAndUpdate_eval env (computeStepAndUpdate_step env st alpha perform_qn_update)
       alpha eval_obj_con perform_qn_update"

section \<open>Line search\<close>

text \<open>
  The trial point of the line search at the step length \<open>alpha\<close>: the source stores
  it in the residual vectors \<^verbatim>\<open>rx, rsw, rs, rt\<close>.
\<close>

definition lineSearch_trial :: "'q solver \<Rightarrow> real \<Rightarrow> 'q solver" where
  "lineSearch_trial st alpha =
     (let zero = 0
      in st\<lparr> rxvals := computeStepVec st (xvals st) alpha (pxvals st)
                           (Some (lbvals st)) None (Some (ubvals st)) None,
             rswvals := (if nwcon st > 0 \<and> sparse_inequality st
                         then computeStepVec st (swvals st) alpha (pswvals st)
                                None (Some zero) None None
                         else rswvals st),
             rsvals := (if dense_inequality st
                        then computeStep st (ncon st)
                               (take (ncon st) (svals st) @ drop (ncon st) (rsvals st))
                               alpha (psvals st) None (Some zero) None None
                        else rsvals st),
             rtvals := (if dense_inequality st
                        then computeStep st (ncon st)
                               (take (ncon st) (tvals st) @ drop (ncon st) (rtvals st))
                               alpha (ptvals st) None (Some zero) None None
                        else rtvals st) \<rparr>)"

text \<open>
  The guard under which the source reports that a step changed nothing: both
  \<open>a + function_precision \<le> b\<close> and \<open>b + function_precision \<le> a\<close>, the sums
  rounded.
\<close>

definition no_change_guard :: "real \<Rightarrow> real \<Rightarrow> real \<Rightarrow> bool" where
  "no_change_guard a b fp \<longleftrightarrow> dadd a fp \<le> b \<and> dadd b fp \<le> a"

record 'q ls_state =
  ls_alpha :: real
  ls_fail :: "line_search_flag set"
  ls_best_merit :: real
  ls_best_alpha :: real
  ls_merit :: real
  ls_solver :: "'q solver"

text \<open>
  The loop \<^verbatim>\<open>for ( ; j < max_line_iters; j++ )\<close>: the first numeric argument is the
  number of iterations left. The result carries the value of \<open>j\<close> at the exit.
\<close>

fun lineSearch_loop ::
  "'q env \<Rightarrow> real \<Rightarrow> real \<Rightarrow> real \<Rightarrow> nat \<Rightarrow> nat \<Rightarrow> 'q ls_state \<Rightarrow> nat \<times> 'q ls_state" where
  "lineSearch_loop env alpha_min m0 dm0 0 j L = (j, L)"
| "lineSearch_loop env alpha_min m0 dm0 (Suc n) j L =
     (let alpha = ls_alpha L;
          st1 = lineSearch_trial (ls_solver L) alpha
      in case evalObjCon env (rxvals st1) (fobj st1) (convals st1) of
           (fail_obj, f, c) \<Rightarrow>
             (let st2 = st1\<lparr> fobj := f, convals := c, neval := neval st1 + 1 \<rparr>
              in if fail_obj \<noteq> 0
                 then lineSearch_loop env alpha_min m0 dm0 n (j + 1)
                        (L\<lparr> ls_alpha := alpha * (1 / 10), ls_solver := st2 \<rparr>)
                 else
                   (let merit = evalMeritFunc env st2 (fobj st2) (convals st2) (rxvals st2)
                                  (rsvals st2) (rtvals st2) (rswvals st2);
                        L1 = L\<lparr> ls_merit := merit, ls_solver := st2 \<rparr>;
                        L2 = (if ls_best_alpha L1 < 0 \<or> merit < ls_best_merit L1
                              then L1\<lparr> ls_best_alpha := alpha, ls_best_merit := merit \<rparr>
                              else L1)
                    in if merit - armijo_constant st2 * alpha * dm0 <
                            dadd m0 (function_precision st2)
                       then (j, L2\<lparr> ls_fail :=
                                     (if PAROPT_LINE_SEARCH_MIN_STEP \<in> ls_fail L2
                                      then {PAROPT_LINE_SEARCH_SUCCESS, PAROPT_LINE_SEARCH_MIN_STEP}
                                      else {PAROPT_LINE_SEARCH_SUCCESS}) \<rparr>)
                       else if PAROPT_LINE_SEARCH_MIN_STEP \<in> ls_fail L2 then (j, L2)
                       else
                         (let L3 =
                                (if j + 1 < max_line_iters st2
                                 then (if use_backtracking_alpha st2
                                       then (let alpha1 = (1 / 2) * alpha
                                             in if alpha1 \<le> alpha_min
                                                then L2\<lparr> ls_alpha := alpha_min,
                                                         ls_fail := insert PAROPT_LINE_SEARCH_MIN_STEP (ls_fail L2) \<rparr>
                                                else L2\<lparr> ls_alpha := alpha1 \<rparr>)
                                       else (let alpha_new = - (1 / 2) * dm0 * (alpha * alpha) /
                                                               (merit - m0 - dm0 * alpha)
                                             in if alpha_new \<le> alpha_min
                                                then L2\<lparr> ls_alpha := alpha_min,
                                                         ls_fail := insert PAROPT_LINE_SEARCH_MIN_STEP (ls_fail L2) \<rparr>
                                                else if alpha_new < (1 / 100) * alpha
                                                then L2\<lparr> ls_alpha := (1 / 100) * alpha \<rparr>
                                                else L2\<lparr> ls_alpha := alpha_new \<rparr>))
                                 else L2)
                          in lineSearch_loop env alpha_min m0 dm0 n (j + 1) L3))))"

text \<open>The result is the returned flags, \<^verbatim>\<open>*_alpha\<close> and the solver after the call.\<close>

definition lineSearch ::
  "'q env \<Rightarrow> 'q solver \<Rightarrow> real \<Rightarrow> real \<Rightarrow> real \<Rightarrow> real \<Rightarrow> line_search_flag set \<times> real \<times> 'q solver" where
  "lineSearch env st alpha_min alpha0 m0 dm0 =
     (case lineSearch_loop env alpha_min m0 dm0 (max_line_iters st) 0
             \<lparr> ls_alpha = alpha0, ls_fail = {PAROPT_LINE_SEARCH_FAILURE}, ls_best_merit = 0,
               ls_best_alpha = - 1, ls_merit = 0, ls_solver = st \<rparr> of
        (j, L) \<Rightarrow>
          (let st1 = ls_solver L;
               fail1 = (if j = max_line_iters st1
                        then insert PAROPT_LINE_SEARCH_MAX_ITERS (ls_fail L) else ls_fail L)
           in if PAROPT_LINE_SEARCH_SUCCESS \<notin> fail1
              then
                (let fail2 =
                       (if ls_best_merit L \<le> dadd m0 (function_precision st1)
                        then insert PAROPT_LINE_SEARCH_SUCCESS fail1 - {PAROPT_LINE_SEARCH_FAILURE}
                        else if no_change_guard m0 (ls_merit L) (function_precision st1)
                        then insert PAROPT_LINE_SEARCH_NO_IMPROVEMENT fail1
                        else fail1)
                 in if ls_alpha L \<noteq> ls_best_alpha L
                    then
                      (let alpha = ls_best_alpha L;
                           st2 = lineSearch_trial st1 alpha
                       in case evalObjCon env (rxvals st2) (fobj st2) (convals st2) of
                            (fail_obj, f, c) \<Rightarrow>
                              (let st3 = st2\<lparr> fobj := f, convals := c, neval := neval st2 + 1 \<rparr>
                               in if fail_obj \<noteq> 0
                                  then ({PAROPT_LINE_SEARCH_FAILURE}, alpha, st3)
                                  else (fail2, alpha, st3)))
                    else (fail2, ls_best_alpha L, st1))
              else (fail1, ls_alpha L, st1)))"

text \<open>
  What every pass of the loop of \<^verbatim>\<open>lineSearch\<close> keeps: the best merit value is at most
  the last one, the last merit value is a double, the flag
  \<^verbatim>\<open>PAROPT_LINE_SEARCH_NO_IMPROVEMENT\<close> is not set, and the function precision of the
  solver is \<open>fp\<close>.
\<close>

definition line_search_invariant :: "real \<Rightarrow> 'q ls_state \<Rightarrow> bool" where
  "line_search_invariant fp L \<longleftrightarrow>
     ls_best_merit L \<le> ls_merit L \<and> round_double (ls_merit L) = ls_merit L \<and>
     PAROPT_LINE_SEARCH_NO_IMPROVEMENT \<notin> ls_fail L \<and>
     function_precision (ls_solver L) = fp"

section \<open>KKT residuals\<close>

text \<open>The result is \<^verbatim>\<open>*max_prime\<close>, \<^verbatim>\<open>*max_dual\<close>, \<^verbatim>\<open>*max_infeas\<close>, \<^verbatim>\<open>*res_norm\<close> and
  the solver with the new residual vectors.\<close>

definition computeKKTRes ::
  "'q env \<Rightarrow> real \<Rightarrow> 'q solver \<Rightarrow> real \<times> real \<times> real \<times> real \<times> 'q solver" where
  "computeKKTRes env barrier st =
     (let rx0 = (if use_lower st then zlvals st else map (\<lambda>_. 0) (rxvals st));
          rx1 = (if use_upper st then vec_axpy (- 1) (zuvals st) rx0 else rx0);
          rx2 = vec_axpy (- 1) (gvals st) rx1;
          rx3 = foldl (\<lambda>r i. vec_axpy (zvals st ! i) (Ac st ! i) r) rx2 [0..<ncon st];
          (rx4, rcw1) =
            (if nwcon st > 0
             then (let r = addSparseJacobianTranspose env 1 (xvals st) (zwvals st) rx3;
                       w0 = evalSparseCon env (xvals st) (rcwvals st);
                       w1 = (if sparse_inequality st then vec_axpy (- 1) (swvals st) w0 else w0)
                   in (r, vec_scale (- 1) w1))
             else (rx3, rcwvals st));
          (max_prime0, max_infeas0) =
            (case norm_type st of
               PAROPT_INFTY_NORM \<Rightarrow> (vec_maxabs rx4, vec_maxabs rcw1)
             | PAROPT_L1_NORM \<Rightarrow> (vec_l1norm rx4, vec_l1norm rcw1)
             | PAROPT_L2_NORM \<Rightarrow> (vec_norm rx4 * vec_norm rx4, vec_norm rcw1 * vec_norm rcw1));
          max_dual0 = 0;
          n = ncon st;
          (rc1, rs1, rt1, rzt1) =
            (if dense_inequality st
             then (map (\<lambda>i. - (convals st ! i - svals st ! i + tvals st ! i)) [0..<n] @ drop n (rcvals st),
                   map (\<lambda>i. - (svals st ! i * zvals st ! i - barrier)) [0..<n] @ drop n (rsvals st),
                   map (\<lambda>i. - (penalty_gamma st ! i - ztvals st ! i - zvals st ! i)) [0..<n] @ drop n (rtvals st),
                   map (\<lambda>i. - (tvals st ! i * ztvals st ! i - barrier)) [0..<n] @ drop n (rztvals st))
             else (map (\<lambda>i. - convals st ! i) [0..<n] @ drop n (rcvals st),
                   map (\<lambda>i. 0) [0..<n] @ drop n (rsvals st),
                   map (\<lambda>i. 0) [0..<n] @ drop n (rtvals st),
                   map (\<lambda>i. 0) [0..<n] @ drop n (rztvals st)));
          (max_prime1, max_infeas1, max_dual1) =
            (case norm_type st of
               PAROPT_INFTY_NORM \<Rightarrow>
                 foldl (\<lambda>(mp, mi, md) i.
                    (let mp' = (if \<bar>rt1 ! i\<bar> > mp then \<bar>rt1 ! i\<bar> else mp);
                         mi' = (if \<bar>rc1 ! i\<bar> > mi then \<bar>rc1 ! i\<bar> else mi);
                         md' = (if \<bar>rs1 ! i\<bar> > md then \<bar>rs1 ! i\<bar> else md);
                         md'' = (if \<bar>rzt1 ! i\<bar> > md' then \<bar>rzt1 ! i\<bar> else md')
                     in (mp', mi', md''))) (max_prime0, max_infeas0, max_dual0) [0..<n]
             | PAROPT_L1_NORM \<Rightarrow>
                 foldl (\<lambda>(mp, mi, md) i.
                    (mp + \<bar>rt1 ! i\<bar>, mi + \<bar>rc1 ! i\<bar>, md + \<bar>rs1 ! i\<bar> + \<bar>rzt1 ! i\<bar>))
                   (max_prime0, max_infeas0, max_dual0) [0..<n]
             | PAROPT_L2_NORM \<Rightarrow>
                 (case foldl (\<lambda>(prime, infeas, dual) i.
                          (prime + rt1 ! i * rt1 ! i, infeas + rc1 ! i * rc1 ! i,
                           dual + (rs1 ! i * rs1 ! i + rzt1 ! i * rzt1 ! i))) (0, 0, 0) [0..<n] of
                    (prime, infeas, dual) \<Rightarrow>
                      (max_prime0 + prime, max_infeas0 + infeas, max_dual0 + dual)));
          (rzl1, max_dual2) =
            (if use_lower st
             then (let r = map (\<lambda>i. if lbvals st ! i > - max_bound_val st
                                       then - ((xvals st ! i - lbvals st ! i) * zlvals st ! i -
                                               rel_bound_barrier st * barrier)
                                       else 0) [0..<nvars st] @ drop (nvars st) (rzlvals st)
                   in (r, case norm_type st of
                            PAROPT_INFTY_NORM \<Rightarrow>
                              (if vec_maxabs r > max_dual1 then vec_maxabs r else max_dual1)
                          | PAROPT_L1_NORM \<Rightarrow> max_dual1 + vec_l1norm r
                          | PAROPT_L2_NORM \<Rightarrow> max_dual1 + vec_norm r * vec_norm r))
             else (rzlvals st, max_dual1));
          (rzu1, max_dual3) =
            (if use_upper st
             then (let r = map (\<lambda>i. if ubvals st ! i < max_bound_val st
                                       then - ((ubvals st ! i - xvals st ! i) * zuvals st ! i -
                                               rel_bound_barrier st * barrier)
                                       else 0) [0..<nvars st] @ drop (nvars st) (rzuvals st)
                   in (r, case norm_type st of
                            PAROPT_INFTY_NORM \<Rightarrow>
                              (if vec_maxabs r > max_dual2 then vec_maxabs r else max_dual2)
                          | PAROPT_L1_NORM \<Rightarrow> max_dual2 + vec_l1norm r
                          | PAROPT_L2_NORM \<Rightarrow> max_dual2 + vec_norm r * vec_norm r))
             else (rzuvals st, max_dual2));
          (rsw1, max_dual4) =
            (if nwcon st > 0 \<and> sparse_inequality st
             then (let r = map (\<lambda>i. - (swvals st ! i * zwvals st ! i - barrier)) [0..<nwcon st] @
                           drop (nwcon st) (rswvals st)
                   in (r, case norm_type st of
                            PAROPT_INFTY_NORM \<Rightarrow>
                              (if vec_maxabs r > max_dual3 then vec_maxabs r else max_dual3)
                          | PAROPT_L1_NORM \<Rightarrow> max_dual3 + vec_l1norm r
                          | PAROPT_L2_NORM \<Rightarrow> max_dual3 + vec_norm r * vec_norm r))
             else (rswvals st, max_dual3));
          (max_dual, max_prime, max_infeas) =
            (if norm_type st = PAROPT_L2_NORM
             then (sqrt max_dual4, sqrt max_prime1, sqrt max_infeas1)
             else (max_dual4, max_prime1, max_infeas1));
          res_norm0 = max_prime;
          res_norm1 = (if max_dual > res_norm0 then max_dual else res_norm0);
          res_norm = (if max_infeas > res_norm1 then max_infeas else res_norm1)
      in (max_prime, max_dual, max_infeas, res_norm,
          st\<lparr> rxvals := rx4, rcwvals := rcw1, rcvals := rc1, rsvals := rs1, rtvals := rt1,
              rztvals := rzt1, rzlvals := rzl1, rzuvals := rzu1, rswvals := rsw1 \<rparr>))"

text \<open>
  \<^verbatim>\<open>computeKKTRes\<close> writes the residual vectors and nothing else: two solvers are the
  same but for the residuals when they agree on every other member.
\<close>

definition same_but_residuals :: "'q solver \<Rightarrow> 'q solver \<Rightarrow> bool" where
  "same_but_residuals st st' \<longleftrightarrow>
     st' = st\<lparr> rxvals := rxvals st', rcwvals := rcwvals st', rcvals := rcvals st',
               rsvals := rsvals st', rtvals := rtvals st', rztvals := rztvals st',
               rzlvals := rzlvals st', rzuvals := rzuvals st', rswvals := rswvals st' \<rparr>"

section \<open>The diagonal KKT system\<close>

text \<open>Overwriting the elements of \<open>a\<close> from index \<open>off\<close> with \<open>blk\<close>.\<close>

definition write_block :: "vec \<Rightarrow> nat \<Rightarrow> vec \<Rightarrow> vec" where
  "write_block a off blk = take off a @ blk @ drop (off + length blk) a"

text \<open>
  \<^verbatim>\<open>factorCw\<close>, for \<^verbatim>\<open>nwblock == 1\<close>: the loop over \<open>i\<close> stops with the code \<open>1\<close> at the
  first zero entry and leaves the entries from there on as they are.
\<close>

fun factorCw_diag :: "nat list \<Rightarrow> vec \<Rightarrow> int \<times> vec" where
  "factorCw_diag [] cw = (0, cw)"
| "factorCw_diag (i # is) cw =
     (if cw ! i = 0 then (1, cw) else factorCw_diag is (cw[i := 1 / cw ! i]))"

text \<open>
  \<^verbatim>\<open>factorCw\<close>, otherwise: the loop over the blocks, \<open>b\<close> the number of the block that
  starts at the row \<open>i = b * nwblock\<close>; the Cholesky factorization of a block is the
  LAPACK routine of the environment.
\<close>

fun factorCw_blocks :: "'q env \<Rightarrow> nat \<Rightarrow> nat list \<Rightarrow> vec \<Rightarrow> int \<times> vec" where
  "factorCw_blocks env nb [] cw = (0, cw)"
| "factorCw_blocks env nb (b # bs) cw =
     (let incr = ((nb + 1) * nb) div 2
      in case LAPACKdpptrf env nb (take incr (drop (b * incr) cw)) of
           (blk, info) \<Rightarrow>
             (let cw' = write_block cw (b * incr) blk
              in if info \<noteq> 0 then (int (b * nb) + info, cw')
                 else factorCw_blocks env nb bs cw'))"

text \<open>The number of passes of \<^verbatim>\<open>for ( int i = 0; i < nwcon; i += nwblock )\<close>.\<close>

definition block_count :: "'q solver \<Rightarrow> nat" where
  "block_count st = (nwcon st + nwblock st - 1) div nwblock st"

definition factorCw :: "'q env \<Rightarrow> 'q solver \<Rightarrow> int \<times> 'q solver" where
  "factorCw env st =
     (if nwblock st = 1
      then (case factorCw_diag [0..<nwcon st] (Cw st) of (r, cw) \<Rightarrow> (r, st\<lparr> Cw := cw \<rparr>))
      else (case factorCw_blocks env (nwblock st) [0..<block_count st] (Cw st) of
              (r, cw) \<Rightarrow> (r, st\<lparr> Cw := cw \<rparr>)))"

fun applyCwFactor_blocks :: "'q env \<Rightarrow> nat \<Rightarrow> vec \<Rightarrow> nat list \<Rightarrow> vec \<Rightarrow> int \<times> vec" where
  "applyCwFactor_blocks env nb cw [] rhs = (0, rhs)"
| "applyCwFactor_blocks env nb cw (b # bs) rhs =
     (let incr = ((nb + 1) * nb) div 2
      in case LAPACKdpptrs env nb (take incr (drop (b * incr) cw)) (take nb (drop (b * nb) rhs)) of
           (blk, info) \<Rightarrow>
             (let rhs' = write_block rhs (b * nb) blk
              in if info \<noteq> 0 then (int (b * nb) + info, rhs')
                 else applyCwFactor_blocks env nb cw bs rhs'))"

definition applyCwFactor :: "'q env \<Rightarrow> 'q solver \<Rightarrow> vec \<Rightarrow> int \<times> vec" where
  "applyCwFactor env st rhs =
     (if nwblock st = 1
      then (0, map (\<lambda>i. rhs ! i * Cw st ! i) [0..<nwcon st] @ drop (nwcon st) rhs)
      else applyCwFactor_blocks env (nwblock st) (Cw st) [0..<block_count st] rhs)"

text \<open>
  The first part of \<^verbatim>\<open>setUpKKTDiagSystem\<close>: the diagonal matrix \<open>C\<close>, stored inverted.
\<close>

definition setUpKKTDiagSystem_C :: "'q env \<Rightarrow> bool \<Rightarrow> 'q solver \<Rightarrow> 'q solver" where
  "setUpKKTDiagSystem_C env use_qn st =
     (let h = (if hdiag st \<noteq> None \<and> use_diag_hessian st then hdiag st else None);
          b00 = (if hdiag st \<noteq> None \<and> use_diag_hessian st then 0
                 else (case qn st of
                         Some q \<Rightarrow> if use_qn then getCompactMat_b0 env q else 0
                       | None \<Rightarrow> 0));
          b0 = (\<lambda>i. case h of Some hv \<Rightarrow> hv ! i | None \<Rightarrow> b00);
          lterm = (\<lambda>i. zlvals st ! i / (xvals st ! i - lbvals st ! i));
          uterm = (\<lambda>i. zuvals st ! i / (ubvals st ! i - xvals st ! i));
          cv = map (\<lambda>i.
                  if use_lower st \<and> use_upper st
                  then (if lbvals st ! i > - max_bound_val st \<and> ubvals st ! i < max_bound_val st
                        then 1 / (b0 i + qn_sigma st + lterm i + uterm i)
                        else if lbvals st ! i > - max_bound_val st
                        then 1 / (b0 i + qn_sigma st + lterm i)
                        else if ubvals st ! i < max_bound_val st
                        then 1 / (b0 i + qn_sigma st + uterm i)
                        else 1 / (b0 i + qn_sigma st))
                  else if use_lower st
                  then (if lbvals st ! i > - max_bound_val st
                        then 1 / (b0 i + qn_sigma st + lterm i)
                        else 1 / (b0 i + qn_sigma st))
                  else if use_upper st
                  then (if ubvals st ! i < max_bound_val st
                        then 1 / (b0 i + qn_sigma st + uterm i)
                        else 1 / (b0 i + qn_sigma st))
                  else 1 / (b0 i + qn_sigma st)) [0..<nvars st] @ drop (nvars st) (cvals st)
      in st\<lparr> cvals := cv \<rparr>)"

text \<open>
  The assembly of \<open>C\<^sub>w\<close> in \<^verbatim>\<open>setUpKKTDiagSystem\<close>, up to the call of \<^verbatim>\<open>factorCw\<close>.
\<close>

definition setUpKKTDiagSystem_Cw :: "'q env \<Rightarrow> 'q solver \<Rightarrow> 'q solver" where
  "setUpKKTDiagSystem_Cw env st1 =
     (let nb = nwblock st1;
          incr = ((nb + 1) * nb) div 2;
          cw0 = map (\<lambda>_. 0) [0..<nwcon st1 * (nb + 1) div 2] @
                drop (nwcon st1 * (nb + 1) div 2) (Cw st1);
          cw1 = (if sparse_inequality st1
                 then (if nb = 1
                       then map (\<lambda>i. swvals st1 ! i / zwvals st1 ! i) [0..<nwcon st1] @
                            drop (nwcon st1) cw0
                       else foldl (\<lambda>cw b.
                              foldl (\<lambda>cw' j.
                                cw'[b * incr + j * (j + 3) div 2 :=
                                      swvals st1 ! (b * nb + j) / zwvals st1 ! (b * nb + j)])
                                cw [0..<nb])
                              cw0 [0..<block_count st1])
                 else cw0);
          cw2 = addSparseInnerProduct env 1 (xvals st1) (cvals st1) cw1
      in st1\<lparr> Cw := cw2 \<rparr>)"

text \<open>
  \<^verbatim>\<open>setUpKKTDiagSystem(s_qn, wtemp, use_qn)\<close>, as every caller invokes it: the scratch
  vector \<^verbatim>\<open>xtmp\<close> is the member \<^verbatim>\<open>s_qn\<close>. The function is \<^verbatim>\<open>void\<close>: the result is the
  solver after the call and nothing else. The values that \<^verbatim>\<open>factorCw\<close>,
  \<^verbatim>\<open>applyCwFactor\<close> and \<^verbatim>\<open>LAPACKdgetrf\<close> report are computed and not used, as in the
  source. The inner products that the source accumulates four terms at a time are
  sums over the index.
\<close>

definition setUpKKTDiagSystem :: "'q env \<Rightarrow> bool \<Rightarrow> 'q solver \<Rightarrow> 'q solver" where
  "setUpKKTDiagSystem env use_qn st =
     (let st1 = setUpKKTDiagSystem_C env use_qn st;
          st2 =
            (if nwcon st1 > 0
             then
               (let sa = snd (factorCw env (setUpKKTDiagSystem_Cw env st1))
                in foldl (\<lambda>sb k.
                     (let xt = map (\<lambda>i. cvals sb ! i * (Ac sb ! k) ! i) [0..<nvars sb] @
                               drop (nvars sb) (s_qn sb);
                          ew = addSparseJacobian env 1 (xvals sb) xt (map (\<lambda>_. 0) (Ew sb ! k))
                      in sb\<lparr> s_qn := xt, Ew := (Ew sb)[k := ew] \<rparr>)) sa [0..<ncon st1])
             else st1);
          nc = ncon st2;
          dm0 = map (\<lambda>_. 0) [0..<nc * nc] @ drop (nc * nc) (Dmat st2);
          dm1 = (if nwcon st2 > 0
                 then foldl (\<lambda>dm j.
                        (let wt = snd (applyCwFactor env st2 (Ew st2 ! j))
                         in foldl (\<lambda>dm' i.
                              dm'[i + nc * j := dm' ! (i + nc * j) -
                                    (\<Sum>k\<leftarrow>[0..<nwcon st2]. (Ew st2 ! i) ! k * wt ! k)])
                              dm [j..<nc])) dm0 [0..<nc]
                 else dm0);
          dm2 = foldl (\<lambda>dm j.
                  foldl (\<lambda>dm' i.
                    dm'[i + nc * j := dm' ! (i + nc * j) +
                          (\<Sum>k\<leftarrow>[0..<nvars st2]. (Ac st2 ! i) ! k * (Ac st2 ! j) ! k * cvals st2 ! k)])
                    dm [j..<nc]) dm1 [0..<nc];
          dm3 = foldl (\<lambda>dm j.
                  foldl (\<lambda>dm' i. dm'[j + nc * i := dm' ! (i + nc * j)]) dm [j + 1..<nc])
                  dm2 [0..<nc]
      in if nc > 0
         then (let dm4 = (if dense_inequality st2
                          then foldl (\<lambda>dm i.
                                 dm[i * (nc + 1) := dm ! (i * (nc + 1)) +
                                       (svals st2 ! i / zvals st2 ! i + tvals st2 ! i / ztvals st2 ! i)])
                                 dm3 [0..<nc]
                          else dm3)
               in case LAPACKdgetrf env nc dm4 of
                    (lu, piv, info) \<Rightarrow> st2\<lparr> Dmat := lu, dpiv := piv \<rparr>)
         else st2\<lparr> Dmat := dm3 \<rparr>)"

text \<open>
  \<^verbatim>\<open>setUpKKTDiagSystem\<close> writes the matrices of the diagonal system, their pivots and
  the scratch vector, and nothing else: two solvers are the same but for those when
  they agree on every other member.
\<close>

definition same_but_kkt_matrices :: "'q solver \<Rightarrow> 'q solver \<Rightarrow> bool" where
  "same_but_kkt_matrices st st' \<longleftrightarrow>
     st' = st\<lparr> cvals := cvals st', Cw := Cw st', Ew := Ew st', Dmat := Dmat st',
               dpiv := dpiv st', s_qn := s_qn st' \<rparr>"

section \<open>The design variables and their bounds\<close>

definition initAndCheckDesignAndBounds :: "'q env \<Rightarrow> 'q solver \<Rightarrow> 'q solver" where
  "initAndCheckDesignAndBounds env st =
     (case getVarsAndBounds env (xvals st) (lbvals st) (ubvals st) of
        (x0, lb0, ub0) \<Rightarrow>
          (let rel_bound = (1 / 1000) * barrier_param st;
               mb = max_bound_val st;
               fix = (\<lambda>i.
                  (let both = (lb0 ! i > - mb \<and> ub0 ! i < mb);
                       lb1 = (if both \<and> lb0 ! i \<ge> ub0 ! i
                              then (1 / 2) * (lb0 ! i + ub0 ! i) - (1 / 2) * rel_bound else lb0 ! i);
                       ub1 = (if both \<and> lb0 ! i \<ge> ub0 ! i then lb1 + rel_bound else ub0 ! i);
                       delta = (if both then ub1 - lb1 else 1);
                       xa = (if lb1 > - mb \<and> x0 ! i < lb1 + rel_bound * delta
                             then lb1 + rel_bound * delta else x0 ! i);
                       xb = (if ub1 < mb \<and> xa > ub1 - rel_bound * delta
                             then ub1 - rel_bound * delta else xa)
                   in (xb, lb1, ub1)));
               n = nvars st;
               (x1, lb1, ub1) =
                 (if use_lower st \<and> use_upper st
                  then (map (\<lambda>i. fst (fix i)) [0..<n] @ drop n x0,
                        map (\<lambda>i. fst (snd (fix i))) [0..<n] @ drop n lb0,
                        map (\<lambda>i. snd (snd (fix i))) [0..<n] @ drop n ub0)
                  else (x0, lb0, ub0))
           in st\<lparr> xvals := x1, lbvals := lb1, ubvals := ub1,
                   zlvals := map (\<lambda>i. if lb1 ! i \<le> - mb then 0 else zlvals st ! i) [0..<n] @
                             drop n (zlvals st),
                   zuvals := map (\<lambda>i. if ub1 ! i \<ge> mb then 0 else zuvals st ! i) [0..<n] @
                             drop n (zuvals st) \<rparr>))"

section \<open>The driver \<^verbatim>\<open>optimize\<close>\<close>

text \<open>
  \<^verbatim>\<open>optimize\<close> is embedded in four parts that follow the text of the function: the
  initialisation of the multipliers by the starting-point strategy, the head of a
  major iteration up to the convergence test, the rest of the iteration, and the
  loop. The result of \<^verbatim>\<open>optimize\<close> is the returned \<^verbatim>\<open>int\<close> and the solver. Left out
  are the calls that only print or write files (\<^verbatim>\<open>checkGradients\<close>,
  \<^verbatim>\<open>printOptionSummary\<close>, \<^verbatim>\<open>writeOutput\<close>, the checkpoint, the \<^verbatim>\<open>info\<close> string) and the
  local \<^verbatim>\<open>step_norm_prev\<close>, which is assigned and never read. \<^verbatim>\<open>pow\<close> of the C
  library is \<open>powr\<close>; the two agree on a non-negative base.
\<close>

definition max2 :: "real \<Rightarrow> real \<Rightarrow> real" where
  "max2 a b = (if a > b then a else b)"

definition zero_inactive_multipliers :: "'q solver \<Rightarrow> 'q solver" where
  "zero_inactive_multipliers st =
     st\<lparr> zlvals := map (\<lambda>i. if lbvals st ! i \<le> - max_bound_val st then 0 else zlvals st ! i)
                       [0..<nvars st] @ drop (nvars st) (zlvals st),
         zuvals := map (\<lambda>i. if ubvals st ! i \<ge> max_bound_val st then 0 else zuvals st ! i)
                       [0..<nvars st] @ drop (nvars st) (zuvals st) \<rparr>"

definition optimize_starting_point :: "'q env \<Rightarrow> 'q solver \<Rightarrow> 'q solver" where
  "optimize_starting_point env st =
     (case starting_point_strategy st of
        PAROPT_AFFINE_STEP \<Rightarrow>
          (let st1 = zero_inactive_multipliers st;
               st2 = (case computeKKTRes env 0 st1 of (mp, md, mi, rn, s') \<Rightarrow> s');
               use_qn = (\<not> (sequential_linear_method st2 \<or> \<not> use_qn_gmres_precon st2));
               st3 = setUpKKTDiagSystem env use_qn st2;
               st4 = setUpKKTSystem env use_qn st3;
               st5 = computeKKTStep env use_qn st4;
               m = start_affine_multiplier_min st5;
               n = ncon st5;
               st6 = (if dense_inequality st5
                      then st5\<lparr> zvals := map (\<lambda>i. max2 m \<bar>zvals st5 ! i + pzvals st5 ! i\<bar>) [0..<n] @
                                          drop n (zvals st5),
                                svals := map (\<lambda>i. max2 m \<bar>svals st5 ! i + psvals st5 ! i\<bar>) [0..<n] @
                                          drop n (svals st5),
                                tvals := map (\<lambda>i. max2 m \<bar>tvals st5 ! i + ptvals st5 ! i\<bar>) [0..<n] @
                                          drop n (tvals st5),
                                ztvals := map (\<lambda>i. max2 m \<bar>ztvals st5 ! i + pztvals st5 ! i\<bar>) [0..<n] @
                                          drop n (ztvals st5) \<rparr>
                      else st5\<lparr> zvals := map (\<lambda>i. max2 m \<bar>zvals st5 ! i + pzvals st5 ! i\<bar>) [0..<n] @
                                          drop n (zvals st5) \<rparr>);
               nw = nwcon st6;
               st7 = (if nw > 0
                      then (let sa = st6\<lparr> zwvals := map (\<lambda>i. max2 m \<bar>zwvals st6 ! i + pzwvals st6 ! i\<bar>)
                                                       [0..<nw] @ drop nw (zwvals st6) \<rparr>
                            in if sparse_inequality sa
                               then sa\<lparr> swvals := map (\<lambda>i. max2 m \<bar>swvals sa ! i + pswvals sa ! i\<bar>)
                                                      [0..<nw] @ drop nw (swvals sa) \<rparr>
                               else sa)
                      else st6);
               nv = nvars st7;
               st8 = (if use_lower st7
                      then st7\<lparr> zlvals := map (\<lambda>i. if lbvals st7 ! i > - max_bound_val st7
                                                      then max2 m \<bar>zlvals st7 ! i + pzlvals st7 ! i\<bar>
                                                      else zlvals st7 ! i) [0..<nv] @ drop nv (zlvals st7) \<rparr>
                      else st7);
               st9 = (if use_upper st8
                      then st8\<lparr> zuvals := map (\<lambda>i. if ubvals st8 ! i < max_bound_val st8
                                                      then max2 m \<bar>zuvals st8 ! i + pzuvals st8 ! i\<bar>
                                                      else zuvals st8 ! i) [0..<nv] @ drop nv (zuvals st8) \<rparr>
                      else st8)
           in st9\<lparr> barrier_param := computeComp st9 \<rparr>)
      | PAROPT_LEAST_SQUARES_MULTIPLIERS \<Rightarrow>
          (let n = ncon st;
               st1 = st\<lparr> zlvals := map (\<lambda>_. 1) (zlvals st), zuvals := map (\<lambda>_. 1) (zuvals st),
                         zwvals := map (\<lambda>_. 1) (zwvals st), swvals := map (\<lambda>_. 1) (swvals st),
                         zvals := map (\<lambda>_. 1) [0..<n] @ drop n (zvals st),
                         svals := map (\<lambda>_. 1) [0..<n] @ drop n (svals st),
                         ztvals := map (\<lambda>_. 1) [0..<n] @ drop n (ztvals st),
                         tvals := map (\<lambda>_. 1) [0..<n] @ drop n (tvals st) \<rparr>;
               st2 = zero_inactive_multipliers st1;
               xt = vec_axpy 1 (zuvals st2) (vec_axpy (- 1) (zlvals st2) (gvals st2));
               st3 = st2\<lparr> y_qn := xt,
                          zvals := map (\<lambda>i. vec_dot (Ac st2 ! i) xt) [0..<n] @ drop n (zvals st2) \<rparr>;
               dm = map (\<lambda>e. vec_dot (Ac st3 ! (e div n)) (Ac st3 ! (e mod n))) [0..<n * n] @
                    drop (n * n) (Dmat st3)
           in if n > 0
              then (case LAPACKdgetrf env n dm of
                      (lu, piv, info) \<Rightarrow>
                        (let st4 = st3\<lparr> Dmat := lu, dpiv := piv \<rparr>
                         in if info = 0
                            then (case LAPACKdgetrs env n lu piv (zvals st4) of
                                    (zsol, info') \<Rightarrow>
                                      st4\<lparr> zvals :=
                                        (if dense_inequality st4
                                         then map (\<lambda>i. if zsol ! i < 1 / 100 \<or> zsol ! i > penalty_gamma st4 ! i
                                                         then 1 else zsol ! i) [0..<n] @ drop n zsol
                                         else map (\<lambda>i. if zsol ! i < - penalty_gamma st4 ! i \<or>
                                                            zsol ! i > penalty_gamma st4 ! i
                                                         then 1 else zsol ! i) [0..<n] @ drop n zsol) \<rparr>)
                            else st4\<lparr> zvals := map (\<lambda>_. 1) [0..<n] @ drop n (zvals st4) \<rparr>))
              else st3\<lparr> Dmat := dm \<rparr>)
      | PAROPT_NO_START_STRATEGY \<Rightarrow> st)"

text \<open>The locals of \<^verbatim>\<open>optimize\<close> that live across the major iterations.\<close>

record loop_vars =
  fobj_prev :: real
  alpha_prev :: real
  alpha_xprev :: real
  alpha_zprev :: real
  dm0_prev :: real
  res_norm_prev :: real
  no_merit_function_improvement :: bool
  line_search_test :: nat
  line_search_failed :: bool

text \<open>The locals that the head of a major iteration hands to the rest of it.\<close>

record iter_vars =
  rel_function_test :: bool
  comp_k :: real
  max_prime :: real
  max_dual :: real
  max_infeas :: real
  res_norm :: real
  barrier_converged :: bool
  converged :: bool

text \<open>The periodic reset of the quasi-Newton approximation that opens a major iteration.\<close>

definition optimize_hessian_reset :: "'q env \<Rightarrow> nat \<Rightarrow> 'q solver \<Rightarrow> 'q solver" where
  "optimize_hessian_reset env k st =
     (case qn st of
        Some q \<Rightarrow>
          if \<not> sequential_linear_method st \<and> k > 0 \<and> k mod hessian_reset_freq st = 0 \<and>
             use_quasi_newton_update st
          then st\<lparr> qn := Some (reset_qn env q) \<rparr> else st
      | None \<Rightarrow> st)"

definition optimize_iter_head ::
  "'q env \<Rightarrow> nat \<Rightarrow> loop_vars \<Rightarrow> 'q solver \<Rightarrow> iter_vars \<times> loop_vars \<times> 'q solver" where
  "optimize_iter_head env k lv st =
     (let st1 = optimize_hessian_reset env k st;
          rft = (alpha_xprev lv = 1 \<and> alpha_zprev lv = 1 \<and>
                 \<bar>fobj st1 - fobj_prev lv\<bar> < rel_func_tol st1 * \<bar>fobj_prev lv\<bar>);
          lst = (if no_merit_function_improvement lv then line_search_test lv + 1 else 0);
          lv1 = lv\<lparr> line_search_test := lst \<rparr>;
          cmp = computeComp st1;
          (mp, md, mi, rn, bc, lv2, st2) =
            (case barrier_strategy st1 of
               PAROPT_MONOTONE \<Rightarrow>
                 (case computeKKTRes env (barrier_param st1) st1 of
                    (mp, md, mi, rn, sa) \<Rightarrow>
                      (let lva = (if k = 0 then lv1\<lparr> res_norm_prev := rn \<rparr> else lv1);
                           bc = (k > 0 \<and> (rn < 10 * barrier_param sa \<or> rft \<or> lst \<ge> 2))
                       in if bc
                          then (let mu_frac = monotone_barrier_fraction sa * barrier_param sa;
                                    mu_pow = barrier_param sa powr monotone_barrier_power sa;
                                    nb0 = (if mu_pow < mu_frac then mu_pow else mu_frac);
                                    new_barrier_param =
                                      (if nb0 < (1 / 10) * abs_res_tol sa
                                       then (9999 / 100000) * abs_res_tol sa else nb0)
                                in case computeKKTRes env new_barrier_param sa of
                                     (mp', md', mi', rn', sb) \<Rightarrow>
                                       (mp', md', mi', rn', bc, lva,
                                        sb\<lparr> rho_penalty_search := min_rho_penalty_search sb,
                                            barrier_param := new_barrier_param \<rparr>))
                          else (mp, md, mi, rn, bc, lva, sa)))
             | PAROPT_MEHROTRA \<Rightarrow>
                 (case computeKKTRes env (barrier_param st1) st1 of
                    (mp, md, mi, rn, sa) \<Rightarrow>
                      (mp, md, mi, rn, False,
                       (if k = 0 then lv1\<lparr> res_norm_prev := rn \<rparr> else lv1), sa))
             | PAROPT_COMPLEMENTARITY_FRACTION \<Rightarrow>
                 (let bp0 = monotone_barrier_fraction st1 * cmp;
                      bp = (if bp0 < (1 / 10) * abs_res_tol st1 then (1 / 10) * abs_res_tol st1 else bp0);
                      sa = st1\<lparr> barrier_param := bp \<rparr>
                  in case computeKKTRes env (barrier_param sa) sa of
                       (mp, md, mi, rn, sb) \<Rightarrow>
                         (mp, md, mi, rn, False,
                          (if k = 0 then lv1\<lparr> res_norm_prev := rn \<rparr> else lv1), sb)));
          cv = (k > 0 \<and> barrier_param st2 \<le> (1 / 10) * abs_res_tol st2 \<and>
                (rn < abs_res_tol st2 \<or> rft \<or> lst \<ge> 2))
      in (\<lparr> rel_function_test = rft, comp_k = cmp, max_prime = mp, max_dual = md,
            max_infeas = mi, res_norm = rn, barrier_converged = bc, converged = cv \<rparr>, lv2, st2))"

text \<open>
  The branch of a major iteration that skips the line search, taken when the slope
  of the merit function is between zero and \<^verbatim>\<open>function_precision\<close>: the step is
  applied in full, and \<^verbatim>\<open>line_fail\<close>, which every iteration initialises with
  \<^verbatim>\<open>PAROPT_LINE_SEARCH_FAILURE\<close>, becomes \<^verbatim>\<open>PAROPT_LINE_SEARCH_NO_IMPROVEMENT\<close> under
  the guard on the objective \<open>f_prev\<close> before the step and the objective after it.
  The result is \<^verbatim>\<open>line_fail\<close> and the solver.
\<close>

definition optimize_skip_line_search ::
  "'q env \<Rightarrow> real \<Rightarrow> 'q solver \<Rightarrow> line_search_flag set \<times> 'q solver" where
  "optimize_skip_line_search env f_prev st =
     (case computeStepAndUpdate env st 1 True True of
        (update_type, st1) \<Rightarrow>
          ((if no_change_guard f_prev (fobj st1) (function_precision st1)
            then {PAROPT_LINE_SEARCH_NO_IMPROVEMENT}
            else {PAROPT_LINE_SEARCH_FAILURE}), st1))"

text \<open>
  The rest of a major iteration. \<open>Inl\<close> is the \<^verbatim>\<open>return fail\<close> after a failed
  \<^verbatim>\<open>evalHessianDiag\<close>; \<open>Inr\<close> carries the locals for the next iteration, the value of
  \<^verbatim>\<open>line_fail\<close> at the end of the iteration and the solver.
\<close>

definition optimize_iter_rest ::
  "'q env \<Rightarrow> nat \<Rightarrow> iter_vars \<Rightarrow> loop_vars \<Rightarrow> 'q solver \<Rightarrow>
     (int \<times> 'q solver) + (loop_vars \<times> line_search_flag set \<times> 'q solver)" where
  "optimize_iter_rest env k iv lv st =
     (let (inexact_newton_step0, mp1, md1, mi1, st1) =
            (if use_hvec_product st
             then (let gmres_rtol = eisenstat_walker_gamma st *
                                      (res_norm iv / res_norm_prev lv) powr eisenstat_walker_alpha st
                   in if max_prime iv < nk_switch_tol st \<and> max_dual iv < nk_switch_tol st \<and>
                         max_infeas iv < nk_switch_tol st \<and> gmres_rtol < max_gmres_rtol st
                      then (let use_qn = (\<not> (sequential_linear_method st \<or> \<not> use_qn_gmres_precon st));
                                sa = setUpKKTDiagSystem env use_qn st;
                                sb = setUpKKTSystem env use_qn sa
                            in case computeKKTGMRESStep env gmres_rtol (gmres_atol sb) use_qn sb of
                                 (gmres_iters, sc) \<Rightarrow>
                                   (if gmres_iters < 0
                                    then (case computeKKTRes env (barrier_param sc) sc of
                                            (mp, md, mi, rn, sd) \<Rightarrow> (False, mp, md, mi, sd))
                                    else (True, max_prime iv, max_dual iv, max_infeas iv, sc)))
                      else (False, max_prime iv, max_dual iv, max_infeas iv, st))
             else (False, max_prime iv, max_dual iv, max_infeas iv, st));
          lv1 = lv\<lparr> fobj_prev := fobj st1, res_norm_prev := res_norm iv \<rparr>;
          step =
            (if \<not> inexact_newton_step0
             then (let slp = (sequential_linear_method st1 \<or>
                              (line_search_failed lv1 \<and> \<not> use_quasi_newton_update st1));
                       use_qn = (\<not> slp \<and> \<not> use_diag_hessian st1);
                       (fail, sa) =
                         (if \<not> slp \<and> use_diag_hessian st1
                          then (case evalHessianDiag env (xvals st1) (zvals st1) (zwvals st1) (hdiag st1) of
                                  (fl, hd') \<Rightarrow> (fl, st1\<lparr> hdiag := hd' \<rparr>))
                          else (0, st1))
                   in if fail \<noteq> 0 then Inl (fail, sa)
                      else
                        (let sb = (if barrier_strategy sa = PAROPT_MEHROTRA
                                   then (case computeKKTRes env 0 sa of (mp, md, mi, rn, s') \<Rightarrow> s')
                                   else sa);
                             sc = setUpKKTDiagSystem env use_qn sb;
                             sd = setUpKKTSystem env use_qn sc;
                             se = computeKKTStep env use_qn sd;
                             sf = (if barrier_strategy se = PAROPT_MEHROTRA
                                   then (case computeMaxStep se 1 of
                                           (max_x, max_z) \<Rightarrow>
                                             (let comp_affine = computeCompStep se max_x max_z;
                                                  s1 = comp_affine / comp_k iv;
                                                  sigma = s1 * s1 * s1;
                                                  bp0 = sigma * comp_k iv;
                                                  bp = (if bp0 < (9999 / 100000) * abs_res_tol se
                                                        then (9999 / 100000) * abs_res_tol se else bp0);
                                                  sg = se\<lparr> barrier_param := bp \<rparr>
                                              in case computeKKTRes env (barrier_param sg) sg of
                                                   (mp, md, mi, rn, sh) \<Rightarrow> computeKKTStep env use_qn sh))
                                   else se)
                         in Inr (slp, sf)))
             else Inr (False, st1))
      in case step of
           Inl r \<Rightarrow> Inl r
         | Inr (seq_linear_step0, st2) \<Rightarrow>
             (let st3 = (if major_iter_step_check st2 > 0 \<and> int k mod major_iter_step_check st2 = 0
                         then checkKKTStep env k inexact_newton_step0 st2 else st2);
                  tau0 = min_fraction_to_boundary st3;
                  tau_mu = 1 - barrier_param st3;
                  tau = (if tau_mu \<ge> tau0 then tau_mu else tau0)
              in case scaleKKTStep st3 tau (comp_k iv) inexact_newton_step0 of
                   (ceq_step0, alpha_x0, alpha_z0, st4) \<Rightarrow>
                     (let (alpha, alpha_x, alpha_z, line_fail, dm0p, st9) =
                            (if use_line_search st4
                             then
                               (case evalMeritInitDeriv env alpha_x0 st4 of
                                  (m0, dm0, st5) \<Rightarrow>
                                    (if dm0 \<ge> 0 \<and> dm0 \<le> function_precision st5
                                     then
                                       (case optimize_skip_line_search env (fobj_prev lv1) st5 of
                                          (line_fail, st6) \<Rightarrow>
                                            (1, alpha_x0, alpha_z0, line_fail, dm0, st6))
                                     else
                                       (let (alpha_x1, alpha_z1, m1, dm1, st6) =
                                              (if dm0 \<ge> 0
                                               then
                                                 (let sa = (case computeKKTRes env (barrier_param st5) st5 of
                                                              (mp, md, mi, rn, s') \<Rightarrow> s');
                                                      sb = setUpKKTDiagSystem env False sa;
                                                      sc = setUpKKTSystem env False sb;
                                                      sd = computeKKTStep env False sc
                                                  in case scaleKKTStep sd tau (comp_k iv) False of
                                                       (ceq_step1, ax, az, se) \<Rightarrow>
                                                         (case evalMeritInitDeriv env ax se of
                                                            (m', dm', sf) \<Rightarrow> (ax, az, m', dm', sf)))
                                               else (alpha_x0, alpha_z0, m0, dm0, st5));
                                            st7 = (if major_iter_step_check st6 > 0 \<and>
                                                      int k mod major_iter_step_check st6 = 0
                                                   then checkMeritFuncGradient env st6 else st6)
                                        in if dm1 \<ge> 0
                                           then (1, alpha_x1, alpha_z1, {PAROPT_LINE_SEARCH_FAILURE}, dm1, st7)
                                           else
                                             (let px_norm = vec_maxabs (pxvals st7);
                                                  alpha_min0 = (if px_norm \<noteq> 0
                                                                then function_precision st7 / px_norm else 1);
                                                  alpha_min = (if alpha_min0 > 1 / 2 then 1 / 2 else alpha_min0)
                                              in case lineSearch env st7 alpha_min 1 m1 dm1 of
                                                   (lf, alpha', st8) \<Rightarrow>
                                                     (if PAROPT_LINE_SEARCH_FAILURE \<notin> lf
                                                      then (case computeStepAndUpdate env st8 alpha' False True of
                                                              (update_type, s') \<Rightarrow>
                                                                (alpha', alpha_x1, alpha_z1, lf, dm1, s'))
                                                      else (alpha', alpha_x1, alpha_z1, lf, dm1, st8))))))
                             else
                               (case computeStepAndUpdate env st4 1 True True of
                                  (update_type, s') \<Rightarrow>
                                    (1, alpha_x0, alpha_z0, {PAROPT_LINE_SEARCH_FAILURE}, dm0_prev lv1, s')));
                          lv2 = lv1\<lparr> dm0_prev := dm0p,
                                     no_merit_function_improvement :=
                                       (PAROPT_LINE_SEARCH_NO_IMPROVEMENT \<in> line_fail \<or>
                                        PAROPT_LINE_SEARCH_MIN_STEP \<in> line_fail \<or>
                                        PAROPT_LINE_SEARCH_FAILURE \<in> line_fail),
                                     line_search_failed := (PAROPT_LINE_SEARCH_FAILURE \<in> line_fail),
                                     alpha_prev := alpha, alpha_xprev := alpha_x, alpha_zprev := alpha_z \<rparr>;
                          st10 = (case qn st9 of
                                    Some q \<Rightarrow>
                                      if use_quasi_newton_update st9 \<and>
                                         PAROPT_LINE_SEARCH_FAILURE \<in> line_fail
                                      then st9\<lparr> qn := Some (reset_qn env q) \<rparr> else st9
                                  | None \<Rightarrow> st9)
                      in Inr (lv2, line_fail, st10))))"

text \<open>
  What the rest of a major iteration hands on about the line search: the flag
  \<^verbatim>\<open>no_merit_function_improvement\<close> is set when the line search reports no
  improvement, the minimum step or a failure, and \<^verbatim>\<open>line_search_failed\<close> when it
  reports a failure.
\<close>

definition counts_flags ::
  "(int \<times> 'q solver) + (loop_vars \<times> line_search_flag set \<times> 'q solver) \<Rightarrow> bool" where
  "counts_flags r \<longleftrightarrow>
     (case r of
        Inl e \<Rightarrow> True
      | Inr (lv2, lf, st2) \<Rightarrow>
          (no_merit_function_improvement lv2 \<longleftrightarrow>
             PAROPT_LINE_SEARCH_NO_IMPROVEMENT \<in> lf \<or> PAROPT_LINE_SEARCH_MIN_STEP \<in> lf \<or>
             PAROPT_LINE_SEARCH_FAILURE \<in> lf) \<and>
          (line_search_failed lv2 \<longleftrightarrow> PAROPT_LINE_SEARCH_FAILURE \<in> lf))"

text \<open>
  The loop \<^verbatim>\<open>for ( int k = 0; k < max_major_iters; k++, niter++ )\<close>: the first numeric
  argument is the number of iterations left. The \<^verbatim>\<open>break\<close> on convergence and the
  end of the loop both reach \<^verbatim>\<open>return 0\<close>.
\<close>

fun optimize_loop :: "'q env \<Rightarrow> nat \<Rightarrow> nat \<Rightarrow> loop_vars \<Rightarrow> 'q solver \<Rightarrow> int \<times> 'q solver" where
  "optimize_loop env 0 k lv st = (0, st)"
| "optimize_loop env (Suc n) k lv st =
     (case optimize_iter_head env k lv st of
        (iv, lv1, st1) \<Rightarrow>
          if converged iv then (0, st1)
          else (case optimize_iter_rest env k iv lv1 st1 of
                  Inl r \<Rightarrow> r
                | Inr (lv2, line_fail, st2) \<Rightarrow>
                    optimize_loop env n (k + 1) lv2 (st2\<lparr> niter := niter st2 + 1 \<rparr>)))"

definition optimize :: "'q env \<Rightarrow> 'q solver \<Rightarrow> int \<times> 'q solver" where
  "optimize env st =
     (let st1 = st\<lparr> niter := 0, neval := 0, ngeval := 0, nhvec := 0 \<rparr>;
          st2 = (if qn st1 = None then st1\<lparr> sequential_linear_method := True \<rparr> else st1);
          st3 = initAndCheckDesignAndBounds env st2
      in case evalObjCon env (xvals st3) (fobj st3) (convals st3) of
           (fail_obj, f, c) \<Rightarrow>
             (let st4 = st3\<lparr> fobj := f, convals := c, neval := neval st3 + 1 \<rparr>
              in if fail_obj \<noteq> 0 then (fail_obj, st4)
                 else
                   (case evalObjConGradient env (xvals st4) (gvals st4) (Ac st4) of
                      (fail_gobj, g, A) \<Rightarrow>
                        (let st5 = st4\<lparr> gvals := g, Ac := A, ngeval := ngeval st4 + 1 \<rparr>
                         in if fail_gobj \<noteq> 0 then (fail_obj, st5)
                            else
                              (let st6 = optimize_starting_point env st5;
                                   st7 = (case qn st6 of
                                            Some q \<Rightarrow>
                                              if \<not> use_quasi_newton_update st6
                                              then st6\<lparr> qn := Some (snd (update_qn env (xvals st6)
                                                                           (zvals st6) (zwvals st6) q)) \<rparr>
                                              else st6
                                          | None \<Rightarrow> st6)
                               in optimize_loop env (max_major_iters st7) 0
                                    \<lparr> fobj_prev = 0, alpha_prev = 0, alpha_xprev = 0, alpha_zprev = 0,
                                      dm0_prev = 0, res_norm_prev = 0,
                                      no_merit_function_improvement = False,
                                      line_search_test = 0, line_search_failed = False \<rparr> st7)))))"

section \<open>The tests of the driver as the specification words them\<close>

text \<open>
  The relative function test as the specification describes it: two consecutive
  full steps and a small relative change of the objective. \<open>steps\<close> holds the step
  lengths \<open>(\<alpha>\<^sub>x, \<alpha>\<^sub>z)\<close> of the major iterations made so far, the latest first.
\<close>

definition rel_function_test_spec :: "(real \<times> real) list \<Rightarrow> real \<Rightarrow> real \<Rightarrow> real \<Rightarrow> bool" where
  "rel_function_test_spec steps f f_prev tol \<longleftrightarrow>
     take 2 steps = [(1, 1), (1, 1)] \<and> \<bar>f - f_prev\<bar> < tol * \<bar>f_prev\<bar>"

text \<open>
  The new barrier parameter of the monotone strategy as the specification describes
  it: the smaller of the fraction and the power of the old one, with
  \<open>0.09999 \<sqdot> abs_res_tol\<close> as a floor.
\<close>

definition monotone_barrier_spec :: "'q solver \<Rightarrow> real" where
  "monotone_barrier_spec st =
     max (min (monotone_barrier_fraction st * barrier_param st)
              (barrier_param st powr monotone_barrier_power st))
         (9999 / 100000 * abs_res_tol st)"

section \<open>Example states\<close>

text \<open>
  The solver as the constructor leaves it, with the default options, for a problem
  with one design variable \<open>x = 1/2\<close> bounded by \<open>0\<close> and \<open>1\<close>, one dense and one
  sparse inequality constraint, and no quasi-Newton object. All multipliers and
  slacks are \<open>1\<close>.
\<close>

definition example_solver :: "unit solver" where
  "example_solver =
     \<lparr> nvars = 1,
       ncon = 1,
       nwcon = 1,
       nwblock = 1,
       opt_root = 0,
       use_lower = True,
       use_upper = True,
       dense_inequality = True,
       sparse_inequality = True,
       max_bound_val = 10 ^ 20,
       rel_bound_barrier = 1,
       design_precision = 1 / 10 ^ 15,
       function_precision = 1 / 10 ^ 10,
       abs_res_tol = 1 / 10 ^ 5,
       rel_func_tol = 0,
       abs_step_tol = 0,
       monotone_barrier_fraction = 1 / 4,
       monotone_barrier_power = 11 / 10,
       min_rho_penalty_search = 0,
       armijo_constant = 1 / 10 ^ 5,
       min_fraction_to_boundary = 95 / 100,
       qn_sigma = 0,
       nk_switch_tol = 1 / 10 ^ 3,
       eisenstat_walker_alpha = 3 / 2,
       eisenstat_walker_gamma = 1,
       max_gmres_rtol = 1 / 10,
       gmres_atol = 1 / 10 ^ 30,
       start_affine_multiplier_min = 1 / 10 ^ 3,
       penalty_gamma = [1000],
       barrier_strategy = PAROPT_MONOTONE,
       norm_type = PAROPT_INFTY_NORM,
       starting_point_strategy = PAROPT_LEAST_SQUARES_MULTIPLIERS,
       max_major_iters = 1000,
       max_line_iters = 10,
       hessian_reset_freq = 100000000,
       major_iter_step_check = - 1,
       use_line_search = True,
       use_backtracking_alpha = False,
       use_hvec_product = False,
       use_diag_hessian = False,
       use_qn_gmres_precon = True,
       use_quasi_newton_update = True,
       sequential_linear_method = False,
       barrier_param = 1 / 10,
       rho_penalty_search = 0,
       qn = None,
       hdiag = None,
       xvals = [1 / 2],
       lbvals = [0],
       ubvals = [1],
       zlvals = [1],
       zuvals = [1],
       zwvals = [1],
       swvals = [1],
       zvals = [1],
       svals = [1],
       tvals = [1],
       ztvals = [1],
       pxvals = [0],
       pzlvals = [0],
       pzuvals = [0],
       pzwvals = [0],
       pswvals = [0],
       pzvals = [0],
       psvals = [0],
       ptvals = [0],
       pztvals = [0],
       rxvals = [0],
       rzlvals = [0],
       rzuvals = [0],
       rcwvals = [0],
       rswvals = [0],
       rcvals = [0],
       rsvals = [0],
       rtvals = [0],
       rztvals = [0],
       cvals = [0],
       Cw = [0],
       Ew = [[0]],
       Dmat = [0],
       dpiv = [0],
       fobj = 0,
       convals = [0],
       gvals = [0],
       Ac = [[0]],
       y_qn = [0],
       s_qn = [0],
       niter = 0,
       neval = 0,
       ngeval = 0,
       nhvec = 0 \<rparr>"


text \<open>
  The example solver with a Newton direction that moves \<open>x\<close> towards its lower
  bound and raises the multiplier \<open>z_t\<close>.
\<close>

definition step_example :: "unit solver" where
  "step_example = example_solver\<lparr> pxvals := [- 1], pztvals := [1] \<rparr>"

text \<open>
  A problem for the example solver: the objective is \<open>x\<close>, the dense and the sparse
  constraint are both \<open>x\<close>, the variable starts at \<open>1/2\<close> between the bounds
  \<open>0\<close> and \<open>1\<close>. The LAPACK routines are those for matrices of order one. The
  solver has no quasi-Newton object. The member functions that the environment
  stands for do nothing here, except that \<^verbatim>\<open>evalMeritInitDeriv\<close> reports the merit
  value \<open>0\<close> with the slope \<open>-1\<close> and \<^verbatim>\<open>evalMeritFunc\<close> returns the objective.
\<close>

definition example_env :: "unit env" where
  "example_env =
     \<lparr> evalObjCon = (\<lambda>x f c. (0, x ! 0, [x ! 0])),
       evalObjConGradient = (\<lambda>x g A. (0, [1], [[1]])),
       evalHessianDiag = (\<lambda>x z zw h. (0, h)),
       evalSparseCon = (\<lambda>x out. [x ! 0]),
       addSparseJacobian = (\<lambda>alpha x px out. [out ! 0 + alpha * px ! 0]),
       addSparseJacobianTranspose = (\<lambda>alpha x pzw out. [out ! 0 + alpha * pzw ! 0]),
       addSparseInnerProduct = (\<lambda>alpha x c cw. [cw ! 0 + alpha * c ! 0]),
       computeQuasiNewtonUpdateCorrection = (\<lambda>s y. (s, y)),
       getVarsAndBounds = (\<lambda>x lb ub. ([1 / 2], [0], [1])),
       update_qn = (\<lambda>x z zw q. (0, q)),
       update_qn_sy = (\<lambda>x z zw s y q. (0, q)),
       reset_qn = (\<lambda>q. q),
       getCompactMat_b0 = (\<lambda>q. 1),
       LAPACKdpptrf = (\<lambda>n a. if a ! 0 > 0 then ([sqrt (a ! 0)], 0) else (a, 1)),
       LAPACKdpptrs = (\<lambda>n a b. ([b ! 0 / (a ! 0 * a ! 0)], 0)),
       LAPACKdgetrf = (\<lambda>n a. (a, [1], if a ! 0 = 0 then 1 else 0)),
       LAPACKdgetrs = (\<lambda>n a piv b. ([b ! 0 / a ! 0], 0)),
       setUpKKTSystem = (\<lambda>use_qn st. st),
       computeKKTStep = (\<lambda>use_qn st. st),
       computeKKTGMRESStep = (\<lambda>rtol atol use_qn st. (- 1, st)),
       evalMeritInitDeriv = (\<lambda>max_x st. (0, - 1, st)),
       evalMeritFunc = (\<lambda>st fk ck xk sk tk swk. fk),
       checkKKTStep = (\<lambda>k is_newton st. st),
       checkMeritFuncGradient = (\<lambda>st. st) \<rparr>"


text \<open>A checkpoint file written for two design variables instead of one.\<close>

definition mismatched_file :: solution_file where
  "mismatched_file = \<lparr> var_sizes = [2, 1, 1], scalars = [5, 5, 5, 5, 5, 5, 5, 5, 5, 5, 5] \<rparr>"


text \<open>
  The example solver at the top of the second major iteration, \<open>k = 1\<close>: the first
  iteration took the full step lengths \<open>\<alpha>\<^sub>x = \<alpha>\<^sub>z = 1\<close> and moved \<open>x\<close> from \<open>0.5\<close> to
  \<open>0.4999\<close>, so that the objective changed by \<open>10\<^sup>-\<^sup>4\<close>. The relative function
  tolerance is \<open>10\<^sup>-\<^sup>3\<close> and the barrier parameter \<open>10\<^sup>-\<^sup>6\<close>.
\<close>

definition one_step_solver :: "unit solver" where
  "one_step_solver =
     example_solver\<lparr> rel_func_tol := 1 / 10 ^ 3, barrier_param := 1 / 10 ^ 6,
                     xvals := [4999 / 10000], fobj := 4999 / 10000, convals := [4999 / 10000],
                     gvals := [1], Ac := [[1]], niter := 1, neval := 2, ngeval := 2 \<rparr>"

definition one_step_vars :: loop_vars where
  "one_step_vars =
     \<lparr> fobj_prev = 1 / 2, alpha_prev = 1, alpha_xprev = 1, alpha_zprev = 1,
       dm0_prev = - 1, res_norm_prev = 998, no_merit_function_improvement = False,
       line_search_test = 0, line_search_failed = False \<rparr>"

text \<open>
  The example solver with the barrier parameter \<open>1\<close> and the barrier fraction
  \<open>9.9995 \<sqdot> 10\<^sup>-\<^sup>7\<close>, both values that the setters accept, at the top of the third
  major iteration, after two line searches without improvement.
\<close>

definition floor_solver :: "unit solver" where
  "floor_solver =
     example_solver\<lparr> barrier_param := 1, monotone_barrier_fraction := 99995 / 10 ^ 11,
                     fobj := 1 / 2, convals := [1 / 2], gvals := [1], Ac := [[1]],
                     niter := 2, neval := 3, ngeval := 3 \<rparr>"

definition stalled_vars :: loop_vars where
  "stalled_vars =
     \<lparr> fobj_prev = 1 / 2, alpha_prev = 1, alpha_xprev = 1, alpha_zprev = 1,
       dm0_prev = 0, res_norm_prev = 998, no_merit_function_improvement = True,
       line_search_test = 1, line_search_failed = True \<rparr>"

text \<open>
  The example problem with a gradient evaluation that fails with the code \<open>1\<close> and
  leaves the gradients as they are.
\<close>

definition failing_gradient_env :: "unit env" where
  "failing_gradient_env = example_env\<lparr> evalObjConGradient := (\<lambda>x g A. (1, g, A)) \<rparr>"

text \<open>
  The view of the only process of a run on one process, and the view of the second
  of two processes when the first, the root, owns no design variable and no sparse
  constraint and broadcasts \<open>z = [2]\<close> and \<open>s = [3]\<close>.
\<close>

definition single_view :: mpi_view where
  "single_view = \<lparr> rank = 0, comm_size = 1, var_range = [0, 1], wcon_range = [0, 1],
                   z_from_root = [], s_from_root = [] \<rparr>"



text \<open>
  A problem whose objective is the constant \<open>2\<^sup>2\<^sup>4\<close>, with a merit function of that
  value and of slope zero, and the example solver at a point of that problem, in the
  sequential linear mode that \<^verbatim>\<open>optimize\<close> selects without a quasi-Newton
  approximation, with the locals of a major iteration.
\<close>

definition flat_env :: "unit env" where
  "flat_env = example_env\<lparr> evalObjCon := (\<lambda>x f c. (0, 2 ^ 24, [x ! 0])),
                            evalObjConGradient := (\<lambda>x g A. (0, [0], [[1]])),
                            evalMeritInitDeriv := (\<lambda>max_x st. (2 ^ 24, 0, st)),
                            evalMeritFunc := (\<lambda>st fk ck xk sk tk swk. 2 ^ 24) \<rparr>"

definition flat_example :: "unit solver" where
  "flat_example = example_solver\<lparr> fobj := 2 ^ 24, convals := [1 / 2], gvals := [0], Ac := [[1]],
                                  sequential_linear_method := True \<rparr>"

definition flat_iter :: iter_vars where
  "flat_iter =
     \<lparr> rel_function_test = False, comp_k = 1, max_prime = 1, max_dual = 1, max_infeas = 1,
       res_norm = 1, barrier_converged = False, converged = False \<rparr>"

definition flat_vars :: loop_vars where
  "flat_vars =
     \<lparr> fobj_prev = 2 ^ 24, alpha_prev = 1, alpha_xprev = 1, alpha_zprev = 1,
       dm0_prev = 0, res_norm_prev = 1, no_merit_function_improvement = False,
       line_search_test = 0, line_search_failed = False \<rparr>"

section \<open>Verification: rounding\<close>

text \<open>
  How \<open>round_double\<close> is evaluated, and its monotonicity where it is needed: rounding
  a number that is at least the double \<open>x\<close> gives at least \<open>x\<close>.
\<close>

lemma floor_log2_eq:
  assumes "0 < x" "2 powi k \<le> x" "x < 2 powi (k + 1)"
  shows "\<lfloor>log 2 x\<rfloor> = k"
proof -
  have e: "(2::real) powi j = 2 powr of_int j" for j
    by (simp add: powr_real_of_int')
  have "of_int k \<le> log 2 x" using assms by (simp add: le_log_iff e)
  moreover have "log 2 x < of_int k + 1" using assms by (simp add: log_less_iff e)
  ultimately show ?thesis by (simp add: floor_eq_iff)
qed

lemma round_double_eval:
  assumes "0 < x" "2 powi k \<le> x" "x < 2 powi (k + 1)"
  shows "round_double x = 2 powi (k - 52) * of_int (round_half_even (x / 2 powi (k - 52)))"
  using assms floor_log2_eq[OF assms] by (simp add: round_double_def Let_def)


lemma round_half_even_near:
  assumes "\<bar>r - of_int n\<bar> < 1 / 2"
  shows "round_half_even r = n"
proof -
  have "\<lfloor>r\<rfloor> = n \<or> \<lfloor>r\<rfloor> = n - 1"
    using assms by (auto simp: floor_eq_iff abs_less_iff)
  then show ?thesis
  proof
    assume f: "\<lfloor>r\<rfloor> = n"
    then have "r - of_int n < 1 / 2" using assms by linarith
    then show ?thesis using f by (simp add: round_half_even_def)
  next
    assume f: "\<lfloor>r\<rfloor> = n - 1"
    have "1 / 2 < r - (of_int n - 1)" using assms by linarith
    then show ?thesis using f by (simp add: round_half_even_def)
  qed
qed

lemma round_double_near:
  assumes "0 < x" "2 powi k \<le> x" "x < 2 powi (k + 1)"
    and "\<bar>x / 2 powi (k - 52) - of_int n\<bar> < 1 / 2"
  shows "round_double x = 2 powi (k - 52) * of_int n"
  unfolding round_double_eval[OF assms(1-3)] round_half_even_near[OF assms(4)] ..



lemma two_powi_powr: "(2::real) powi j = 2 powr of_int j"
  by (simp add: powr_real_of_int')

lemma binade:
  assumes "x \<noteq> 0"
  shows "2 powi \<lfloor>log 2 \<bar>x\<bar>\<rfloor> \<le> \<bar>x\<bar>" and "\<bar>x\<bar> < 2 powi (\<lfloor>log 2 \<bar>x\<bar>\<rfloor> + 1)"
proof -
  have p: "0 < \<bar>x\<bar>" using assms by simp
  have "of_int \<lfloor>log 2 \<bar>x\<bar>\<rfloor> \<le> log 2 \<bar>x\<bar>" by simp
  then have "2 powr of_int \<lfloor>log 2 \<bar>x\<bar>\<rfloor> \<le> \<bar>x\<bar>"
    using le_log_iff[of 2 "\<bar>x\<bar>" "of_int \<lfloor>log 2 \<bar>x\<bar>\<rfloor>"] p by simp
  then show "2 powi \<lfloor>log 2 \<bar>x\<bar>\<rfloor> \<le> \<bar>x\<bar>"
    by (simp only: two_powi_powr)
  have "log 2 \<bar>x\<bar> < of_int (\<lfloor>log 2 \<bar>x\<bar>\<rfloor> + 1)" by simp
  then have "\<bar>x\<bar> < 2 powr of_int (\<lfloor>log 2 \<bar>x\<bar>\<rfloor> + 1)"
    using log_less_iff[of 2 "\<bar>x\<bar>" "of_int (\<lfloor>log 2 \<bar>x\<bar>\<rfloor> + 1)"] p by simp
  then show "\<bar>x\<bar> < 2 powi (\<lfloor>log 2 \<bar>x\<bar>\<rfloor> + 1)"
    by (simp only: two_powi_powr)
qed

lemma round_half_even_ge:
  assumes "of_int n \<le> r"
  shows "n \<le> round_half_even r"
proof -
  have "n \<le> \<lfloor>r\<rfloor>" using assms by (simp add: le_floor_iff)
  moreover have "\<lfloor>r\<rfloor> \<le> round_half_even r" by (simp add: round_half_even_def Let_def)
  ultimately show ?thesis by simp
qed

lemma round_double_ge_grid:
  assumes "x \<noteq> 0" and "of_int n * 2 powi (\<lfloor>log 2 \<bar>x\<bar>\<rfloor> - 52) \<le> x"
  shows "of_int n * 2 powi (\<lfloor>log 2 \<bar>x\<bar>\<rfloor> - 52) \<le> round_double x"
proof -
  define u :: real where "u = 2 powi (\<lfloor>log 2 \<bar>x\<bar>\<rfloor> - 52)"
  have u: "0 < u" by (simp add: u_def)
  have "of_int n \<le> x / u" using assms(2) u by (simp add: u_def[symmetric] pos_le_divide_eq)
  then have "n \<le> round_half_even (x / u)" by (rule round_half_even_ge)
  then have "of_int n * u \<le> of_int (round_half_even (x / u)) * u"
    using u by simp
  then show ?thesis
    using assms(1) by (simp add: round_double_def Let_def u_def[symmetric] mult.commute)
qed

lemma round_double_pos_ge:
  assumes "0 < y"
  shows "2 powi \<lfloor>log 2 \<bar>y\<bar>\<rfloor> \<le> round_double y"
proof -
  have y: "y \<noteq> 0" using assms by simp
  have e: "of_int (2 ^ 52) * 2 powi (\<lfloor>log 2 \<bar>y\<bar>\<rfloor> - 52) = (2::real) powi \<lfloor>log 2 \<bar>y\<bar>\<rfloor>"
    by (simp add: power_int_diff)
  have "of_int (2 ^ 52) * 2 powi (\<lfloor>log 2 \<bar>y\<bar>\<rfloor> - 52) \<le> y"
    unfolding e using binade(1)[OF y] assms by simp
  then have "of_int (2 ^ 52) * 2 powi (\<lfloor>log 2 \<bar>y\<bar>\<rfloor> - 52) \<le> round_double y"
    by (rule round_double_ge_grid[OF y])
  then show ?thesis by (simp only: e)
qed

lemma round_double_neg_ge:
  assumes "y < 0"
  shows "- (2 powi (\<lfloor>log 2 \<bar>y\<bar>\<rfloor> + 1)) \<le> round_double y"
proof -
  have y: "y \<noteq> 0" using assms by simp
  have e: "of_int (- (2 ^ 53)) * 2 powi (\<lfloor>log 2 \<bar>y\<bar>\<rfloor> - 52) = - ((2::real) powi (\<lfloor>log 2 \<bar>y\<bar>\<rfloor> + 1))"
    by (simp add: power_int_diff power_int_add)
  have "of_int (- (2 ^ 53)) * 2 powi (\<lfloor>log 2 \<bar>y\<bar>\<rfloor> - 52) \<le> y"
    unfolding e using binade(2)[OF y] assms by simp
  then have "of_int (- (2 ^ 53)) * 2 powi (\<lfloor>log 2 \<bar>y\<bar>\<rfloor> - 52) \<le> round_double y"
    by (rule round_double_ge_grid[OF y])
  then show ?thesis by (simp only: e)
qed

lemma round_double_on_grid:
  assumes "x \<noteq> 0" "round_double x = x"
  shows "of_int (round_half_even (x / 2 powi (\<lfloor>log 2 \<bar>x\<bar>\<rfloor> - 52))) * 2 powi (\<lfloor>log 2 \<bar>x\<bar>\<rfloor> - 52) = x"
  using assms by (simp add: round_double_def Let_def mult.commute)

lemma binade_mono:
  assumes "x \<noteq> 0" "\<bar>x\<bar> \<le> \<bar>y\<bar>"
  shows "\<lfloor>log 2 \<bar>x\<bar>\<rfloor> \<le> \<lfloor>log 2 \<bar>y\<bar>\<rfloor>"
  using assms by (intro floor_mono) simp

lemma round_double_above:
  assumes d: "round_double x = x" and le: "x \<le> y"
  shows "x \<le> round_double y"
proof -
  consider "y = 0" | "y \<noteq> 0" "x = 0" | "0 < x" | "x < 0" "0 < y" | "x < 0" "y < 0"
    using le by linarith
  then show ?thesis
  proof cases
    case 1
    then show ?thesis using le by (simp add: round_double_def)
  next
    case 2
    then have "0 < y" using le by simp
    then have "0 < round_double y"
      using round_double_pos_ge[of y] by (meson less_le_trans zero_less_numeral zero_less_power_int)
    then show ?thesis using 2 by simp
  next
    case 3
    then have y: "0 < y" "y \<noteq> 0" and x: "x \<noteq> 0" using le by simp_all
    have "\<bar>x\<bar> \<le> \<bar>y\<bar>" using 3 le by simp
    then have k: "\<lfloor>log 2 \<bar>x\<bar>\<rfloor> \<le> \<lfloor>log 2 \<bar>y\<bar>\<rfloor>"
      by (rule binade_mono[OF x])
    show ?thesis
    proof (cases "\<lfloor>log 2 \<bar>x\<bar>\<rfloor> = \<lfloor>log 2 \<bar>y\<bar>\<rfloor>")
      case True
      note g = round_double_on_grid[OF x d, unfolded True]
      have "of_int (round_half_even (x / 2 powi (\<lfloor>log 2 \<bar>y\<bar>\<rfloor> - 52))) * 2 powi (\<lfloor>log 2 \<bar>y\<bar>\<rfloor> - 52)
              \<le> round_double y"
        by (rule round_double_ge_grid[OF y(2)]) (simp only: g le)
      then show ?thesis by (simp only: g)
    next
      case False
      then have "\<lfloor>log 2 \<bar>x\<bar>\<rfloor> + 1 \<le> \<lfloor>log 2 \<bar>y\<bar>\<rfloor>" using k by simp
      then have "(2::real) powi (\<lfloor>log 2 \<bar>x\<bar>\<rfloor> + 1) \<le> 2 powi \<lfloor>log 2 \<bar>y\<bar>\<rfloor>"
        by (rule power_int_increasing) simp
      then show ?thesis
        using binade(2)[OF x] round_double_pos_ge[OF y(1)] 3 by simp
    qed
  next
    case 4
    then have "0 < round_double y"
      using round_double_pos_ge[of y] by (meson less_le_trans zero_less_numeral zero_less_power_int)
    then show ?thesis using 4 by simp
  next
    case 5
    then have y: "y \<noteq> 0" and x: "x \<noteq> 0" by simp_all
    have "\<bar>y\<bar> \<le> \<bar>x\<bar>" using 5 le by simp
    then have k: "\<lfloor>log 2 \<bar>y\<bar>\<rfloor> \<le> \<lfloor>log 2 \<bar>x\<bar>\<rfloor>"
      by (rule binade_mono[OF y])
    show ?thesis
    proof (cases "\<lfloor>log 2 \<bar>x\<bar>\<rfloor> = \<lfloor>log 2 \<bar>y\<bar>\<rfloor>")
      case True
      note g = round_double_on_grid[OF x d, unfolded True]
      have "of_int (round_half_even (x / 2 powi (\<lfloor>log 2 \<bar>y\<bar>\<rfloor> - 52))) * 2 powi (\<lfloor>log 2 \<bar>y\<bar>\<rfloor> - 52)
              \<le> round_double y"
        by (rule round_double_ge_grid[OF y]) (simp only: g le)
      then show ?thesis by (simp only: g)
    next
      case False
      then have "\<lfloor>log 2 \<bar>y\<bar>\<rfloor> + 1 \<le> \<lfloor>log 2 \<bar>x\<bar>\<rfloor>" using k by simp
      then have "(2::real) powi (\<lfloor>log 2 \<bar>y\<bar>\<rfloor> + 1) \<le> 2 powi \<lfloor>log 2 \<bar>x\<bar>\<rfloor>"
        by (rule power_int_increasing) simp
      then show ?thesis
        using binade(1)[OF x] round_double_neg_ge[OF 5(2)] 5 by simp
    qed
  qed
qed

section \<open>Verification: the return value of \<^verbatim>\<open>optimize\<close>\<close>

text \<open>
  Claim C1 has \<^verbatim>\<open>optimize\<close> return the failure code of the Problem when the initial
  gradient evaluation fails. The code at that point reads \<^verbatim>\<open>return fail_obj;\<close>, the
  code of the objective evaluation that has just succeeded, where \<^verbatim>\<open>fail_gobj\<close> is
  meant: whenever the initial \<^verbatim>\<open>evalObjCon\<close> succeeds and the initial
  \<^verbatim>\<open>evalObjConGradient\<close> fails, \<^verbatim>\<open>optimize\<close> returns \<open>0\<close>, the code for success, and has
  made no iteration.
\<close>

theorem optimize_initial_gradient_failure:
  assumes "\<And>x f c. fst (evalObjCon env x f c) = 0"
    and "\<And>x g A. fst (evalObjConGradient env x g A) \<noteq> 0"
  shows "fst (optimize env st) = 0 \<and> niter (snd (optimize env st)) = 0"
proof -
  define st3 where "st3 = initAndCheckDesignAndBounds env
     (if qn (st\<lparr> niter := 0, neval := 0, ngeval := 0, nhvec := 0 \<rparr>) = None
      then st\<lparr> niter := 0, neval := 0, ngeval := 0, nhvec := 0, sequential_linear_method := True \<rparr>
      else st\<lparr> niter := 0, neval := 0, ngeval := 0, nhvec := 0 \<rparr>)"
  obtain fo f c where O: "evalObjCon env (xvals st3) (fobj st3) (convals st3) = (fo, f, c)"
    by (rule prod_cases3)
  have fo: "fo = 0" using assms(1)[of "xvals st3" "fobj st3" "convals st3"] O by simp
  define st4 where "st4 = st3\<lparr> fobj := f, convals := c, neval := neval st3 + 1 \<rparr>"
  obtain fg g A where G: "evalObjConGradient env (xvals st4) (gvals st4) (Ac st4) = (fg, g, A)"
    by (rule prod_cases3)
  have fg: "fg \<noteq> 0" using assms(2)[of "xvals st4" "gvals st4" "Ac st4"] G by simp
  have n: "niter st3 = 0"
    unfolding st3_def initAndCheckDesignAndBounds_def
    by (simp add: Let_def split: prod.split)
  have "optimize env st = (0, st4\<lparr> gvals := g, Ac := A, ngeval := ngeval st4 + 1 \<rparr>)"
    unfolding optimize_def Let_def
    by (simp only: st3_def[symmetric] O prod.case st4_def[symmetric] fo G fg) simp
  then show ?thesis
    by (simp add: st4_def n)
qed

theorem optimize_initial_gradient_failure_witness:
  "fst (evalObjCon failing_gradient_env [1 / 2] 0 [0]) = 0 \<and>
   fst (evalObjConGradient failing_gradient_env [1 / 2] [0] [[0]]) = 1 \<and>
   fst (optimize failing_gradient_env example_solver) = 0"
  using optimize_initial_gradient_failure[of failing_gradient_env example_solver]
  by (simp add: failing_gradient_env_def example_env_def)

section \<open>Verification: the head of a major iteration\<close>

lemma kkt_frame_Let:
  "(\<And>x. same_but_residuals st (snd (snd (snd (snd (f x)))))) \<Longrightarrow>
   same_but_residuals st (snd (snd (snd (snd (Let t f)))))"
  by simp

lemma kkt_frame_split:
  "(\<And>a b. same_but_residuals st (snd (snd (snd (snd (f a b)))))) \<Longrightarrow>
   same_but_residuals st (snd (snd (snd (snd (case p of (a, b) \<Rightarrow> f a b)))))"
  by (cases p) simp

lemma computeKKTRes_frame:
  "same_but_residuals st (snd (snd (snd (snd (computeKKTRes env barrier st)))))"
  unfolding computeKKTRes_def
  apply (rule kkt_frame_Let kkt_frame_split)+
  apply (simp add: same_but_residuals_def)
  done

lemma computeKKTRes_same:
  assumes "computeKKTRes env barrier st = (mp, md, mi, rn, st')"
  shows "same_but_residuals st st'"
  using computeKKTRes_frame[of st env barrier] assms by simp

lemma same_but_residuals_fields:
  assumes "same_but_residuals st st'"
  shows "barrier_param st' = barrier_param st"
    and "abs_res_tol st' = abs_res_tol st"
    and "rel_func_tol st' = rel_func_tol st"
    and "monotone_barrier_fraction st' = monotone_barrier_fraction st"
    and "monotone_barrier_power st' = monotone_barrier_power st"
    and "min_rho_penalty_search st' = min_rho_penalty_search st"
    and "rho_penalty_search st' = rho_penalty_search st"
    and "function_precision st' = function_precision st"
    and "fobj st' = fobj st"
    and "barrier_strategy st' = barrier_strategy st"
  by (subst assms[unfolded same_but_residuals_def], simp)+

lemma optimize_hessian_reset_fields:
  "barrier_param (optimize_hessian_reset env k st) = barrier_param st"
  "abs_res_tol (optimize_hessian_reset env k st) = abs_res_tol st"
  "rel_func_tol (optimize_hessian_reset env k st) = rel_func_tol st"
  "monotone_barrier_fraction (optimize_hessian_reset env k st) = monotone_barrier_fraction st"
  "monotone_barrier_power (optimize_hessian_reset env k st) = monotone_barrier_power st"
  "min_rho_penalty_search (optimize_hessian_reset env k st) = min_rho_penalty_search st"
  "rho_penalty_search (optimize_hessian_reset env k st) = rho_penalty_search st"
  "function_precision (optimize_hessian_reset env k st) = function_precision st"
  "fobj (optimize_hessian_reset env k st) = fobj st"
  "barrier_strategy (optimize_hessian_reset env k st) = barrier_strategy st"
  by (simp_all add: optimize_hessian_reset_def split: option.split)

lemma optimize_iter_head_monotone:
  assumes M: "barrier_strategy st = PAROPT_MONOTONE"
    and K0: "computeKKTRes env (barrier_param st) (optimize_hessian_reset env k st) = (mp, md, mi, rn, sa)"
    and K1: "computeKKTRes env nb sa = (mp', md', mi', rn', sb)"
    and nb: "nb = (if min (monotone_barrier_fraction st * barrier_param st)
                          (barrier_param st powr monotone_barrier_power st) < abs_res_tol st / 10
                   then 9999 / 100000 * abs_res_tol st
                   else min (monotone_barrier_fraction st * barrier_param st)
                            (barrier_param st powr monotone_barrier_power st))"
    and rft: "rft \<longleftrightarrow> alpha_xprev lv = 1 \<and> alpha_zprev lv = 1 \<and>
                 \<bar>fobj st - fobj_prev lv\<bar> < rel_func_tol st * \<bar>fobj_prev lv\<bar>"
    and lst: "lst = (if no_merit_function_improvement lv then line_search_test lv + 1 else 0)"
    and lva: "lva = (if k = 0 then lv\<lparr> line_search_test := lst, res_norm_prev := rn \<rparr>
                     else lv\<lparr> line_search_test := lst \<rparr>)"
    and bc: "bc \<longleftrightarrow> 0 < k \<and> (rn < 10 * barrier_param st \<or> rft \<or> 2 \<le> lst)"
  shows "optimize_iter_head env k lv st =
     (if bc
      then (\<lparr> rel_function_test = rft, comp_k = computeComp (optimize_hessian_reset env k st),
               max_prime = mp', max_dual = md', max_infeas = mi', res_norm = rn',
               barrier_converged = True,
               converged = (0 < k \<and> nb \<le> abs_res_tol st / 10 \<and>
                            (rn' < abs_res_tol st \<or> rft \<or> 2 \<le> lst)) \<rparr>,
            lva, sb\<lparr> rho_penalty_search := min_rho_penalty_search st, barrier_param := nb \<rparr>)
      else (\<lparr> rel_function_test = rft, comp_k = computeComp (optimize_hessian_reset env k st),
               max_prime = mp, max_dual = md, max_infeas = mi, res_norm = rn,
               barrier_converged = False,
               converged = (0 < k \<and> barrier_param st \<le> abs_res_tol st / 10 \<and>
                            (rn < abs_res_tol st \<or> rft \<or> 2 \<le> lst)) \<rparr>,
            lva, sa))"
proof -
  note a = same_but_residuals_fields[OF computeKKTRes_same[OF K0], unfolded optimize_hessian_reset_fields]
  note b = same_but_residuals_fields[OF computeKKTRes_same[OF K1], unfolded a]
  have K0': "computeKKTRes env (barrier_param st) (optimize_hessian_reset env k st) = (mp, md, mi, rn, sa)"
    by (rule K0)
  have nb': "(if (if barrier_param st powr monotone_barrier_power st < monotone_barrier_fraction st * barrier_param st
                  then barrier_param st powr monotone_barrier_power st
                  else monotone_barrier_fraction st * barrier_param st) < 1 / 10 * abs_res_tol st
              then 9999 / 100000 * abs_res_tol st
              else (if barrier_param st powr monotone_barrier_power st < monotone_barrier_fraction st * barrier_param st
                  then barrier_param st powr monotone_barrier_power st
                  else monotone_barrier_fraction st * barrier_param st)) = nb"
    unfolding nb min_def by auto
  show ?thesis
    unfolding optimize_iter_head_def Let_def
    apply (simp only: optimize_hessian_reset_fields M barrier_strategy_t.case K0' prod.case a nb' K1 b)
    apply (simp add: rft lst lva bc a b)
    done
qed


lemma optimize_iter_head_mehrotra:
  assumes M: "barrier_strategy st = PAROPT_MEHROTRA"
    and K0: "computeKKTRes env (barrier_param st) (optimize_hessian_reset env k st) = (mp, md, mi, rn, sa)"
    and rft: "rft \<longleftrightarrow> alpha_xprev lv = 1 \<and> alpha_zprev lv = 1 \<and>
                 \<bar>fobj st - fobj_prev lv\<bar> < rel_func_tol st * \<bar>fobj_prev lv\<bar>"
    and lst: "lst = (if no_merit_function_improvement lv then line_search_test lv + 1 else 0)"
    and lva: "lva = (if k = 0 then lv\<lparr> line_search_test := lst, res_norm_prev := rn \<rparr>
                     else lv\<lparr> line_search_test := lst \<rparr>)"
  shows "optimize_iter_head env k lv st =
      (\<lparr> rel_function_test = rft, comp_k = computeComp (optimize_hessian_reset env k st),
          max_prime = mp, max_dual = md, max_infeas = mi, res_norm = rn,
          barrier_converged = False,
          converged = (0 < k \<and> barrier_param st \<le> abs_res_tol st / 10 \<and>
                       (rn < abs_res_tol st \<or> rft \<or> 2 \<le> lst)) \<rparr>,
       lva, sa)"
proof -
  note a = same_but_residuals_fields[OF computeKKTRes_same[OF K0], unfolded optimize_hessian_reset_fields]
  show ?thesis
    unfolding optimize_iter_head_def Let_def
    apply (simp only: optimize_hessian_reset_fields M barrier_strategy_t.case K0 prod.case a)
    apply (simp add: rft lst lva a)
    done
qed

lemma optimize_iter_head_fraction:
  assumes M: "barrier_strategy st = PAROPT_COMPLEMENTARITY_FRACTION"
    and bp: "bp = (if monotone_barrier_fraction st * computeComp (optimize_hessian_reset env k st)
                      < 1 / 10 * abs_res_tol st
                   then 1 / 10 * abs_res_tol st
                   else monotone_barrier_fraction st * computeComp (optimize_hessian_reset env k st))"
    and K0: "computeKKTRes env bp ((optimize_hessian_reset env k st)\<lparr> barrier_param := bp \<rparr>) =
               (mp, md, mi, rn, sb)"
    and rft: "rft \<longleftrightarrow> alpha_xprev lv = 1 \<and> alpha_zprev lv = 1 \<and>
                 \<bar>fobj st - fobj_prev lv\<bar> < rel_func_tol st * \<bar>fobj_prev lv\<bar>"
    and lst: "lst = (if no_merit_function_improvement lv then line_search_test lv + 1 else 0)"
    and lva: "lva = (if k = 0 then lv\<lparr> line_search_test := lst, res_norm_prev := rn \<rparr>
                     else lv\<lparr> line_search_test := lst \<rparr>)"
  shows "optimize_iter_head env k lv st =
      (\<lparr> rel_function_test = rft, comp_k = computeComp (optimize_hessian_reset env k st),
          max_prime = mp, max_dual = md, max_infeas = mi, res_norm = rn,
          barrier_converged = False,
          converged = (0 < k \<and> bp \<le> abs_res_tol st / 10 \<and>
                       (rn < abs_res_tol st \<or> rft \<or> 2 \<le> lst)) \<rparr>,
       lva, sb)"
proof -
  note a = same_but_residuals_fields[OF computeKKTRes_same[OF K0]]
  have a': "barrier_param sb = bp" "abs_res_tol sb = abs_res_tol st"
    using a(1,2) by (simp_all add: optimize_hessian_reset_fields)
  have sel: "barrier_param ((optimize_hessian_reset env k st)\<lparr> barrier_param := bp \<rparr>) = bp"
    by simp
  show ?thesis
    unfolding optimize_iter_head_def Let_def
    apply (simp only: optimize_hessian_reset_fields M barrier_strategy_t.case bp[symmetric]
                      sel K0 prod.case)
    apply (simp add: rft lst lva a')
    done
qed

text \<open>What every barrier strategy leaves of the head of a major iteration.\<close>

lemma optimize_iter_head_test:
  assumes H: "optimize_iter_head env k lv st = (iv, lv', st')"
  shows "converged iv \<longleftrightarrow>
           0 < k \<and> barrier_param st' \<le> abs_res_tol st' / 10 \<and>
           (res_norm iv < abs_res_tol st' \<or> rel_function_test iv \<or> 2 \<le> line_search_test lv')"
    and "rel_function_test iv \<longleftrightarrow>
           alpha_xprev lv = 1 \<and> alpha_zprev lv = 1 \<and>
           \<bar>fobj st - fobj_prev lv\<bar> < rel_func_tol st * \<bar>fobj_prev lv\<bar>"
    and "line_search_test lv' =
           (if no_merit_function_improvement lv then line_search_test lv + 1 else 0)"
    and "abs_res_tol st' = abs_res_tol st"
proof -
  obtain mp md mi rn sa where
    K0: "computeKKTRes env (barrier_param st) (optimize_hessian_reset env k st) = (mp, md, mi, rn, sa)"
    by (rule prod_cases5)
  define nb where "nb = (if min (monotone_barrier_fraction st * barrier_param st)
                          (barrier_param st powr monotone_barrier_power st) < abs_res_tol st / 10
                   then 9999 / 100000 * abs_res_tol st
                   else min (monotone_barrier_fraction st * barrier_param st)
                            (barrier_param st powr monotone_barrier_power st))"
  obtain mp' md' mi' rn' sb where K1: "computeKKTRes env nb sa = (mp', md', mi', rn', sb)"
    by (rule prod_cases5)
  define bp where "bp = (if monotone_barrier_fraction st * computeComp (optimize_hessian_reset env k st)
                      < 1 / 10 * abs_res_tol st
                   then 1 / 10 * abs_res_tol st
                   else monotone_barrier_fraction st * computeComp (optimize_hessian_reset env k st))"
  obtain mp2 md2 mi2 rn2 sc where
    K2: "computeKKTRes env bp ((optimize_hessian_reset env k st)\<lparr> barrier_param := bp \<rparr>) =
               (mp2, md2, mi2, rn2, sc)"
    by (rule prod_cases5)
  note a = same_but_residuals_fields[OF computeKKTRes_same[OF K0], unfolded optimize_hessian_reset_fields]
  note b = same_but_residuals_fields[OF computeKKTRes_same[OF K1], unfolded a]
  note c = same_but_residuals_fields[OF computeKKTRes_same[OF K2]]
  have c': "barrier_param sc = bp" "abs_res_tol sc = abs_res_tol st"
    using c(1,2) by (simp_all add: optimize_hessian_reset_fields)
  define rft where "rft \<longleftrightarrow> alpha_xprev lv = 1 \<and> alpha_zprev lv = 1 \<and>
                 \<bar>fobj st - fobj_prev lv\<bar> < rel_func_tol st * \<bar>fobj_prev lv\<bar>"
  define lst where "lst = (if no_merit_function_improvement lv then line_search_test lv + 1 else 0)"
  define bc where "bc \<longleftrightarrow> 0 < k \<and> (rn < 10 * barrier_param st \<or> rft \<or> 2 \<le> lst)"
  have "(converged iv \<longleftrightarrow>
           0 < k \<and> barrier_param st' \<le> abs_res_tol st' / 10 \<and>
           (res_norm iv < abs_res_tol st' \<or> rel_function_test iv \<or> 2 \<le> line_search_test lv')) \<and>
     (rel_function_test iv \<longleftrightarrow> rft) \<and> line_search_test lv' = lst \<and>
     abs_res_tol st' = abs_res_tol st"
  proof (cases "barrier_strategy st")
    case PAROPT_MONOTONE
    note E = H[unfolded optimize_iter_head_monotone[OF PAROPT_MONOTONE K0 K1 nb_def rft_def lst_def refl bc_def]]
    show ?thesis
    proof (cases bc)
      case True
      have e: "iv = \<lparr> rel_function_test = rft, comp_k = computeComp (optimize_hessian_reset env k st),
               max_prime = mp', max_dual = md', max_infeas = mi', res_norm = rn',
               barrier_converged = True,
               converged = (0 < k \<and> nb \<le> abs_res_tol st / 10 \<and>
                            (rn' < abs_res_tol st \<or> rft \<or> 2 \<le> lst)) \<rparr>"
        "line_search_test lv' = lst"
        "st' = sb\<lparr> rho_penalty_search := min_rho_penalty_search st, barrier_param := nb \<rparr>"
        using E True by (auto split: if_splits)
      show ?thesis by (simp add: e b)
    next
      case False
      have e: "iv = \<lparr> rel_function_test = rft, comp_k = computeComp (optimize_hessian_reset env k st),
               max_prime = mp, max_dual = md, max_infeas = mi, res_norm = rn,
               barrier_converged = False,
               converged = (0 < k \<and> barrier_param st \<le> abs_res_tol st / 10 \<and>
                            (rn < abs_res_tol st \<or> rft \<or> 2 \<le> lst)) \<rparr>"
        "line_search_test lv' = lst"
        "st' = sa"
        using E False by (auto split: if_splits)
      show ?thesis by (simp add: e a)
    qed
  next
    case PAROPT_MEHROTRA
    note E = H[unfolded optimize_iter_head_mehrotra[OF PAROPT_MEHROTRA K0 rft_def lst_def refl]]
    have e: "iv = \<lparr> rel_function_test = rft, comp_k = computeComp (optimize_hessian_reset env k st),
               max_prime = mp, max_dual = md, max_infeas = mi, res_norm = rn,
               barrier_converged = False,
               converged = (0 < k \<and> barrier_param st \<le> abs_res_tol st / 10 \<and>
                            (rn < abs_res_tol st \<or> rft \<or> 2 \<le> lst)) \<rparr>"
        "line_search_test lv' = lst"
        "st' = sa"
      using E by (auto split: if_splits)
    show ?thesis by (simp add: e a)
  next
    case PAROPT_COMPLEMENTARITY_FRACTION
    note E = H[unfolded optimize_iter_head_fraction[OF PAROPT_COMPLEMENTARITY_FRACTION bp_def K2 rft_def lst_def refl]]
    have e: "iv = \<lparr> rel_function_test = rft, comp_k = computeComp (optimize_hessian_reset env k st),
               max_prime = mp2, max_dual = md2, max_infeas = mi2, res_norm = rn2,
               barrier_converged = False,
               converged = (0 < k \<and> bp \<le> abs_res_tol st / 10 \<and>
                            (rn2 < abs_res_tol st \<or> rft \<or> 2 \<le> lst)) \<rparr>"
        "line_search_test lv' = lst"
        "st' = sc"
      using E by (auto split: if_splits)
    show ?thesis by (simp add: e c')
  qed
  then have all: "(converged iv \<longleftrightarrow>
           0 < k \<and> barrier_param st' \<le> abs_res_tol st' / 10 \<and>
           (res_norm iv < abs_res_tol st' \<or> rel_function_test iv \<or> 2 \<le> line_search_test lv')) \<and>
     (rel_function_test iv \<longleftrightarrow>
           alpha_xprev lv = 1 \<and> alpha_zprev lv = 1 \<and>
           \<bar>fobj st - fobj_prev lv\<bar> < rel_func_tol st * \<bar>fobj_prev lv\<bar>) \<and>
     line_search_test lv' =
           (if no_merit_function_improvement lv then line_search_test lv + 1 else 0) \<and>
     abs_res_tol st' = abs_res_tol st"
    unfolding rft_def lst_def .
  show "converged iv \<longleftrightarrow>
           0 < k \<and> barrier_param st' \<le> abs_res_tol st' / 10 \<and>
           (res_norm iv < abs_res_tol st' \<or> rel_function_test iv \<or> 2 \<le> line_search_test lv')"
    by (rule all[THEN conjunct1])
  show "rel_function_test iv \<longleftrightarrow>
           alpha_xprev lv = 1 \<and> alpha_zprev lv = 1 \<and>
           \<bar>fobj st - fobj_prev lv\<bar> < rel_func_tol st * \<bar>fobj_prev lv\<bar>"
    by (rule all[THEN conjunct2, THEN conjunct1])
  show "line_search_test lv' =
           (if no_merit_function_improvement lv then line_search_test lv + 1 else 0)"
    by (rule all[THEN conjunct2, THEN conjunct2, THEN conjunct1])
  show "abs_res_tol st' = abs_res_tol st"
    by (rule all[THEN conjunct2, THEN conjunct2, THEN conjunct2])
qed

text \<open>
  The residual norms and the barrier parameter that the head of a major iteration
  hands to the convergence test, for each barrier strategy.
\<close>

lemma optimize_iter_head_residuals:
  assumes H: "optimize_iter_head env k lv st = (iv, lv', st')"
  shows "(case barrier_strategy st of
            PAROPT_MONOTONE \<Rightarrow>
              (case computeKKTRes env (barrier_param st) (optimize_hessian_reset env k st) of
                 (mp, md, mi, rn, sa) \<Rightarrow>
                   if 0 < k \<and> (rn < 10 * barrier_param st \<or> rel_function_test iv \<or>
                                2 \<le> line_search_test lv')
                   then barrier_param st' =
                          (if min (monotone_barrier_fraction st * barrier_param st)
                                  (barrier_param st powr monotone_barrier_power st)
                               < abs_res_tol st / 10
                           then 9999 / 100000 * abs_res_tol st
                           else min (monotone_barrier_fraction st * barrier_param st)
                                    (barrier_param st powr monotone_barrier_power st)) \<and>
                        computeKKTRes env (barrier_param st') sa =
                          (max_prime iv, max_dual iv, max_infeas iv, res_norm iv,
                           st'\<lparr> rho_penalty_search := rho_penalty_search st,
                                barrier_param := barrier_param st \<rparr>)
                   else barrier_param st' = barrier_param st \<and>
                        (max_prime iv, max_dual iv, max_infeas iv, res_norm iv, st') =
                          (mp, md, mi, rn, sa))
          | PAROPT_MEHROTRA \<Rightarrow>
              barrier_param st' = barrier_param st \<and>
              computeKKTRes env (barrier_param st) (optimize_hessian_reset env k st) =
                (max_prime iv, max_dual iv, max_infeas iv, res_norm iv, st')
          | PAROPT_COMPLEMENTARITY_FRACTION \<Rightarrow>
              barrier_param st' =
                 (if monotone_barrier_fraction st * computeComp (optimize_hessian_reset env k st)
                       < abs_res_tol st / 10
                  then abs_res_tol st / 10
                  else monotone_barrier_fraction st * computeComp (optimize_hessian_reset env k st)) \<and>
              computeKKTRes env (barrier_param st')
                  ((optimize_hessian_reset env k st)\<lparr> barrier_param := barrier_param st' \<rparr>) =
                (max_prime iv, max_dual iv, max_infeas iv, res_norm iv, st'))"
proof (cases "barrier_strategy st")
  case M: PAROPT_MONOTONE
  obtain mp md mi rn sa where
    K0: "computeKKTRes env (barrier_param st) (optimize_hessian_reset env k st) = (mp, md, mi, rn, sa)"
    by (rule prod_cases5)
  define nb where "nb = (if min (monotone_barrier_fraction st * barrier_param st)
                          (barrier_param st powr monotone_barrier_power st) < abs_res_tol st / 10
                   then 9999 / 100000 * abs_res_tol st
                   else min (monotone_barrier_fraction st * barrier_param st)
                            (barrier_param st powr monotone_barrier_power st))"
  obtain mp' md' mi' rn' sb where K1: "computeKKTRes env nb sa = (mp', md', mi', rn', sb)"
    by (rule prod_cases5)
  define rft where "rft \<longleftrightarrow> alpha_xprev lv = 1 \<and> alpha_zprev lv = 1 \<and>
                 \<bar>fobj st - fobj_prev lv\<bar> < rel_func_tol st * \<bar>fobj_prev lv\<bar>"
  define lst where "lst = (if no_merit_function_improvement lv then line_search_test lv + 1 else 0)"
  define bc where "bc \<longleftrightarrow> 0 < k \<and> (rn < 10 * barrier_param st \<or> rft \<or> 2 \<le> lst)"
  note a = same_but_residuals_fields[OF computeKKTRes_same[OF K0], unfolded optimize_hessian_reset_fields]
  note b = same_but_residuals_fields[OF computeKKTRes_same[OF K1], unfolded a]
  note E = H[unfolded optimize_iter_head_monotone[OF M K0 K1 nb_def rft_def lst_def refl bc_def]]
  note t = optimize_iter_head_test[OF H]
  have bc': "bc \<longleftrightarrow> 0 < k \<and> (rn < 10 * barrier_param st \<or> rel_function_test iv \<or>
                                2 \<le> line_search_test lv')"
    unfolding bc_def t(2) t(3) rft_def lst_def ..
  have "if bc
        then barrier_param st' = nb \<and>
             computeKKTRes env (barrier_param st') sa =
               (max_prime iv, max_dual iv, max_infeas iv, res_norm iv,
                st'\<lparr> rho_penalty_search := rho_penalty_search st,
                     barrier_param := barrier_param st \<rparr>)
        else barrier_param st' = barrier_param st \<and>
             (max_prime iv, max_dual iv, max_infeas iv, res_norm iv, st') = (mp, md, mi, rn, sa)"
  proof (cases bc)
    case True
    have e: "iv = \<lparr> rel_function_test = rft, comp_k = computeComp (optimize_hessian_reset env k st),
               max_prime = mp', max_dual = md', max_infeas = mi', res_norm = rn',
               barrier_converged = True,
               converged = (0 < k \<and> nb \<le> abs_res_tol st / 10 \<and>
                            (rn' < abs_res_tol st \<or> rft \<or> 2 \<le> lst)) \<rparr>"
        "st' = sb\<lparr> rho_penalty_search := min_rho_penalty_search st, barrier_param := nb \<rparr>"
      using E True by (auto split: if_splits)
    have same: "sb\<lparr> rho_penalty_search := rho_penalty_search st, barrier_param := barrier_param st \<rparr> = sb"
      by (simp add: b(1)[symmetric] b(7)[symmetric])
    show ?thesis using True by (simp add: e K1 same)
  next
    case False
    have e: "iv = \<lparr> rel_function_test = rft, comp_k = computeComp (optimize_hessian_reset env k st),
               max_prime = mp, max_dual = md, max_infeas = mi, res_norm = rn,
               barrier_converged = False,
               converged = (0 < k \<and> barrier_param st \<le> abs_res_tol st / 10 \<and>
                            (rn < abs_res_tol st \<or> rft \<or> 2 \<le> lst)) \<rparr>"
        "st' = sa"
      using E False by (auto split: if_splits)
    show ?thesis using False by (simp add: e a)
  qed
  then show ?thesis
    unfolding bc' nb_def by (simp only: M barrier_strategy_t.case K0 prod.case)
next
  case M: PAROPT_MEHROTRA
  obtain mp md mi rn sa where
    K0: "computeKKTRes env (barrier_param st) (optimize_hessian_reset env k st) = (mp, md, mi, rn, sa)"
    by (rule prod_cases5)
  note a = same_but_residuals_fields[OF computeKKTRes_same[OF K0], unfolded optimize_hessian_reset_fields]
  note E = H[unfolded optimize_iter_head_mehrotra[OF M K0 refl refl refl]]
  have "barrier_param st' = barrier_param st \<and>
        (mp, md, mi, rn, sa) = (max_prime iv, max_dual iv, max_infeas iv, res_norm iv, st')"
    using E a(1) by auto
  then show ?thesis
    by (simp only: M barrier_strategy_t.case K0)
next
  case M: PAROPT_COMPLEMENTARITY_FRACTION
  define bp where "bp = (if monotone_barrier_fraction st * computeComp (optimize_hessian_reset env k st)
                      < 1 / 10 * abs_res_tol st
                   then 1 / 10 * abs_res_tol st
                   else monotone_barrier_fraction st * computeComp (optimize_hessian_reset env k st))"
  obtain mp2 md2 mi2 rn2 sc where
    K2: "computeKKTRes env bp ((optimize_hessian_reset env k st)\<lparr> barrier_param := bp \<rparr>) =
               (mp2, md2, mi2, rn2, sc)"
    by (rule prod_cases5)
  note c = same_but_residuals_fields[OF computeKKTRes_same[OF K2]]
  have c': "barrier_param sc = bp"
    using c(1) by simp
  note E = H[unfolded optimize_iter_head_fraction[OF M bp_def K2 refl refl refl]]
  have bp': "bp = (if monotone_barrier_fraction st * computeComp (optimize_hessian_reset env k st)
                       < abs_res_tol st / 10
                  then abs_res_tol st / 10
                  else monotone_barrier_fraction st * computeComp (optimize_hessian_reset env k st))"
    unfolding bp_def by simp
  have "barrier_param st' = bp \<and>
        (mp2, md2, mi2, rn2, sc) = (max_prime iv, max_dual iv, max_infeas iv, res_norm iv, st')"
    using E c' by auto
  then have "barrier_param st' = bp \<and>
        computeKKTRes env (barrier_param st')
            ((optimize_hessian_reset env k st)\<lparr> barrier_param := barrier_param st' \<rparr>) =
        (max_prime iv, max_dual iv, max_infeas iv, res_norm iv, st')"
    using K2 by simp
  then have X: "barrier_param st' =
                 (if monotone_barrier_fraction st * computeComp (optimize_hessian_reset env k st)
                       < abs_res_tol st / 10
                  then abs_res_tol st / 10
                  else monotone_barrier_fraction st * computeComp (optimize_hessian_reset env k st)) \<and>
              computeKKTRes env (barrier_param st')
                  ((optimize_hessian_reset env k st)\<lparr> barrier_param := barrier_param st' \<rparr>) =
                (max_prime iv, max_dual iv, max_infeas iv, res_norm iv, st')"
    unfolding bp' .
  show ?thesis
    unfolding M barrier_strategy_t.case by (rule X)
qed

section \<open>Verification: the convergence test\<close>

lemmas example_eval = example_solver_def example_env_def computeKKTRes_def
   vec_maxabs_def vec_l1norm_def vec_axpy_def vec_scale_def

lemma one_step_reset: "optimize_hessian_reset example_env k one_step_solver = one_step_solver"
  by (simp add: optimize_hessian_reset_def one_step_solver_def example_solver_def)

lemma one_step_barrier: "barrier_param one_step_solver = 1 / 10 ^ 6"
  by (simp add: one_step_solver_def example_solver_def)

lemma one_step_new_barrier:
  "(if min (monotone_barrier_fraction one_step_solver * barrier_param one_step_solver)
           (barrier_param one_step_solver powr monotone_barrier_power one_step_solver)
        < abs_res_tol one_step_solver / 10
    then 9999 / 100000 * abs_res_tol one_step_solver
    else min (monotone_barrier_fraction one_step_solver * barrier_param one_step_solver)
             (barrier_param one_step_solver powr monotone_barrier_power one_step_solver)) =
   9999 / 10 ^ 10"
  by (simp add: one_step_solver_def example_solver_def min_less_iff_disj)

lemma one_step_residual:
  "fst (snd (snd (snd (computeKKTRes example_env (9999 / 10 ^ 10)
      (snd (snd (snd (snd (computeKKTRes example_env (1 / 10 ^ 6) one_step_solver))))))))) = 998"
  apply (simp add: example_eval one_step_solver_def)
  apply (simp add: Let_def vec_maxabs_def vec_axpy_def vec_scale_def)
  done


lemma one_step_head:
  "converged (fst (optimize_iter_head example_env 1 one_step_vars one_step_solver)) \<and>
   rel_function_test (fst (optimize_iter_head example_env 1 one_step_vars one_step_solver)) \<and>
   res_norm (fst (optimize_iter_head example_env 1 one_step_vars one_step_solver)) = 998 \<and>
   line_search_test (fst (snd (optimize_iter_head example_env 1 one_step_vars one_step_solver))) = 0 \<and>
   barrier_param (snd (snd (optimize_iter_head example_env 1 one_step_vars one_step_solver))) = 9999 / 10 ^ 10 \<and>
   abs_res_tol (snd (snd (optimize_iter_head example_env 1 one_step_vars one_step_solver))) = 1 / 10 ^ 5"
proof -
  obtain mp md mi rn sa where
    K0: "computeKKTRes example_env (barrier_param one_step_solver)
           (optimize_hessian_reset example_env 1 one_step_solver) = (mp, md, mi, rn, sa)"
    by (rule prod_cases5)
  obtain mp' md' mi' rn' sb where
    K1: "computeKKTRes example_env (9999 / 10 ^ 10) sa = (mp', md', mi', rn', sb)"
    by (rule prod_cases5)
  have sa: "sa = snd (snd (snd (snd (computeKKTRes example_env (1 / 10 ^ 6) one_step_solver))))"
    using K0[unfolded one_step_reset one_step_barrier] by simp
  have rn': "rn' = 998"
    using one_step_residual K1 by (simp add: sa)
  note b = same_but_residuals_fields[OF computeKKTRes_same[OF K1]]
  note a = same_but_residuals_fields[OF computeKKTRes_same[OF K0], unfolded optimize_hessian_reset_fields]
  have rft: "alpha_xprev one_step_vars = 1 \<and> alpha_zprev one_step_vars = 1 \<and>
     \<bar>fobj one_step_solver - fobj_prev one_step_vars\<bar>
       < rel_func_tol one_step_solver * \<bar>fobj_prev one_step_vars\<bar>"
    by (simp add: one_step_vars_def one_step_solver_def example_solver_def)
  have tol: "abs_res_tol one_step_solver = 1 / 10 ^ 5"
    by (simp add: one_step_solver_def example_solver_def)
  have E: "optimize_iter_head example_env 1 one_step_vars one_step_solver =
      (\<lparr> rel_function_test = True, comp_k = computeComp (optimize_hessian_reset example_env 1 one_step_solver),
               max_prime = mp', max_dual = md', max_infeas = mi', res_norm = rn',
               barrier_converged = True, converged = True \<rparr>,
            one_step_vars\<lparr> line_search_test := 0 \<rparr>,
            sb\<lparr> rho_penalty_search := min_rho_penalty_search one_step_solver,
                barrier_param := 9999 / 10 ^ 10 \<rparr>)"
    by (subst optimize_iter_head_monotone[OF _ K0 K1 one_step_new_barrier[symmetric] refl refl refl refl])
       (simp_all add: rft tol, simp_all add: one_step_vars_def one_step_solver_def example_solver_def)
  show ?thesis
    unfolding E by (simp add: rn' b a tol one_step_vars_def)
qed


text \<open>
  Claim C2 words the relative function test as two consecutive full steps. The test
  of \<^verbatim>\<open>optimize\<close> reads the two step lengths \<open>\<alpha>\<^sub>x\<close> and \<open>\<alpha>\<^sub>z\<close> of the one previous
  iteration. At \<open>k = 1\<close>, after a single iteration with full step lengths, the driver
  declares convergence on that test, with the residual norm \<open>998\<close> far above
  \<^verbatim>\<open>abs_res_tol\<close> and the line-search counter at \<open>0\<close>.
\<close>

theorem convergence_after_one_full_step:
  "converged (fst (optimize_iter_head example_env 1 one_step_vars one_step_solver)) \<and>
   \<not> res_norm (fst (optimize_iter_head example_env 1 one_step_vars one_step_solver))
       < abs_res_tol (snd (snd (optimize_iter_head example_env 1 one_step_vars one_step_solver))) \<and>
   \<not> 2 \<le> line_search_test (fst (snd (optimize_iter_head example_env 1 one_step_vars one_step_solver))) \<and>
   \<not> rel_function_test_spec [(alpha_xprev one_step_vars, alpha_zprev one_step_vars)]
        (fobj one_step_solver) (fobj_prev one_step_vars) (rel_func_tol one_step_solver)"
  using one_step_head by (simp add: rel_function_test_spec_def)

text \<open>
  Claim C2, amended. \<^verbatim>\<open>optimize\<close> declares global convergence exactly when \<open>k\<close> is
  positive, the barrier parameter is at most \<open>0.1 \<sqdot> abs_res_tol\<close>, and the residual
  norm is below \<^verbatim>\<open>abs_res_tol\<close> or the relative function test passes or the
  line-search counter has reached \<open>2\<close>. The relative function test passes when both
  step lengths \<open>\<alpha>\<^sub>x\<close> and \<open>\<alpha>\<^sub>z\<close> of the previous iteration were \<open>1\<close> and
  \<open>|f - f_prev| < rel_func_tol \<sqdot> |f_prev|\<close>; the counter counts the iterations in
  a row whose line search brought no improvement of the merit function. The residual
  norm and the barrier parameter of the test are those of the barrier strategy: under
  the monotone strategy the norm that \<^verbatim>\<open>computeKKTRes\<close> returns at the barrier
  parameter, and, when the barrier subproblem has converged, the norm it returns at
  the new, smaller barrier parameter; under Mehrotra's strategy the norm at the
  unchanged barrier parameter; under the complementarity-fraction strategy the norm
  at the barrier parameter \<open>max (monotone_barrier_fraction \<sqdot> comp, 0.1 \<sqdot> abs_res_tol)\<close>.
  On convergence the loop is left and \<^verbatim>\<open>optimize\<close> returns \<open>0\<close>; otherwise the iteration
  goes on.
\<close>

theorem optimize_convergence_test:
  assumes "optimize_iter_head env k lv st = (iv, lv', st')"
  shows "(converged iv \<longleftrightarrow>
            0 < k \<and> barrier_param st' \<le> abs_res_tol st / 10 \<and>
            (res_norm iv < abs_res_tol st \<or> rel_function_test iv \<or> 2 \<le> line_search_test lv')) \<and>
         (rel_function_test iv \<longleftrightarrow>
            alpha_xprev lv = 1 \<and> alpha_zprev lv = 1 \<and>
            \<bar>fobj st - fobj_prev lv\<bar> < rel_func_tol st * \<bar>fobj_prev lv\<bar>) \<and>
         line_search_test lv' =
            (if no_merit_function_improvement lv then line_search_test lv + 1 else 0) \<and>
         abs_res_tol st' = abs_res_tol st \<and>
         (case barrier_strategy st of
            PAROPT_MONOTONE \<Rightarrow>
              (case computeKKTRes env (barrier_param st) (optimize_hessian_reset env k st) of
                 (mp, md, mi, rn, sa) \<Rightarrow>
                   if 0 < k \<and> (rn < 10 * barrier_param st \<or> rel_function_test iv \<or>
                                2 \<le> line_search_test lv')
                   then barrier_param st' =
                          (if min (monotone_barrier_fraction st * barrier_param st)
                                  (barrier_param st powr monotone_barrier_power st)
                               < abs_res_tol st / 10
                           then 9999 / 100000 * abs_res_tol st
                           else min (monotone_barrier_fraction st * barrier_param st)
                                    (barrier_param st powr monotone_barrier_power st)) \<and>
                        computeKKTRes env (barrier_param st') sa =
                          (max_prime iv, max_dual iv, max_infeas iv, res_norm iv,
                           st'\<lparr> rho_penalty_search := rho_penalty_search st,
                                barrier_param := barrier_param st \<rparr>)
                   else barrier_param st' = barrier_param st \<and>
                        (max_prime iv, max_dual iv, max_infeas iv, res_norm iv, st') =
                          (mp, md, mi, rn, sa))
          | PAROPT_MEHROTRA \<Rightarrow>
              barrier_param st' = barrier_param st \<and>
              computeKKTRes env (barrier_param st) (optimize_hessian_reset env k st) =
                (max_prime iv, max_dual iv, max_infeas iv, res_norm iv, st')
          | PAROPT_COMPLEMENTARITY_FRACTION \<Rightarrow>
              barrier_param st' =
                 (if monotone_barrier_fraction st * computeComp (optimize_hessian_reset env k st)
                       < abs_res_tol st / 10
                  then abs_res_tol st / 10
                  else monotone_barrier_fraction st * computeComp (optimize_hessian_reset env k st)) \<and>
              computeKKTRes env (barrier_param st')
                  ((optimize_hessian_reset env k st)\<lparr> barrier_param := barrier_param st' \<rparr>) =
                (max_prime iv, max_dual iv, max_infeas iv, res_norm iv, st')) \<and>
         optimize_loop env (Suc n) k lv st =
            (if converged iv then (0, st')
             else case optimize_iter_rest env k iv lv' st' of
                    Inl r \<Rightarrow> r
                  | Inr (lv2, line_fail, st2) \<Rightarrow>
                      optimize_loop env n (k + 1) lv2 (st2\<lparr> niter := niter st2 + 1 \<rparr>))"
proof -
  note t = optimize_iter_head_test[OF assms]
  have "optimize_loop env (Suc n) k lv st =
            (if converged iv then (0, st')
             else case optimize_iter_rest env k iv lv' st' of
                    Inl r \<Rightarrow> r
                  | Inr (lv2, line_fail, st2) \<Rightarrow>
                      optimize_loop env n (k + 1) lv2 (st2\<lparr> niter := niter st2 + 1 \<rparr>))"
    by (simp add: assms)
  then show ?thesis
    using t(1)[unfolded t(4)] t(2) t(3) t(4) optimize_iter_head_residuals[OF assms]
    by (intro conjI)
qed

theorem optimize_convergence_test_witness:
  "converged (fst (optimize_iter_head example_env 1 one_step_vars one_step_solver)) \<and>
   rel_function_test (fst (optimize_iter_head example_env 1 one_step_vars one_step_solver)) \<and>
   optimize_loop example_env (Suc 0) 1 one_step_vars one_step_solver =
     (0, snd (snd (optimize_iter_head example_env 1 one_step_vars one_step_solver)))"
  using optimize_convergence_test[of example_env 1 one_step_vars one_step_solver
      "fst (optimize_iter_head example_env 1 one_step_vars one_step_solver)"
      "fst (snd (optimize_iter_head example_env 1 one_step_vars one_step_solver))"
      "snd (snd (optimize_iter_head example_env 1 one_step_vars one_step_solver))" 0]
    one_step_head
  by simp

section \<open>Verification: the monotone barrier update\<close>

lemma floor_reset: "optimize_hessian_reset example_env k floor_solver = floor_solver"
  by (simp add: optimize_hessian_reset_def floor_solver_def example_solver_def)

lemma floor_new_barrier:
  "(if min (monotone_barrier_fraction floor_solver * barrier_param floor_solver)
           (barrier_param floor_solver powr monotone_barrier_power floor_solver)
        < abs_res_tol floor_solver / 10
    then 9999 / 100000 * abs_res_tol floor_solver
    else min (monotone_barrier_fraction floor_solver * barrier_param floor_solver)
             (barrier_param floor_solver powr monotone_barrier_power floor_solver)) =
   9999 / 10 ^ 10"
  by (simp add: floor_solver_def example_solver_def)

lemma floor_head:
  "barrier_converged (fst (optimize_iter_head example_env 2 stalled_vars floor_solver)) \<and>
   barrier_param (snd (snd (optimize_iter_head example_env 2 stalled_vars floor_solver))) = 9999 / 10 ^ 10"
proof -
  obtain mp md mi rn sa where
    K0: "computeKKTRes example_env (barrier_param floor_solver)
           (optimize_hessian_reset example_env 2 floor_solver) = (mp, md, mi, rn, sa)"
    by (rule prod_cases5)
  obtain mp' md' mi' rn' sb where
    K1: "computeKKTRes example_env (9999 / 10 ^ 10) sa = (mp', md', mi', rn', sb)"
    by (rule prod_cases5)
  have M: "barrier_strategy floor_solver = PAROPT_MONOTONE"
    by (simp add: floor_solver_def example_solver_def)
  note E = optimize_iter_head_monotone[OF M K0 K1 floor_new_barrier[symmetric] refl refl refl refl]
  show ?thesis
    unfolding E by (simp add: stalled_vars_def)
qed

text \<open>
  Claim C3 describes the new barrier parameter as the smaller of
  \<open>monotone_barrier_fraction \<sqdot> \<mu>\<close> and \<open>\<mu>\<close> to the power \<^verbatim>\<open>monotone_barrier_power\<close>,
  floored at \<open>0.09999 \<sqdot> abs_res_tol\<close>. The code replaces every value below
  \<open>0.1 \<sqdot> abs_res_tol\<close> by \<open>0.09999 \<sqdot> abs_res_tol\<close>, also a value that is above that
  floor: with \<open>\<mu> = 1\<close>, a fraction of \<open>9.9995 \<sqdot> 10\<^sup>-\<^sup>7\<close> and
  \<open>abs_res_tol = 10\<^sup>-\<^sup>5\<close> the smaller value is \<open>9.9995 \<sqdot> 10\<^sup>-\<^sup>7\<close>, above the floor
  \<open>9.999 \<sqdot> 10\<^sup>-\<^sup>7\<close>, and the barrier parameter becomes \<open>9.999 \<sqdot> 10\<^sup>-\<^sup>7\<close>.
\<close>

theorem monotone_barrier_drops_to_the_floor:
  "barrier_converged (fst (optimize_iter_head example_env 2 stalled_vars floor_solver)) \<and>
   barrier_param (snd (snd (optimize_iter_head example_env 2 stalled_vars floor_solver))) = 9999 / 10 ^ 10 \<and>
   monotone_barrier_spec floor_solver = 99995 / 10 ^ 11 \<and>
   barrier_param (snd (snd (optimize_iter_head example_env 2 stalled_vars floor_solver)))
     \<noteq> monotone_barrier_spec floor_solver"
  using floor_head
  by (simp add: monotone_barrier_spec_def floor_solver_def example_solver_def)

text \<open>
  Claim C3, amended. Under the monotone strategy the barrier subproblem is declared
  converged when \<open>k > 0\<close> and the residual norm is below \<open>10 \<sqdot> \<mu>\<close> or the relative
  function test passes or the line-search counter has reached \<open>2\<close>. Then the new
  barrier parameter is the smaller of \<open>monotone_barrier_fraction \<sqdot> \<mu>\<close> and \<open>\<mu>\<close> to
  the power \<^verbatim>\<open>monotone_barrier_power\<close>, unless that value is below
  \<open>0.1 \<sqdot> abs_res_tol\<close>, in which case it is \<open>0.09999 \<sqdot> abs_res_tol\<close>;
  \<^verbatim>\<open>rho_penalty_search\<close> is reset to \<^verbatim>\<open>min_rho_penalty_search\<close>; and the residuals and
  their norms are those that \<^verbatim>\<open>computeKKTRes\<close> computes at the new barrier parameter.
  Otherwise the barrier parameter, the penalty parameter and the residuals computed
  at the old barrier parameter stay.
\<close>

theorem monotone_barrier_update:
  assumes M: "barrier_strategy st = PAROPT_MONOTONE"
    and H: "optimize_iter_head env k lv st = (iv, lv', st')"
    and K0: "computeKKTRes env (barrier_param st) (optimize_hessian_reset env k st) =
               (mp, md, mi, rn, sa)"
  shows "(barrier_converged iv \<longleftrightarrow>
            0 < k \<and> (rn < 10 * barrier_param st \<or> rel_function_test iv \<or> 2 \<le> line_search_test lv')) \<and>
         (rel_function_test iv \<longleftrightarrow>
            alpha_xprev lv = 1 \<and> alpha_zprev lv = 1 \<and>
            \<bar>fobj st - fobj_prev lv\<bar> < rel_func_tol st * \<bar>fobj_prev lv\<bar>) \<and>
         line_search_test lv' =
            (if no_merit_function_improvement lv then line_search_test lv + 1 else 0) \<and>
         (if barrier_converged iv
          then barrier_param st' =
                 (if min (monotone_barrier_fraction st * barrier_param st)
                         (barrier_param st powr monotone_barrier_power st) < abs_res_tol st / 10
                  then 9999 / 100000 * abs_res_tol st
                  else min (monotone_barrier_fraction st * barrier_param st)
                           (barrier_param st powr monotone_barrier_power st)) \<and>
               rho_penalty_search st' = min_rho_penalty_search st \<and>
               computeKKTRes env (barrier_param st') sa =
                 (max_prime iv, max_dual iv, max_infeas iv, res_norm iv,
                  st'\<lparr> rho_penalty_search := rho_penalty_search st,
                       barrier_param := barrier_param st \<rparr>)
          else st' = sa \<and> barrier_param st' = barrier_param st \<and>
               rho_penalty_search st' = rho_penalty_search st \<and>
               (max_prime iv, max_dual iv, max_infeas iv, res_norm iv) = (mp, md, mi, rn))"
proof -
  define nb where "nb = (if min (monotone_barrier_fraction st * barrier_param st)
                          (barrier_param st powr monotone_barrier_power st) < abs_res_tol st / 10
                   then 9999 / 100000 * abs_res_tol st
                   else min (monotone_barrier_fraction st * barrier_param st)
                            (barrier_param st powr monotone_barrier_power st))"
  obtain mp' md' mi' rn' sb where K1: "computeKKTRes env nb sa = (mp', md', mi', rn', sb)"
    by (rule prod_cases5)
  define rft where "rft \<longleftrightarrow> alpha_xprev lv = 1 \<and> alpha_zprev lv = 1 \<and>
                 \<bar>fobj st - fobj_prev lv\<bar> < rel_func_tol st * \<bar>fobj_prev lv\<bar>"
  define lst where "lst = (if no_merit_function_improvement lv then line_search_test lv + 1 else 0)"
  define bc where "bc \<longleftrightarrow> 0 < k \<and> (rn < 10 * barrier_param st \<or> rft \<or> 2 \<le> lst)"
  note a = same_but_residuals_fields[OF computeKKTRes_same[OF K0], unfolded optimize_hessian_reset_fields]
  note b = same_but_residuals_fields[OF computeKKTRes_same[OF K1], unfolded a]
  note E = H[unfolded optimize_iter_head_monotone[OF M K0 K1 nb_def rft_def lst_def refl bc_def]]
  have "(barrier_converged iv \<longleftrightarrow> bc) \<and> (rel_function_test iv \<longleftrightarrow> rft) \<and> line_search_test lv' = lst \<and>
         (if barrier_converged iv
          then barrier_param st' = nb \<and>
               rho_penalty_search st' = min_rho_penalty_search st \<and>
               computeKKTRes env (barrier_param st') sa =
                 (max_prime iv, max_dual iv, max_infeas iv, res_norm iv,
                  st'\<lparr> rho_penalty_search := rho_penalty_search st,
                       barrier_param := barrier_param st \<rparr>)
          else st' = sa \<and> barrier_param st' = barrier_param st \<and>
               rho_penalty_search st' = rho_penalty_search st \<and>
               (max_prime iv, max_dual iv, max_infeas iv, res_norm iv) = (mp, md, mi, rn))"
  proof (cases bc)
    case True
    have e: "iv = \<lparr> rel_function_test = rft, comp_k = computeComp (optimize_hessian_reset env k st),
               max_prime = mp', max_dual = md', max_infeas = mi', res_norm = rn',
               barrier_converged = True,
               converged = (0 < k \<and> nb \<le> abs_res_tol st / 10 \<and>
                            (rn' < abs_res_tol st \<or> rft \<or> 2 \<le> lst)) \<rparr>"
        "line_search_test lv' = lst"
        "st' = sb\<lparr> rho_penalty_search := min_rho_penalty_search st, barrier_param := nb \<rparr>"
      using E True by (auto split: if_splits)
    have same: "sb\<lparr> rho_penalty_search := rho_penalty_search st, barrier_param := barrier_param st \<rparr> = sb"
      by (simp add: b(1)[symmetric] b(7)[symmetric])
    show ?thesis using True by (simp add: e K1 same)
  next
    case False
    have e: "iv = \<lparr> rel_function_test = rft, comp_k = computeComp (optimize_hessian_reset env k st),
               max_prime = mp, max_dual = md, max_infeas = mi, res_norm = rn,
               barrier_converged = False,
               converged = (0 < k \<and> barrier_param st \<le> abs_res_tol st / 10 \<and>
                            (rn < abs_res_tol st \<or> rft \<or> 2 \<le> lst)) \<rparr>"
        "line_search_test lv' = lst"
        "st' = sa"
      using E False by (auto split: if_splits)
    show ?thesis using False by (simp add: e a)
  qed
  note main = this
  have bc': "bc \<longleftrightarrow>
      0 < k \<and> (rn < 10 * barrier_param st \<or> rel_function_test iv \<or> 2 \<le> line_search_test lv')"
    using main[THEN conjunct2, THEN conjunct1] main[THEN conjunct2, THEN conjunct2, THEN conjunct1]
    by (simp add: bc_def)
  from main show ?thesis
    unfolding bc' rft_def lst_def nb_def .
qed


theorem monotone_barrier_update_witness:
  "barrier_strategy floor_solver = PAROPT_MONOTONE \<and>
   barrier_converged (fst (optimize_iter_head example_env 2 stalled_vars floor_solver)) \<and>
   barrier_param (snd (snd (optimize_iter_head example_env 2 stalled_vars floor_solver))) = 9999 / 10 ^ 10 \<and>
   rho_penalty_search (snd (snd (optimize_iter_head example_env 2 stalled_vars floor_solver))) = 0"
proof -
  let ?H = "optimize_iter_head example_env 2 stalled_vars floor_solver"
  let ?K = "computeKKTRes example_env (barrier_param floor_solver)
              (optimize_hessian_reset example_env 2 floor_solver)"
  have M: "barrier_strategy floor_solver = PAROPT_MONOTONE"
    by (simp add: floor_solver_def example_solver_def)
  have H: "?H = (fst ?H, fst (snd ?H), snd (snd ?H))"
    by simp
  have K: "?K = (fst ?K, fst (snd ?K), fst (snd (snd ?K)), fst (snd (snd (snd ?K))),
                 snd (snd (snd (snd ?K))))"
    by simp
  note T = monotone_barrier_update[OF M H K]
  have l: "line_search_test (fst (snd ?H)) = 2"
    using T[THEN conjunct2, THEN conjunct2, THEN conjunct1] by (simp add: stalled_vars_def)
  have c: "barrier_converged (fst ?H)"
    using T[THEN conjunct1] l by simp
  have "barrier_param (snd (snd ?H)) = 9999 / 10 ^ 10 \<and> rho_penalty_search (snd (snd ?H)) = 0"
    using T[THEN conjunct2, THEN conjunct2, THEN conjunct2] c
    by (simp add: floor_new_barrier) (simp add: floor_solver_def example_solver_def)
  with M c show ?thesis by simp
qed

section \<open>Verification: the rest of a major iteration\<close>

lemma kkt_matrices_refl: "same_but_kkt_matrices st st"
  by (simp add: same_but_kkt_matrices_def)

lemma kkt_matrices_update:
  assumes "same_but_kkt_matrices st s"
  shows "same_but_kkt_matrices st (s\<lparr> cvals := a \<rparr>)"
    and "same_but_kkt_matrices st (s\<lparr> Cw := b \<rparr>)"
    and "same_but_kkt_matrices st (s\<lparr> Ew := c \<rparr>)"
    and "same_but_kkt_matrices st (s\<lparr> Dmat := d \<rparr>)"
    and "same_but_kkt_matrices st (s\<lparr> dpiv := e \<rparr>)"
    and "same_but_kkt_matrices st (s\<lparr> s_qn := f \<rparr>)"
  by (subst assms[unfolded same_but_kkt_matrices_def], simp add: same_but_kkt_matrices_def)+

lemma kkt_matrices_foldl:
  assumes "\<And>s k. same_but_kkt_matrices st s \<Longrightarrow> same_but_kkt_matrices st (f s k)"
  shows "same_but_kkt_matrices st s \<Longrightarrow> same_but_kkt_matrices st (foldl f s ks)"
  by (induction ks arbitrary: s) (simp_all add: assms)

lemma kkt_matrices_factorCw:
  "same_but_kkt_matrices st s \<Longrightarrow> same_but_kkt_matrices st (snd (factorCw env s))"
  by (simp add: factorCw_def kkt_matrices_update split: prod.split)

lemma kkt_matrices_Let_solver:
  fixes t :: "'q solver"
  shows "same_but_kkt_matrices st t \<Longrightarrow>
         (\<And>x. same_but_kkt_matrices st x \<Longrightarrow> same_but_kkt_matrices st (f x)) \<Longrightarrow>
         same_but_kkt_matrices st (Let t f)"
  by simp

lemma kkt_matrices_Let:
  "(\<And>x. same_but_kkt_matrices st (f x)) \<Longrightarrow> same_but_kkt_matrices st (Let t f)"
  by simp

lemma kkt_matrices_split:
  "(\<And>a b. same_but_kkt_matrices st (f a b)) \<Longrightarrow>
   same_but_kkt_matrices st (case p of (a, b) \<Rightarrow> f a b)"
  by (cases p) simp

lemma kkt_matrices_if:
  "(c \<Longrightarrow> same_but_kkt_matrices st a) \<Longrightarrow> (\<not> c \<Longrightarrow> same_but_kkt_matrices st b) \<Longrightarrow>
   same_but_kkt_matrices st (if c then a else b)"
  by simp

lemma setUpKKTDiagSystem_C_frame:
  "same_but_kkt_matrices st (setUpKKTDiagSystem_C env use_qn st)"
  unfolding setUpKKTDiagSystem_C_def
  by ((rule kkt_matrices_refl | rule kkt_matrices_update | rule kkt_matrices_Let)+)

lemma setUpKKTDiagSystem_Cw_frame:
  "same_but_kkt_matrices st s \<Longrightarrow> same_but_kkt_matrices st (setUpKKTDiagSystem_Cw env s)"
  unfolding setUpKKTDiagSystem_Cw_def
  by ((assumption | rule kkt_matrices_update | rule kkt_matrices_Let)+)

lemma setUpKKTDiagSystem_frame:
  "same_but_kkt_matrices st (setUpKKTDiagSystem env use_qn st)"
  unfolding setUpKKTDiagSystem_def
  by ((assumption | rule setUpKKTDiagSystem_C_frame | rule setUpKKTDiagSystem_Cw_frame |
       rule kkt_matrices_update | rule kkt_matrices_factorCw | rule kkt_matrices_foldl |
       rule kkt_matrices_if | rule kkt_matrices_split | rule kkt_matrices_Let_solver |
       rule kkt_matrices_Let)+)

lemma same_but_kkt_matrices_fields:
  assumes "same_but_kkt_matrices st st'"
  shows "barrier_strategy st' = barrier_strategy st"
    and "major_iter_step_check st' = major_iter_step_check st"
    and "use_line_search st' = use_line_search st"
    and "function_precision st' = function_precision st"
    and "fobj st' = fobj st"
  by (subst assms[unfolded same_but_kkt_matrices_def], simp)+

lemma scaleKKTStep_options:
  "use_line_search (snd (snd (snd (scaleKKTStep st tau c inx)))) = use_line_search st"
  "function_precision (snd (snd (snd (scaleKKTStep st tau c inx)))) = function_precision st"
  by (simp_all add: scaleKKTStep_def split: prod.split)

text \<open>
  A major iteration of the sequential linear method, without the Mehrotra strategy and
  without the step check, whose merit function has the slope zero, skips the line
  search: its flags are those of the skipped line search.
\<close>

lemma optimize_iter_rest_skipped:
  assumes H1: "\<not> use_hvec_product st"
    and H2: "sequential_linear_method st"
    and H3: "barrier_strategy st \<noteq> PAROPT_MEHROTRA"
    and H4: "major_iter_step_check st \<le> 0"
    and H5: "use_line_search st"
    and E1: "setUpKKTSystem env = (\<lambda>u s. s)"
    and E2: "computeKKTStep env = (\<lambda>u s. s)"
    and E3: "\<And>a s. snd (evalMeritInitDeriv env a s) = (0, s)"
    and fp: "0 \<le> function_precision st"
  shows "\<exists>st4 lv2 s2. function_precision st4 = function_precision st \<and>
           optimize_iter_rest env k iv lv st =
             Inr (lv2, fst (optimize_skip_line_search env (fobj st) st4), s2)"
proof -
  define sc where "sc = setUpKKTDiagSystem env False st"
  note f = same_but_kkt_matrices_fields[OF setUpKKTDiagSystem_frame[of st env False], folded sc_def]
  define tau where "tau = (if 1 - barrier_param sc \<ge> min_fraction_to_boundary sc
                           then 1 - barrier_param sc else min_fraction_to_boundary sc)"
  obtain ceq ax az st4 where S: "scaleKKTStep sc tau (comp_k iv) False = (ceq, ax, az, st4)"
    by (metis prod_cases4)
  have o: "use_line_search st4" "function_precision st4 = function_precision st"
    using scaleKKTStep_options[of sc tau "comp_k iv" False] f H5 by (simp_all add: S)
  obtain m0 where M: "evalMeritInitDeriv env ax st4 = (m0, 0, st4)"
    using E3[of ax st4] by (cases "evalMeritInitDeriv env ax st4") simp
  have H4': "\<not> 0 < major_iter_step_check st" using H4 by simp
  obtain lf st6 where K: "optimize_skip_line_search env (fobj st) st4 = (lf, st6)"
    by (rule prod.exhaust)
  have "\<exists>lv2 s2. optimize_iter_rest env k iv lv st = Inr (lv2, lf, s2)"
    unfolding optimize_iter_rest_def
    apply (simp add: H1 H2 H3 E1 E2 sc_def[symmetric] f H4' H5)
    apply (simp add: Let_def tau_def[symmetric] S o M fp K H4')
    done
  then show ?thesis using o(2) K by auto
qed

lemma counts_flags_Let: "(\<And>x. counts_flags (f x)) \<Longrightarrow> counts_flags (Let t f)"
  by simp

lemma counts_flags_split:
  "(\<And>a b. counts_flags (f a b)) \<Longrightarrow> counts_flags (case p of (a, b) \<Rightarrow> f a b)"
  by (cases p) simp

lemma counts_flags_sum:
  "(\<And>a. counts_flags (f a)) \<Longrightarrow> (\<And>b. counts_flags (g b)) \<Longrightarrow>
   counts_flags (case s of Inl a \<Rightarrow> f a | Inr b \<Rightarrow> g b)"
  by (cases s) simp_all

lemma counts_flags_Inl: "counts_flags (Inl e)"
  by (simp add: counts_flags_def)

lemma counts_flags_final:
  "counts_flags
     (Let (lv\<lparr> dm0_prev := d,
               no_merit_function_improvement :=
                 (PAROPT_LINE_SEARCH_NO_IMPROVEMENT \<in> lf \<or> PAROPT_LINE_SEARCH_MIN_STEP \<in> lf \<or>
                  PAROPT_LINE_SEARCH_FAILURE \<in> lf),
               line_search_failed := (PAROPT_LINE_SEARCH_FAILURE \<in> lf),
               alpha_prev := a1, alpha_xprev := a2, alpha_zprev := a3 \<rparr>)
        (\<lambda>lv2. Let u (\<lambda>s. Inr (lv2, lf, s))))"
  by (simp add: counts_flags_def)

lemma optimize_iter_rest_counts_flags: "counts_flags (optimize_iter_rest env k iv lv st)"
  unfolding optimize_iter_rest_def
  by ((rule counts_flags_final | rule counts_flags_Inl | rule counts_flags_sum |
       rule counts_flags_split | rule counts_flags_Let)+)

section \<open>Verification: changes within the function precision\<close>

lemma dadd_above:
  assumes "round_double x = x" "0 \<le> p"
  shows "x \<le> dadd x p"
  unfolding dadd_def by (rule round_double_above[OF assms(1)]) (use assms(2) in simp)

lemma no_change_guard_doubles:
  assumes "round_double a = a" "round_double b = b" "0 \<le> p"
  shows "no_change_guard a b p \<longleftrightarrow> a = b \<and> dadd a p = a"
proof
  assume g: "no_change_guard a b p"
  then have 1: "dadd a p \<le> b" and 2: "dadd b p \<le> a" by (simp_all add: no_change_guard_def)
  have "a \<le> dadd a p" "b \<le> dadd b p"
    using dadd_above[OF assms(1,3)] dadd_above[OF assms(2,3)] by simp_all
  with 1 2 show "a = b \<and> dadd a p = a" by simp
next
  assume h: "a = b \<and> dadd a p = a"
  then have "dadd b p = b" by auto
  with h show "no_change_guard a b p" by (simp add: no_change_guard_def)
qed

lemma round_double_2_24: "round_double (2 ^ 24) = 2 ^ 24"
  by (subst round_double_near[where k = 24 and n = "2 ^ 52"])
     (simp_all add: power_int_def field_simps)

lemma dadd_2_24: "dadd (2 ^ 24) (1 / 10 ^ 10) = 2 ^ 24"
  unfolding dadd_def
  by (subst round_double_near[where k = 24 and n = "2 ^ 52"])
     (simp_all add: power_int_def field_simps)


lemma line_search_Let: "(\<And>x. x = t \<Longrightarrow> line_search_invariant fp (snd (f x))) \<Longrightarrow> line_search_invariant fp (snd (Let t f))"
  by simp

lemma line_search_split:
  "(\<And>a b. p = (a, b) \<Longrightarrow> line_search_invariant fp (snd (f a b))) \<Longrightarrow>
   line_search_invariant fp (snd (case p of (a, b) \<Rightarrow> f a b))"
  by (cases p) simp

lemma line_search_if:
  "(c \<Longrightarrow> line_search_invariant fp (snd x)) \<Longrightarrow> (\<not> c \<Longrightarrow> line_search_invariant fp (snd y)) \<Longrightarrow>
   line_search_invariant fp (snd (if c then x else y))"
  by simp

lemma lineSearch_trial_precision:
  "function_precision (lineSearch_trial st alpha) = function_precision st"
  by (simp add: lineSearch_trial_def)

lemma lineSearch_loop_inv:
  assumes md: "\<And>s f c x sv t sw.
      round_double (evalMeritFunc env s f c x sv t sw) = evalMeritFunc env s f c x sv t sw"
  shows "line_search_invariant fp L \<Longrightarrow> line_search_invariant fp (snd (lineSearch_loop env alpha_min m0 dm0 n j L))"
proof (induction n arbitrary: j L)
  case 0
  then show ?case by simp
next
  case (Suc n)
  note I = Suc.prems
  show ?case
    unfolding lineSearch_loop.simps
    apply (intro line_search_Let line_search_split line_search_if Suc.IH)
    using I md
      apply (simp_all add: line_search_invariant_def lineSearch_trial_precision)
    apply (auto simp: Let_def lineSearch_trial_precision)
    done
qed


lemma lineSearch_never_no_improvement:
  assumes md: "\<And>s f c x sv t sw.
      round_double (evalMeritFunc env s f c x sv t sw) = evalMeritFunc env s f c x sv t sw"
    and m0d: "round_double m0 = m0"
    and fp: "0 \<le> function_precision st"
  shows "PAROPT_LINE_SEARCH_NO_IMPROVEMENT \<notin> fst (lineSearch env st alpha_min alpha0 m0 dm0)"
proof -
  define L0 where "L0 = \<lparr> ls_alpha = alpha0, ls_fail = {PAROPT_LINE_SEARCH_FAILURE}, ls_best_merit = 0,
               ls_best_alpha = - 1, ls_merit = 0, ls_solver = st \<rparr>"
  obtain j L where R: "lineSearch_loop env alpha_min m0 dm0 (max_line_iters st) 0 L0 = (j, L)"
    by (rule prod.exhaust)
  have "line_search_invariant (function_precision st) L0"
    by (simp add: line_search_invariant_def L0_def round_double_def)
  from lineSearch_loop_inv[OF md this, of alpha_min m0 dm0 "max_line_iters st" 0]
  have I: "line_search_invariant (function_precision st) L" by (simp add: R)
  then have b: "ls_best_merit L \<le> ls_merit L" and d: "round_double (ls_merit L) = ls_merit L"
    and n: "PAROPT_LINE_SEARCH_NO_IMPROVEMENT \<notin> ls_fail L"
    and p: "function_precision (ls_solver L) = function_precision st"
    by (simp_all add: line_search_invariant_def)
  have g: "ls_best_merit L \<le> dadd m0 (function_precision st)"
    if "no_change_guard m0 (ls_merit L) (function_precision st)"
  proof -
    from that have "dadd (ls_merit L) (function_precision st) \<le> m0"
      by (simp add: no_change_guard_def)
    moreover have "ls_merit L \<le> dadd (ls_merit L) (function_precision st)"
      by (rule dadd_above[OF d fp])
    moreover have "m0 \<le> dadd m0 (function_precision st)"
      by (rule dadd_above[OF m0d fp])
    ultimately show ?thesis using b by simp
  qed
  show ?thesis
    unfolding lineSearch_def L0_def[symmetric] R
    using n g by (auto simp: Let_def p split: prod.splits)
qed

lemma computeStepAndUpdate_step_precision:
  "function_precision (computeStepAndUpdate_step env st alpha q) = function_precision st"
  by (simp add: computeStepAndUpdate_step_def Let_def computeStepAndUpdate_multipliers_def)

lemma computeStepAndUpdate_eval_objective:
  assumes "computeStepAndUpdate_eval env st7 alpha True q = (r, st')"
  shows "function_precision st' = function_precision st7 \<and>
         fobj st' = fst (snd (evalObjCon env (xvals st7) (fobj st7) (convals st7)))"
  using assms unfolding computeStepAndUpdate_eval_def Let_def
  by (auto split: if_splits prod.splits option.splits)

lemma optimize_skip_line_search_flags:
  assumes fd: "round_double f_prev = f_prev"
    and od: "\<And>x f c. round_double (fst (snd (evalObjCon env x f c))) = fst (snd (evalObjCon env x f c))"
    and fp: "0 \<le> function_precision st"
  shows "fst (optimize_skip_line_search env f_prev st) =
           (if fobj (snd (optimize_skip_line_search env f_prev st)) = f_prev \<and>
               dadd f_prev (function_precision st) = f_prev
            then {PAROPT_LINE_SEARCH_NO_IMPROVEMENT} else {PAROPT_LINE_SEARCH_FAILURE})"
proof -
  obtain r st1 where C: "computeStepAndUpdate env st 1 True True = (r, st1)"
    by (rule prod.exhaust)
  then have E: "computeStepAndUpdate_eval env (computeStepAndUpdate_step env st 1 True) 1 True True
                  = (r, st1)"
    by (simp add: computeStepAndUpdate_def)
  note o = computeStepAndUpdate_eval_objective[OF E]
  have p: "function_precision st1 = function_precision st"
    using o computeStepAndUpdate_step_precision by simp
  have d: "round_double (fobj st1) = fobj st1"
    using o od by simp
  have "no_change_guard f_prev (fobj st1) (function_precision st) \<longleftrightarrow>
          f_prev = fobj st1 \<and> dadd f_prev (function_precision st) = f_prev"
    by (rule no_change_guard_doubles[OF fd d fp])
  then show ?thesis
    by (auto simp: optimize_skip_line_search_def C p)
qed

section \<open>Verification: variables and their bounds after a step\<close>

lemma computeStepVec_length:
  "length (computeStepVec st xv alpha pv l lv u uv) = length xv"
  by (auto simp: computeStepVec_def computeStep_def Let_def split: option.splits)













section \<open>Verification: step scaling\<close>

lemma scaleStep_map: "length pv = n \<Longrightarrow> scaleStep alpha n pv = map (\<lambda>p. p * alpha) pv"
  by (simp add: scaleStep_def list_eq_iff_nth_eq)

lemma scaleKKTStep_fields:
  assumes "scaleKKTStep st tau c inx = (ceq, ax, az, st')"
  shows "scaleKKTStep_lengths st tau c inx = (ceq, ax, az)"
    and "st' = st\<lparr> pxvals := vec_scale ax (pxvals st),
               pzwvals := (if nwcon st > 0 then vec_scale az (pzwvals st) else pzwvals st),
               pswvals := (if nwcon st > 0 \<and> sparse_inequality st
                           then vec_scale ax (pswvals st) else pswvals st),
               pzlvals := (if use_lower st then vec_scale az (pzlvals st) else pzlvals st),
               pzuvals := (if use_upper st then vec_scale az (pzuvals st) else pzuvals st),
               pzvals := scaleStep az (ncon st) (pzvals st),
               psvals := (if dense_inequality st
                          then scaleStep ax (ncon st) (psvals st) else psvals st),
               ptvals := (if dense_inequality st
                          then scaleStep ax (ncon st) (ptvals st) else ptvals st),
               pztvals := (if dense_inequality st
                           then scaleStep az (ncon st) (pztvals st) else pztvals st) \<rparr>"
proof -
  obtain a b d where l: "scaleKKTStep_lengths st tau c inx = (a, b, d)"
    by (metis prod_cases3)
  from assms have e: "a = ceq \<and> b = ax \<and> d = az"
    unfolding scaleKKTStep_def l by simp
  show "scaleKKTStep_lengths st tau c inx = (ceq, ax, az)" using l e by simp
  from assms show "st' = st\<lparr> pxvals := vec_scale ax (pxvals st),
               pzwvals := (if nwcon st > 0 then vec_scale az (pzwvals st) else pzwvals st),
               pswvals := (if nwcon st > 0 \<and> sparse_inequality st
                           then vec_scale ax (pswvals st) else pswvals st),
               pzlvals := (if use_lower st then vec_scale az (pzlvals st) else pzlvals st),
               pzuvals := (if use_upper st then vec_scale az (pzuvals st) else pzuvals st),
               pzvals := scaleStep az (ncon st) (pzvals st),
               psvals := (if dense_inequality st
                          then scaleStep ax (ncon st) (psvals st) else psvals st),
               ptvals := (if dense_inequality st
                          then scaleStep ax (ncon st) (ptvals st) else ptvals st),
               pztvals := (if dense_inequality st
                           then scaleStep az (ncon st) (pztvals st) else pztvals st) \<rparr>"
    unfolding scaleKKTStep_def l using e by simp
qed

lemma step_example_lengths:
  "scaleKKTStep_lengths step_example (95 / 100) (3 / 4) False = (False, 19 / 40, 1)"
proof -
  have m: "computeMaxStep step_example (95 / 100) = (19 / 40, 1)"
    by (simp add: computeMaxStep_def step_example_def example_solver_def
          max_step_neg_def max_step_pos_def Let_def)
  have c: "computeCompStep step_example (19 / 40) 1 = 1"
    by (simp add: computeCompStep_def step_example_def example_solver_def Let_def)
  show ?thesis
    unfolding scaleKKTStep_lengths_def m by (simp add: c Let_def)
qed

text \<open>
  Claim C6 puts \<open>p_zt\<close> among the steps scaled by \<open>alpha_x\<close>. On the example
  solver with \<open>p_x = -1\<close> and \<open>p_zt = 1\<close>, at \<open>tau = 0.95\<close> and the current
  complementarity \<open>3/4\<close>, the step lengths are \<open>alpha_x = 19/40\<close> and
  \<open>alpha_z = 1\<close>, and \<open>p_zt\<close> comes out as \<open>1 = alpha_z * p_zt\<close>, not as \<open>19/40\<close>.
\<close>

theorem scaleKKTStep_scales_pzt_by_alpha_z:
  "fst (snd (scaleKKTStep step_example (95 / 100) (3 / 4) False)) = 19 / 40 \<and>
   fst (snd (snd (scaleKKTStep step_example (95 / 100) (3 / 4) False))) = 1 \<and>
   pztvals step_example = [1] \<and>
   pztvals (snd (snd (snd (scaleKKTStep step_example (95 / 100) (3 / 4) False)))) = [1] \<and>
   \<not> scaled_as_specified step_example (19 / 40) 1
       (snd (snd (snd (scaleKKTStep step_example (95 / 100) (3 / 4) False))))"
proof -
  have r: "scaleKKTStep step_example (95 / 100) (3 / 4) False =
      (False, 19 / 40, 1, step_example\<lparr> pxvals := [- (19 / 40)], pzwvals := [0], pswvals := [0],
         pzlvals := [0], pzuvals := [0], pzvals := [0], psvals := [0], ptvals := [0],
         pztvals := [1] \<rparr>)"
    unfolding scaleKKTStep_def step_example_lengths
    by (simp add: step_example_def example_solver_def vec_scale_def scaleStep_def)
  show ?thesis
    unfolding r by (simp add: scaled_as_specified_def step_example_def)
qed

text \<open>
  Claim C6, amended. With \<open>alpha_x\<close> and \<open>alpha_z\<close> the step lengths that
  \<^verbatim>\<open>scaleKKTStep\<close> computes and returns, the scalar \<open>alpha_x\<close> is applied to the
  steps \<open>p_x\<close>, \<open>p_s\<close>, \<open>p_t\<close> and \<open>p_sw\<close>, and the scalar \<open>alpha_z\<close> to the steps
  \<open>p_z\<close>, \<open>p_zt\<close>, \<open>p_zl\<close>, \<open>p_zu\<close> and \<open>p_zw\<close>; each step is scaled when the
  variable it belongs to is in use (\<open>p_s, p_t, p_zt\<close> for dense inequalities,
  \<open>p_zw\<close> when there are sparse constraints, \<open>p_sw\<close> when these are inequalities,
  \<open>p_zl\<close> and \<open>p_zu\<close> when the problem uses lower and upper bounds).
\<close>

theorem scaleKKTStep_scales_steps:
  assumes "steps_sized st" and "scaleKKTStep st tau c inx = (ceq, ax, az, st')"
  shows "scaleKKTStep_lengths st tau c inx = (ceq, ax, az) \<and>
         pxvals st' = map (\<lambda>p. p * ax) (pxvals st) \<and>
         pzvals st' = map (\<lambda>p. p * az) (pzvals st) \<and>
         (dense_inequality st \<longrightarrow>
            psvals st' = map (\<lambda>p. p * ax) (psvals st) \<and>
            ptvals st' = map (\<lambda>p. p * ax) (ptvals st) \<and>
            pztvals st' = map (\<lambda>p. p * az) (pztvals st)) \<and>
         (0 < nwcon st \<longrightarrow> pzwvals st' = map (\<lambda>p. p * az) (pzwvals st)) \<and>
         (0 < nwcon st \<and> sparse_inequality st \<longrightarrow> pswvals st' = map (\<lambda>p. p * ax) (pswvals st)) \<and>
         (use_lower st \<longrightarrow> pzlvals st' = map (\<lambda>p. p * az) (pzlvals st)) \<and>
         (use_upper st \<longrightarrow> pzuvals st' = map (\<lambda>p. p * az) (pzuvals st))"
proof -
  from assms(1) have len: "length (pzvals st) = ncon st" "length (psvals st) = ncon st"
    "length (ptvals st) = ncon st" "length (pztvals st) = ncon st"
    by (simp_all add: steps_sized_def)
  note f = scaleKKTStep_fields[OF assms(2)]
  show ?thesis
    unfolding f(2) using f(1) len by (simp add: scaleStep_map vec_scale_def)
qed

theorem scaleKKTStep_scales_steps_witness:
  "steps_sized step_example \<and>
   scaleKKTStep step_example (95 / 100) (3 / 4) False =
     (False, 19 / 40, 1,
      step_example\<lparr> pxvals := [- (19 / 40)], pzwvals := [0], pswvals := [0],
         pzlvals := [0], pzuvals := [0], pzvals := [0], psvals := [0], ptvals := [0],
         pztvals := [1] \<rparr>) \<and>
   pxvals (step_example\<lparr> pxvals := [- (19 / 40)], pzwvals := [0], pswvals := [0],
         pzlvals := [0], pzuvals := [0], pzvals := [0], psvals := [0], ptvals := [0],
         pztvals := [1] \<rparr>) = map (\<lambda>p. p * (19 / 40)) (pxvals step_example) \<and>
   pztvals (step_example\<lparr> pxvals := [- (19 / 40)], pzwvals := [0], pswvals := [0],
         pzlvals := [0], pzuvals := [0], pzvals := [0], psvals := [0], ptvals := [0],
         pztvals := [1] \<rparr>) = map (\<lambda>p. p * 1) (pztvals step_example)"
proof -
  have s: "steps_sized step_example"
    by (simp add: steps_sized_def step_example_def example_solver_def)
  have r: "scaleKKTStep step_example (95 / 100) (3 / 4) False =
      (False, 19 / 40, 1, step_example\<lparr> pxvals := [- (19 / 40)], pzwvals := [0], pswvals := [0],
         pzlvals := [0], pzuvals := [0], pzvals := [0], psvals := [0], ptvals := [0],
         pztvals := [1] \<rparr>)"
    unfolding scaleKKTStep_def step_example_lengths
    by (simp add: step_example_def example_solver_def vec_scale_def scaleStep_def)
  from scaleKKTStep_scales_steps[OF s r] s r show ?thesis
    by (simp add: step_example_def example_solver_def)
qed

section \<open>Verification: complementarity\<close>

lemma foldl_cond_sum:
  "foldl (\<lambda>(p, s) i. if P i then (p + f i, s + 1) else (p, s)) (p0, s0) [0..<n] =
     (p0 + (\<Sum>i\<in>{i. i < n \<and> P i}. f i), s0 + real (card {i. i < n \<and> P i}))"
proof (induction n)
  case 0
  then show ?case by simp
next
  case (Suc n)
  have fin: "finite {i. i < n \<and> P i}" by simp
  have notin: "n \<notin> {i. i < n \<and> P i}" by simp
  show ?case
  proof (cases "P n")
    case True
    then have "{i. i < Suc n \<and> P i} = insert n {i. i < n \<and> P i}"
      by (auto simp: less_Suc_eq)
    then show ?thesis using Suc True fin notin by (simp add: algebra_simps)
  next
    case False
    then have "{i. i < Suc n \<and> P i} = {i. i < n \<and> P i}"
      by (auto simp: less_Suc_eq)
    then show ?thesis using Suc False by simp
  qed
qed

lemma foldl_pair_sum:
  "foldl (\<lambda>(p, s) i. (p + g i, s + 2)) (p0, s0) [0..<n] =
     (p0 + (\<Sum>i<n. g i), s0 + 2 * real n)"
  by (induction n) (simp_all add: algebra_simps)

lemma computeComp_formula:
  "computeComp st =
     (let count = (if dense_inequality st then 2 * ncon st else 0) +
                  card (live_lower st) + card (live_upper st)
      in if count = 0 then 0
         else (((\<Sum>i\<in>live_lower st. zlvals st ! i * (xvals st ! i - lbvals st ! i)) +
                (\<Sum>i\<in>live_upper st. zuvals st ! i * (ubvals st ! i - xvals st ! i))) /
                 rel_bound_barrier st +
               (if dense_inequality st
                then (\<Sum>i<ncon st. svals st ! i * zvals st ! i + tvals st ! i * ztvals st ! i)
                else 0)) / real count)"
proof -
  define L where "L = {i. i < nvars st \<and> lbvals st ! i > - max_bound_val st}"
  define U where "U = {i. i < nvars st \<and> ubvals st ! i < max_bound_val st}"
  define SL where "SL = (\<Sum>i\<in>L. zlvals st ! i * (xvals st ! i - lbvals st ! i))"
  define SU where "SU = (\<Sum>i\<in>U. zuvals st ! i * (ubvals st ! i - xvals st ! i))"
  define SD where "SD = (\<Sum>i<ncon st. svals st ! i * zvals st ! i + tvals st ! i * ztvals st ! i)"
  have ll: "live_lower st = (if use_lower st then L else {})"
    by (auto simp: live_lower_def L_def)
  have lu: "live_upper st = (if use_upper st then U else {})"
    by (auto simp: live_upper_def U_def)
  have f1: "foldl (\<lambda>(product, sum) i.
                     if lbvals st ! i > - max_bound_val st
                     then (product + zlvals st ! i * (xvals st ! i - lbvals st ! i), sum + 1)
                     else (product, sum)) (0, 0) [0..<nvars st] = (SL, real (card L))"
    by (simp add: foldl_cond_sum SL_def L_def)
  have f2: "\<And>p0 s0. foldl (\<lambda>(product, sum) i.
                     if ubvals st ! i < max_bound_val st
                     then (product + zuvals st ! i * (ubvals st ! i - xvals st ! i), sum + 1)
                     else (product, sum)) (p0, s0) [0..<nvars st] = (p0 + SU, s0 + real (card U))"
    by (simp add: foldl_cond_sum SU_def U_def)
  have f3: "\<And>p0 s0. foldl (\<lambda>(product, sum) i.
                     (product + (svals st ! i * zvals st ! i + tvals st ! i * ztvals st ! i),
                      sum + 2)) (p0, s0) [0..<ncon st] = (p0 + SD, s0 + 2 * real (ncon st))"
    by (simp add: foldl_pair_sum SD_def)
  have z: "\<And>a b c::nat. (real a + real b + 2 * real c = 0) = (a + b + 2 * c = 0)"
    "\<And>a b::nat. (real a + real b = 0) = (a + b = 0)"
    "\<And>a c::nat. (real a + 2 * real c = 0) = (a + 2 * c = 0)"
    by (simp_all add: add_nonneg_eq_0_iff)
  show ?thesis
    unfolding computeComp_def ll lu f1 f2 f3
    by (cases "use_lower st"; cases "use_upper st"; cases "dense_inequality st";
        simp add: f1 f2 f3 Let_def z add_nonneg_eq_0_iff
             flip: SL_def SU_def SD_def; simp add: add.commute)
qed


lemma example_solver_invariants: "data_invariants example_solver"
  by (simp add: data_invariants_def point_sized_def example_solver_def)

text \<open>
  Claim C7 gives \<^verbatim>\<open>getComplementarity\<close> the divisor \<open>2 * ncon\<close> plus the number of
  live bounds plus the number of sparse inequality constraints. The example solver
  satisfies the invariants of the data model and has one sparse inequality
  constraint; its bound products are \<open>1/2\<close> and \<open>1/2\<close>, its dense products \<open>1\<close> and
  \<open>1\<close>. The code divides their sum \<open>3\<close> by \<open>4\<close>, the claim by \<open>5\<close>.
\<close>

theorem complementarity_ignores_sparse_constraints:
  "data_invariants example_solver \<and> sparse_inequality example_solver \<and> nwcon example_solver = 1 \<and>
   getComplementarity example_solver = 3 / 4 \<and> complementarity_spec example_solver = 3 / 5"
proof -
  have l: "live_lower example_solver = {0}" "live_upper example_solver = {0}"
    by (auto simp: live_lower_def live_upper_def example_solver_def)
  have a: "getComplementarity example_solver = 3 / 4"
    unfolding getComplementarity_def computeComp_formula l
    by (simp add: example_solver_def)
  have b: "complementarity_spec example_solver = 3 / 5"
    unfolding complementarity_spec_def l
    by (simp add: example_solver_def)
  show ?thesis using a b example_solver_invariants by (simp add: example_solver_def)
qed

text \<open>
  Claim C7, amended. For every state, \<^verbatim>\<open>getComplementarity\<close> returns the sum over
  the live bounds of bound slack times bound multiplier, divided by
  \<^verbatim>\<open>rel_bound_barrier\<close>, plus the sum over the dense constraints of \<open>s z + t z_t\<close>
  when the dense constraints are inequalities, all divided by the number of terms:
  the number of live bounds plus \<open>2 * ncon\<close> when the dense constraints are
  inequalities. The sparse constraints enter neither the sum nor the divisor. When
  the number of terms is zero the result is zero. A lower bound is live when the
  problem uses lower bounds and the bound is above \<^verbatim>\<open>-max_bound_val\<close>; likewise for
  an upper bound.
\<close>

theorem getComplementarity_value:
  "getComplementarity st =
     (let count = (if dense_inequality st then 2 * ncon st else 0) +
                  card (live_lower st) + card (live_upper st)
      in if count = 0 then 0
         else (((\<Sum>i\<in>live_lower st. zlvals st ! i * (xvals st ! i - lbvals st ! i)) +
                (\<Sum>i\<in>live_upper st. zuvals st ! i * (ubvals st ! i - xvals st ! i))) /
                 rel_bound_barrier st +
               (if dense_inequality st
                then (\<Sum>i<ncon st. svals st ! i * zvals st ! i + tvals st ! i * ztvals st ! i)
                else 0)) / real count)"
  unfolding getComplementarity_def by (rule computeComp_formula)

section \<open>Verification: checkpoint files\<close>







text \<open>
  Claim C9. \<^verbatim>\<open>readSolutionFile\<close> is strict on a size mismatch: when one of the three
  sizes recorded in the file differs from the solver's (total number of variables,
  total number of sparse constraints, \<^verbatim>\<open>ncon\<close>), the call returns a nonzero code and
  the solver is left exactly as it was (barrier parameter, multipliers, slacks and
  design variables included), on the root process and on every other process.
\<close>

theorem readSolutionFile_size_mismatch:
  assumes "var_sizes f ! 0 \<noteq> int (var_range v ! comm_size v) \<or>
           var_sizes f ! 1 \<noteq> int (wcon_range v ! comm_size v) \<or>
           var_sizes f ! 2 \<noteq> int (ncon st)"
  shows "fst (readSolutionFile v st (Some f)) \<noteq> 0 \<and> snd (readSolutionFile v st (Some f)) = st"
  using assms by (auto simp: readSolutionFile_def)

theorem readSolutionFile_size_mismatch_witness:
  "var_sizes mismatched_file ! 0 \<noteq> int (var_range single_view ! comm_size single_view) \<and>
   int (var_range single_view ! comm_size single_view) = int (nvars example_solver) \<and>
   fst (readSolutionFile single_view example_solver (Some mismatched_file)) \<noteq> 0 \<and>
   snd (readSolutionFile single_view example_solver (Some mismatched_file)) = example_solver"
proof -
  have m: "var_sizes mismatched_file ! 0 \<noteq> int (var_range single_view ! comm_size single_view)"
    by (simp add: single_view_def mismatched_file_def)
  then have "var_sizes mismatched_file ! 0 \<noteq> int (var_range single_view ! comm_size single_view) \<or>
      var_sizes mismatched_file ! 1 \<noteq> int (wcon_range single_view ! comm_size single_view) \<or>
      var_sizes mismatched_file ! 2 \<noteq> int (ncon example_solver)"
    by simp
  from readSolutionFile_size_mismatch[OF this] m show ?thesis
    by (simp add: single_view_def example_solver_def)
qed

subsection \<open>What a checkpoint restores\<close>







section \<open>Verification: the no-improvement outcome of the line search\<close>

lemma optimize_skip_line_search_objective:
  "\<exists>x f c. fobj (snd (optimize_skip_line_search env f_prev st)) = fst (snd (evalObjCon env x f c))"
proof -
  obtain r st1 where C: "computeStepAndUpdate env st 1 True True = (r, st1)"
    by (rule prod.exhaust)
  then have E: "computeStepAndUpdate_eval env (computeStepAndUpdate_step env st 1 True) 1 True True
                  = (r, st1)"
    by (simp add: computeStepAndUpdate_def)
  from computeStepAndUpdate_eval_objective[OF E] show ?thesis
    by (auto simp: optimize_skip_line_search_def C)
qed

lemma flat_env_doubles:
  "round_double (evalMeritFunc flat_env s f c x sv t sw) = evalMeritFunc flat_env s f c x sv t sw"
  "round_double (fst (snd (evalObjCon flat_env x f c))) = fst (snd (evalObjCon flat_env x f c))"
  using round_double_2_24 by (simp_all add: flat_env_def)

lemma flat_example_precision:
  "function_precision flat_example = 1 / 10 ^ 10" "fobj flat_example = 2 ^ 24"
  by (simp_all add: flat_example_def example_solver_def)

lemma flat_skip_flags:
  assumes "function_precision st = 1 / 10 ^ 10"
  shows "fst (optimize_skip_line_search flat_env (2 ^ 24) st) = {PAROPT_LINE_SEARCH_NO_IMPROVEMENT}"
proof -
  obtain x f c where "fobj (snd (optimize_skip_line_search flat_env (2 ^ 24) st))
      = fst (snd (evalObjCon flat_env x f c))"
    using optimize_skip_line_search_objective by blast
  then have o: "fobj (snd (optimize_skip_line_search flat_env (2 ^ 24) st)) = 2 ^ 24"
    by (simp add: flat_env_def)
  have fp: "0 \<le> function_precision st" using assms by simp
  show ?thesis
    unfolding optimize_skip_line_search_flags[OF round_double_2_24 flat_env_doubles(2) fp] o
    unfolding assms dadd_2_24 by simp
qed

text \<open>
  Claim C10 holds that with a positive function precision the outcome
  \<^verbatim>\<open>PAROPT_LINE_SEARCH_NO_IMPROVEMENT\<close> is unreachable, the two comparisons of the
  guard excluding each other. In doubles they do not when the precision is absorbed
  by the sum: \<open>2\<^sup>2\<^sup>4 + 10\<^sup>-\<^sup>1\<^sup>0\<close> is \<open>2\<^sup>2\<^sup>4\<close>. A major iteration of the
  example solver on a problem whose objective stays at \<open>2\<^sup>2\<^sup>4\<close> and whose merit
  function has the slope zero skips the line search, finds
  \<^verbatim>\<open>fobj_prev + function_precision <= fobj\<close> and
  \<^verbatim>\<open>fobj + function_precision <= fobj_prev\<close> both true, reports no improvement and
  advances the counter, with no line-search failure.
\<close>

theorem unchanged_objective_reports_no_improvement:
  "0 < function_precision flat_example \<and>
   (case optimize_iter_rest flat_env 1 flat_iter flat_vars flat_example of
      Inl e \<Rightarrow> False
    | Inr (lv2, lf, st2) \<Rightarrow>
        lf = {PAROPT_LINE_SEARCH_NO_IMPROVEMENT} \<and> no_merit_function_improvement lv2 \<and>
        \<not> line_search_failed lv2)"
proof -
  have "\<exists>st4 lv2 s2. function_precision st4 = function_precision flat_example \<and>
           optimize_iter_rest flat_env 1 flat_iter flat_vars flat_example =
             Inr (lv2, fst (optimize_skip_line_search flat_env (fobj flat_example) st4), s2)"
    by (rule optimize_iter_rest_skipped)
       (simp_all add: flat_example_def example_solver_def flat_env_def example_env_def)
  then obtain st4 lv2 s2 where p: "function_precision st4 = 1 / 10 ^ 10"
    and r: "optimize_iter_rest flat_env 1 flat_iter flat_vars flat_example =
             Inr (lv2, fst (optimize_skip_line_search flat_env (2 ^ 24) st4), s2)"
    unfolding flat_example_precision by blast
  note r' = r[unfolded flat_skip_flags[OF p]]
  from optimize_iter_rest_counts_flags[of flat_env 1 flat_iter flat_vars flat_example]
  have "no_merit_function_improvement lv2 \<and> \<not> line_search_failed lv2"
    unfolding r' by (simp add: counts_flags_def)
  then show ?thesis unfolding r' by (simp add: flat_example_precision)
qed

text \<open>
  Claim C10, amended. Let the function precision be positive and the values of the
  objective and of the merit function be doubles. Then \<^verbatim>\<open>lineSearch\<close> never returns
  the flag \<^verbatim>\<open>PAROPT_LINE_SEARCH_NO_IMPROVEMENT\<close>. The skipped-line-search path of
  \<^verbatim>\<open>optimize\<close> reports \<^verbatim>\<open>PAROPT_LINE_SEARCH_NO_IMPROVEMENT\<close> exactly when the objective
  after the step equals \<^verbatim>\<open>fobj_prev\<close> and \<^verbatim>\<open>fobj_prev + function_precision\<close> rounds to
  \<^verbatim>\<open>fobj_prev\<close>, and \<^verbatim>\<open>PAROPT_LINE_SEARCH_FAILURE\<close> otherwise. The flag
  \<^verbatim>\<open>no_merit_function_improvement\<close> that feeds the counter is set exactly when the
  flags of the iteration contain no improvement, the minimum step or a failure, and
  \<^verbatim>\<open>line_search_failed\<close> exactly when they contain a failure.
\<close>

theorem no_improvement_outcome:
  assumes fp: "0 < function_precision st"
    and md: "\<And>s f c x sv t sw.
      round_double (evalMeritFunc env s f c x sv t sw) = evalMeritFunc env s f c x sv t sw"
    and od: "\<And>x f c. round_double (fst (snd (evalObjCon env x f c))) = fst (snd (evalObjCon env x f c))"
    and m0d: "round_double m0 = m0"
    and fd: "round_double f_prev = f_prev"
  shows "PAROPT_LINE_SEARCH_NO_IMPROVEMENT \<notin> fst (lineSearch env st alpha_min alpha0 m0 dm0) \<and>
         fst (optimize_skip_line_search env f_prev st) =
           (if fobj (snd (optimize_skip_line_search env f_prev st)) = f_prev \<and>
               dadd f_prev (function_precision st) = f_prev
            then {PAROPT_LINE_SEARCH_NO_IMPROVEMENT} else {PAROPT_LINE_SEARCH_FAILURE}) \<and>
         counts_flags (optimize_iter_rest env k iv lv st)"
proof -
  have p: "0 \<le> function_precision st" using fp by simp
  show ?thesis
    using lineSearch_never_no_improvement[OF md m0d p, of alpha_min alpha0 dm0]
      optimize_skip_line_search_flags[OF fd od p]
      optimize_iter_rest_counts_flags[of env k iv lv st]
    by (intro conjI)
qed

theorem no_improvement_outcome_witness:
  "0 < function_precision flat_example \<and>
   PAROPT_LINE_SEARCH_NO_IMPROVEMENT \<notin> fst (lineSearch flat_env flat_example (1 / 2) 1 (2 ^ 24) (- 1)) \<and>
   fst (optimize_skip_line_search flat_env (2 ^ 24) flat_example) = {PAROPT_LINE_SEARCH_NO_IMPROVEMENT} \<and>
   counts_flags (optimize_iter_rest flat_env 1 flat_iter flat_vars flat_example)"
proof -
  have fp: "0 < function_precision flat_example" by (simp add: flat_example_precision)
  obtain x f c where "fobj (snd (optimize_skip_line_search flat_env (2 ^ 24) flat_example))
      = fst (snd (evalObjCon flat_env x f c))"
    using optimize_skip_line_search_objective by blast
  then have o: "fobj (snd (optimize_skip_line_search flat_env (2 ^ 24) flat_example)) = 2 ^ 24"
    by (simp add: flat_env_def)
  from no_improvement_outcome[OF fp flat_env_doubles round_double_2_24 round_double_2_24,
      of "1 / 2" 1 "- 1" 1 flat_iter flat_vars]
  show ?thesis
    unfolding o flat_example_precision dadd_2_24 using fp by simp
qed

end
